(* ===== verification/AL_Prelude.thy ===== *)
theory AL_Prelude
  imports Complex_Main "HOL-Library.Multiset" "HOL-Library.List_Lexorder" "HOL-Library.Char_ord"
    "HOL-Library.Product_Lexorder"
begin

text \<open>
  Shared vocabulary of the development: the Python exceptions the modelled code can raise,
  the result type that carries them, the list primitives of Python the code relies on
  (slicing \<open>xs[i:j]\<close>, indexing \<open>xs[i]\<close> with its \<open>IndexError\<close>, \<open>str(n)\<close> of an
  integer, \<open>sorted(..., reverse=True)\<close>), and the generic lemmas about them that the
  component theories use through the \<open>py_simps\<close> collection.
\<close>

named_theorems py_simps "rewrite rules for the Python primitives of the model"

section \<open>Exceptions and results\<close>

text \<open>
  Every exception the modelled code raises (or lets escape from a library call) is a
  constructor; a computation that may raise returns \<open>py_error + 'a\<close>, with \<open>Inl\<close> the
  exception.
\<close>

datatype py_error =
    ValueError
  | TypeError
  | IndexError
  | UnboundLocalError
  | AttributeError
  | FileNotFoundError
  | OSError
  | UnpicklingError
  | ZeroDivisionError
  | AssertionError
  | RuntimeError
  | UnidentifiedImageError

type_synonym 'a result = "py_error + 'a"

section \<open>Python lists\<close>

text \<open>\<open>xs[i:j]\<close> for non-negative bounds: Python clamps both bounds to the list.\<close>

definition py_slice :: "'a list \<Rightarrow> nat \<Rightarrow> nat \<Rightarrow> 'a list" where
  "py_slice xs i j = take (j - i) (drop i xs)"

text \<open>\<open>[xs[i] for i in idx]\<close>: the first index out of range raises \<open>IndexError\<close>.\<close>

fun py_index_all :: "'a list \<Rightarrow> nat list \<Rightarrow> 'a list result" where
  "py_index_all xs [] = Inr []"
| "py_index_all xs (i # idx) =
     (if i < length xs
      then (case py_index_all xs idx of Inl e \<Rightarrow> Inl e | Inr ys \<Rightarrow> Inr (xs ! i # ys))
      else Inl IndexError)"

text \<open>
  \<open>sorted(xs, key=f, reverse=True)\<close>. CPython implements \<open>reverse=True\<close> by reversing the
  list, sorting it stably in ascending order and reversing the result, so that elements with
  equal keys keep their original order.
\<close>

definition sorted_desc :: "('a \<Rightarrow> 'k::linorder) \<Rightarrow> 'a list \<Rightarrow> 'a list" where
  "sorted_desc f xs = rev (sort_key f (rev xs))"

text \<open>\<open>str(n)\<close> for a non-negative integer: its decimal digits.\<close>

fun py_str :: "nat \<Rightarrow> string" where
  "py_str n = (if n < 10 then [char_of (48 + n)] else py_str (n div 10) @ [char_of (48 + n mod 10)])"

declare py_str.simps [simp del]

text \<open>\<open>int(s)\<close> on a string of decimal digits, the inverse of \<open>py_str\<close>.\<close>

definition py_int :: "string \<Rightarrow> nat" where
  "py_int s = foldl (\<lambda>acc c. 10 * acc + (of_char c - 48)) 0 s"

section \<open>Lemmas on the primitives\<close>

lemma py_slice_length [py_simps]:
  "length (py_slice xs i j) = min (j - i) (length xs - i)"
  by (simp add: py_slice_def)

lemma py_slice_set [py_simps]: "set (py_slice xs i j) \<subseteq> set xs"
  by (auto simp: py_slice_def dest: in_set_takeD in_set_dropD)

lemma py_slice_append:
  "i \<le> j \<Longrightarrow> j \<le> k \<Longrightarrow> py_slice xs i j @ py_slice xs j k = py_slice xs i k"
proof -
  assume ij: "i \<le> j" and jk: "j \<le> k"
  have "take (j - i) (drop i xs) @ take (k - j) (drop (j - i) (drop i xs))
        = take (j - i + (k - j)) (drop i xs)"
    by (simp add: take_add)
  moreover have "drop (j - i) (drop i xs) = drop j xs"
    using ij by simp
  moreover have "j - i + (k - j) = k - i"
    using ij jk by simp
  ultimately show ?thesis by (simp add: py_slice_def)
qed

lemma py_slice_0 [py_simps]: "py_slice xs 0 j = take j xs"
  by (simp add: py_slice_def)

lemma py_index_all_eq [py_simps]:
  "py_index_all xs idx =
     (if \<forall>i \<in> set idx. i < length xs then Inr (map ((!) xs) idx) else Inl IndexError)"
  by (induction idx) auto

lemma py_index_all_Inr_set:
  "py_index_all xs idx = Inr ys \<Longrightarrow> set ys \<subseteq> set xs"
  by (auto simp: py_index_all_eq split: if_splits)

lemma sorted_desc_mset [py_simps]: "mset (sorted_desc f xs) = mset xs"
  by (simp add: sorted_desc_def)

lemma sorted_desc_length [py_simps]: "length (sorted_desc f xs) = length xs"
  by (simp add: sorted_desc_def)

lemma sorted_desc_set [py_simps]: "set (sorted_desc f xs) = set xs"
  by (simp add: sorted_desc_def)

text \<open>Consecutive keys of the result never increase.\<close>

lemma sorted_desc_sorted:
  "sorted_wrt (\<ge>) (map f (sorted_desc f xs))"
  by (simp add: sorted_desc_def rev_map [symmetric] sorted_wrt_rev)

lemma sorted_desc_nth:
  "Suc i < length xs \<Longrightarrow> f (sorted_desc f xs ! Suc i) \<le> f (sorted_desc f xs ! i)"
  using sorted_desc_sorted [of f xs]
  by (auto simp: sorted_wrt_iff_nth_less sorted_desc_length)

text \<open>Stability: among elements with the same key the input order is kept.\<close>

lemma sorted_desc_stable:
  "filter (\<lambda>y. f y = k) (sorted_desc f xs) = filter (\<lambda>y. f y = k) xs"
  by (simp add: sorted_desc_def rev_filter [symmetric] sort_key_stable)

text \<open>Sorting by key commutes with mapping, and depends only on the keys of the elements.\<close>

lemma insort_key_map: "insort_key f (g x) (map g xs) = map g (insort_key (f \<circ> g) x xs)"
  by (induction xs) auto

lemma sort_key_map: "sort_key f (map g xs) = map g (sort_key (f \<circ> g) xs)"
  by (induction xs) (auto simp: insort_key_map comp_def)

lemma insort_key_cong:
  "\<forall>y \<in> set (x # xs). f y = g y \<Longrightarrow> insort_key f x xs = insort_key g x xs"
  by (induction xs) auto

lemma sort_key_cong_set:
  "\<forall>y \<in> set xs. f y = g y \<Longrightarrow> sort_key f xs = sort_key g xs"
  by (induction xs) (auto intro!: insort_key_cong)

text \<open>A constant first component of a lexicographic key does not change the order.\<close>

lemma sort_key_pair_const: "sort_key (\<lambda>x. (c, f x)) xs = sort_key f xs"
proof -
  have ins: "insort_key (\<lambda>x. (c, f x)) x ys = insort_key f x ys" for x and ys :: "'a list"
    by (induction ys) auto
  show ?thesis by (induction xs) (simp_all add: ins)
qed

lemma sorted_map_pair_const: "sorted (map (\<lambda>x. (c, f x)) xs) \<longleftrightarrow> sorted (map f xs)"
  by (induction xs) auto

lemma zip_as_map_nth:
  "length xs \<le> length ys \<Longrightarrow> zip xs ys = map (\<lambda>i. (xs ! i, ys ! i)) [0..<length xs]"
  by (rule nth_equalityI) auto

lemma sorted_le_last: "sorted xs \<Longrightarrow> x \<in> set xs \<Longrightarrow> x \<le> last xs"
  by (induction xs) auto

lemma of_char_digit [simp]: "(n::nat) < 10 \<Longrightarrow> of_char (char_of (48 + n)) = 48 + n"
  by (simp add: of_char_of)

lemma py_int_snoc: "py_int (s @ [c]) = 10 * py_int s + (of_char c - 48)"
  by (simp add: py_int_def)

lemma py_int_py_str [py_simps]: "py_int (py_str n) = n"
proof (induction n rule: py_str.induct)
  case (1 n)
  show ?case
  proof (cases "n < 10")
    case True
    then show ?thesis by (simp add: py_str.simps [of n] py_int_def)
  next
    case False
    then have "py_int (py_str n) = 10 * py_int (py_str (n div 10)) + n mod 10"
      by (simp add: py_str.simps [of n] py_int_snoc)
    with False "1.IH" show ?thesis by simp
  qed
qed

lemma py_str_inj: "py_str m = py_str n \<longleftrightarrow> m = n"
  by (metis py_int_py_str)

end
