(* ===== verification/Config.thy ===== *)
theory Config
  imports AL_Prelude
begin

text \<open>
  The configuration the code reads through its \<open>args\<close> namespace, and the enumerations
  it compares configuration strings against. The enumeration modules
  (\<open>models/utils/ssl_method_enum.py\<close>, \<open>models/active_learning/al_method_enum.py\<close>,
  \<open>models/utils/training_type_enum.py\<close>, \<open>datautils/dataset_enum.py\<close>) are not part of
  the sources; their members are the ones the sources name, and each enumeration has one
  extra constructor for a configuration string that matches none of them, since the code
  compares plain strings.
\<close>

text \<open>
  \<open>MOCO\<close> is the member of \<open>utils/method_enum.py\<close> that \<open>datautils/imagenet.py\<close> compares
  \<open>args.method\<close> with; the other modules use \<open>SSL_Method\<close>.
\<close>

datatype ssl_method = SIMCLR | DCL | MYOW | SWAV | SUPERVISED | MOCO | Unknown_Method string

datatype al_method = LEAST_CONFIDENCE | ENTROPY | BOTH | Unknown_AL_Method string

datatype training_type = BASE_PRETRAIN | TARGET_PRETRAIN | ACTIVE_LEARNING | AL_FINETUNING

datatype dataset_type = IMAGENET | CIFAR10 | CHEST_XRAY | REAL | UCMERCED
  | Unknown_Dataset string

text \<open>
  The fields of \<open>args\<close> that the modelled code reads or writes. \<open>resume\<close> is \<open>None\<close>
  while no checkpoint has been written in this run (Python's falsy \<open>None\<close> or \<open>''\<close>).
\<close>

record args =
  method_name :: ssl_method
  al_method :: al_method
  al_batches :: nat
  al_epochs :: nat
  al_batch_size :: nat
  model_path :: string
  al_path_loss_file :: string
  pretrain_path_loss_file :: string
  resume :: "string option"
  epoch_num :: nat
  current_epoch :: nat
  start_epoch :: nat
  base_epochs :: nat
  target_epochs :: nat
  global_step :: nat
  base_dataset :: dataset_type
  target_dataset :: dataset_type
  dataset_dir :: string
  batch_size :: nat
  base_optimizer :: string
  target_optimizer :: string

text \<open>\<open>args.resume\<close> used as a condition: \<open>None\<close> and the empty string are false.\<close>

definition resume_set :: "args \<Rightarrow> bool" where
  "resume_set a = (case resume a of None \<Rightarrow> False | Some s \<Rightarrow> s \<noteq> [])"

text \<open>
  \<open>get_params(args, training_type).batch_size\<close> (\<open>models/utils/commons.py\<close>, not in the
  sources). The scorer's comment in \<open>make_batches\<close> (setting \<open>args.al_batch_size = 1\<close>
  so that the model "can use a batch size of 1") fixes the active-learning case; every other
  training type reads the general \<open>args.batch_size\<close>.
\<close>

definition params_batch_size :: "args \<Rightarrow> training_type \<Rightarrow> nat" where
  "params_batch_size a tt = (if tt = ACTIVE_LEARNING then al_batch_size a else batch_size a)"

text \<open>
  A configuration used by the concrete examples of the development: SimCLR, least-confidence
  acquisition, two active-learning batches of one epoch each, checkpoints under \<open>save\<close>.
\<close>

definition demo_args :: args where
  "demo_args =
     \<lparr>method_name = SIMCLR, al_method = LEAST_CONFIDENCE, al_batches = 2, al_epochs = 1,
      al_batch_size = 256, model_path = ''save'', al_path_loss_file = ''al_path_loss.pkl'',
      pretrain_path_loss_file = ''pretrain_path_loss.pkl'', resume = None, epoch_num = 400,
      current_epoch = 0, start_epoch = 0, base_epochs = 400, target_epochs = 400,
      global_step = 0, base_dataset = IMAGENET, target_dataset = CHEST_XRAY,
      dataset_dir = ''./datasets'', batch_size = 256, base_optimizer = ''Adam-Cosine'',
      target_optimizer = ''Adam-Cosine''\<rparr>"

end
