(* ===== verification/Path_Loss.thy ===== *)
theory Path_Loss
  imports AL_Prelude
begin

text \<open>
  \<open>datautils/path_loss.py\<close>: the \<open>PathLoss\<close> dataclass, a sample reference and its
  scalar loss. The path type is a parameter: the scorer stores what the data loader yields
  for a batch of paths. \<open>@dataclass(order=True)\<close> compares instances as the tuples of
  their fields in declaration order, \<open>(sort_index, path, loss)\<close>, with
  \<open>sort_index = loss\<close> set by \<open>__post_init__\<close>; this order is the \<open>linorder\<close>
  instance below. Losses are real numbers: the floating-point rounding and the NaN of the
  Python floats are not modelled here.
\<close>

datatype 'p path_loss = PathLoss (path: 'p) (loss: real)

text \<open>\<open>__post_init__\<close>: the field the generated comparisons look at first.\<close>

definition sort_index :: "'p path_loss \<Rightarrow> real" where
  "sort_index x = loss x"

text \<open>The tuple \<open>dataclass(order=True)\<close> compares.\<close>

definition cmp_tuple :: "'p path_loss \<Rightarrow> real \<times> 'p \<times> real" where
  "cmp_tuple x = (sort_index x, path x, loss x)"

lemma cmp_tuple_inj: "cmp_tuple x = cmp_tuple y \<Longrightarrow> x = y"
  by (cases x; cases y) (simp add: cmp_tuple_def sort_index_def)

instantiation path_loss :: (linorder) linorder
begin

definition less_eq_path_loss :: "'a path_loss \<Rightarrow> 'a path_loss \<Rightarrow> bool" where
  "less_eq_path_loss x y \<longleftrightarrow> cmp_tuple x \<le> cmp_tuple y"

definition less_path_loss :: "'a path_loss \<Rightarrow> 'a path_loss \<Rightarrow> bool" where
  "less_path_loss x y \<longleftrightarrow> cmp_tuple x < cmp_tuple y"

instance
proof
  fix x y z :: "'a path_loss"
  show "(x < y) = (x \<le> y \<and> \<not> y \<le> x)"
    by (auto simp: less_eq_path_loss_def less_path_loss_def)
  show "x \<le> x" by (simp add: less_eq_path_loss_def)
  show "x \<le> y \<Longrightarrow> y \<le> z \<Longrightarrow> x \<le> z"
    by (auto simp: less_eq_path_loss_def)
  show "x \<le> y \<Longrightarrow> y \<le> x \<Longrightarrow> x = y"
    by (auto simp: less_eq_path_loss_def intro: cmp_tuple_inj)
  show "x \<le> y \<or> y \<le> x"
    by (auto simp: less_eq_path_loss_def)
qed

end

section \<open>The dataclass order and the loss\<close>

text \<open>
  The generated order refines the order by loss: a smaller loss is a smaller record, and
  records in order have losses in order. Ties in the loss are broken by the path.
\<close>

lemma path_loss_less_by_loss: "loss x < loss y \<Longrightarrow> x < y"
  by (simp add: less_path_loss_def cmp_tuple_def sort_index_def)

lemma path_loss_le_loss: "x \<le> y \<Longrightarrow> loss x \<le> loss y"
  by (auto simp: less_eq_path_loss_def cmp_tuple_def sort_index_def)

lemma path_loss_sorted_loss: "sorted xs \<Longrightarrow> sorted (map loss (xs :: 'p::linorder path_loss list))"
  by (induction xs) (auto intro: path_loss_le_loss)

end
