(* ===== verification/File_Store.thy ===== *)
theory File_Store
  imports Config Path_Loss
begin

text \<open>
  \<open>utils/commons.py\<close>: persistence of sample lists (\<open>pickle\<close>) and of model states
  (\<open>torch.save\<close>/\<open>torch.load\<close>). The file system is a map from full paths to stored
  objects, together with the set of paths that can be opened for writing. What is stored
  is one of three things: a pickled list of \<open>PathLoss\<close>, a \<open>{'model': w}\<close> dictionary
  written by \<open>simple_save_model\<close>, or a training checkpoint
  \<open>{'model': w, opt_type + '-optimizer': o}\<close> written by \<open>save_state\<close>. Weights
  \<open>'w\<close> and optimizer states \<open>'o\<close> are opaque.
\<close>

datatype ('p, 'w, 'o) blob =
    Pickle "'p path_loss list"
  | Torch_Model 'w
  | Torch_Checkpoint 'w string 'o

record ('p, 'w, 'o) fs =
  files :: "string \<rightharpoonup> ('p, 'w, 'o) blob"
  writable :: "string \<Rightarrow> bool"

text \<open>
  \<open>os.path.join(a, b)\<close> on POSIX: an absolute \<open>b\<close> replaces \<open>a\<close>, and a separator
  is inserted unless \<open>a\<close> is empty or already ends with one.
\<close>

definition path_join :: "string \<Rightarrow> string \<Rightarrow> string" where
  "path_join a b =
     (if take 1 b = ''/'' then b
      else if a = [] \<or> last a = CHR ''/'' then a @ b else a @ ''/'' @ b)"

text \<open>A relative file name, as every name the code passes to \<open>os.path.join\<close>.\<close>

definition relative :: "string \<Rightarrow> bool" where
  "relative b \<longleftrightarrow> take 1 b \<noteq> ''/''"

section \<open>Sample lists\<close>

text \<open>
  \<open>save_path_loss\<close>: an \<open>IOError\<close> on opening is caught and printed, and the store is
  left as it was.
\<close>

definition save_path_loss ::
  "args \<Rightarrow> string \<Rightarrow> 'p path_loss list \<Rightarrow> ('p, 'w, 'o) fs \<Rightarrow> ('p, 'w, 'o) fs" where
  "save_path_loss a filename xs st =
     (let out = path_join (model_path a) filename
      in if writable st out then st\<lparr>files := (files st)(out \<mapsto> Pickle xs)\<rparr> else st)"

text \<open>
  \<open>load_path_loss\<close>: a missing file is an \<open>IOError\<close>, caught, and gives \<open>None\<close>. Only
  \<open>IOError\<close> is caught: a file that exists but is not a pickle (a \<open>torch.save\<close>
  archive under the same name) makes \<open>pickle.load\<close> raise \<open>UnpicklingError\<close>, which
  escapes.
\<close>

definition load_path_loss ::
  "args \<Rightarrow> string \<Rightarrow> ('p, 'w, 'o) fs \<Rightarrow> 'p path_loss list option result" where
  "load_path_loss a filename st =
     (case files st (path_join (model_path a) filename) of
        None \<Rightarrow> Inr None
      | Some (Pickle xs) \<Rightarrow> Inr (Some xs)
      | Some _ \<Rightarrow> Inl UnpicklingError)"

section \<open>Model states\<close>

text \<open>\<open>simple_save_model\<close>: \<open>torch.save\<close> is not guarded, an unwritable path raises.\<close>

definition simple_save_model ::
  "args \<Rightarrow> 'w \<Rightarrow> string \<Rightarrow> ('p, 'w, 'o) fs \<Rightarrow> ('p, 'w, 'o) fs result" where
  "simple_save_model a w p st =
     (let out = path_join (model_path a) p
      in if writable st out then Inr (st\<lparr>files := (files st)(out \<mapsto> Torch_Model w)\<rparr>)
         else Inl OSError)"

text \<open>
  \<open>simple_load_model\<close>: \<open>torch.load(out)['model']\<close>. A missing file raises
  \<open>FileNotFoundError\<close>; a pickled list has no \<open>'model'\<close> key (\<open>TypeError\<close> on
  indexing a list with a string).
\<close>

definition simple_load_model ::
  "args \<Rightarrow> string \<Rightarrow> ('p, 'w, 'o) fs \<Rightarrow> 'w result" where
  "simple_load_model a p st =
     (case files st (path_join (model_path a) p) of
        None \<Rightarrow> Inl FileNotFoundError
      | Some (Torch_Model w) \<Rightarrow> Inr w
      | Some (Torch_Checkpoint w _ _) \<Rightarrow> Inr w
      | Some (Pickle _) \<Rightarrow> Inl TypeError)"

text \<open>The file name prefix of a training checkpoint: anything but SimCLR and DCL is MYOW.\<close>

definition ckpt_prefix :: "ssl_method \<Rightarrow> string" where
  "ckpt_prefix m = (if m = SIMCLR then ''simclr'' else if m = DCL then ''dcl'' else ''myow'')"

text \<open>\<open>"{}_{}_checkpoint_{}.tar".format(prefix, pretrain_level, epoch)\<close> under \<open>model_path\<close>.\<close>

definition checkpoint_file :: "args \<Rightarrow> string \<Rightarrow> nat \<Rightarrow> string" where
  "checkpoint_file a level e =
     path_join (model_path a)
       (ckpt_prefix (method_name a) @ ''_'' @ level @ ''_checkpoint_'' @ py_str e @ ''.tar'')"

text \<open>
  \<open>save_state\<close>: writes the checkpoint of the current epoch and points \<open>args.resume\<close>
  at it. \<open>torch.save\<close> is not guarded.
\<close>

definition save_state ::
  "args \<Rightarrow> 'w \<Rightarrow> 'o \<Rightarrow> string \<Rightarrow> string \<Rightarrow> ('p, 'w, 'o) fs \<Rightarrow> (args \<times> ('p, 'w, 'o) fs) result" where
  "save_state a w opt level opt_type st =
     (let out = checkpoint_file a level (current_epoch a)
      in if writable st out
         then Inr (a\<lparr>resume := Some out\<rparr>,
                   st\<lparr>files := (files st)(out \<mapsto> Torch_Checkpoint w (opt_type @ ''-optimizer'') opt)\<rparr>)
         else Inl OSError)"

text \<open>
  \<open>load_saved_state\<close>: the most recent checkpoint of this run when \<open>recent\<close> and
  \<open>args.resume\<close> is set, otherwise the checkpoint of epoch \<open>args.epoch_num\<close>. It returns
  whatever \<open>torch.load\<close> returns; a missing file raises.
\<close>

definition load_saved_state ::
  "args \<Rightarrow> bool \<Rightarrow> string \<Rightarrow> ('p, 'w, 'o) fs \<Rightarrow> ('p, 'w, 'o) blob result" where
  "load_saved_state a recent level st =
     (let model_fp = (if recent \<and> resume_set a then the (resume a)
                      else checkpoint_file a level (epoch_num a))
      in case files st model_fp of None \<Rightarrow> Inl FileNotFoundError | Some b \<Rightarrow> Inr b)"

text \<open>\<open>state['model']\<close> on what \<open>torch.load\<close> returned.\<close>

definition state_model :: "('p, 'w, 'o) blob \<Rightarrow> 'w result" where
  "state_model b =
     (case b of Torch_Model w \<Rightarrow> Inr w | Torch_Checkpoint w _ _ \<Rightarrow> Inr w | Pickle _ \<Rightarrow> Inl TypeError)"

text \<open>\<open>f'proxy_{batch}.pth'\<close>, the proxy checkpoint of an active-learning batch.\<close>

definition proxy_file :: "nat \<Rightarrow> string" where
  "proxy_file b = ''proxy_'' @ py_str b @ ''.pth''"

text \<open>
  A store \<open>st'\<close> that extends \<open>st\<close> by writes under the directory \<open>mp\<close> to the file
  names \<open>N\<close> only: no file is removed, writability is unchanged, and every file that changed
  is \<open>os.path.join(mp, n)\<close> for some \<open>n \<in> N\<close>.
\<close>

definition writes_only :: "string \<Rightarrow> string set \<Rightarrow> ('p, 'w, 'o) fs \<Rightarrow> ('p, 'w, 'o) fs \<Rightarrow> bool" where
  "writes_only mp N st st' \<longleftrightarrow>
     writable st' = writable st \<and> dom (files st) \<subseteq> dom (files st')
     \<and> (\<forall>f. files st' f \<noteq> files st f \<longrightarrow> f \<in> path_join mp ` N)"

section \<open>Images\<close>

text \<open>
  \<open>pil_loader(path)\<close>: the dataset images lie outside \<open>args.model_path\<close> and are only
  read, so they are a map of their own from paths to file contents: an image in some mode
  (\<open>'L'\<close>, \<open>'RGBA'\<close>, ...) with its pixels, or a file PIL cannot identify. \<open>open\<close> on a
  missing path raises \<open>FileNotFoundError\<close>, \<open>Image.open\<close> on a non-image raises
  \<open>PIL.UnidentifiedImageError\<close>, and \<open>convert('RGB')\<close> maps the pixels with the mode
  conversion \<open>conv\<close>.
\<close>

datatype 'px image_file = Image_Data string 'px | Not_Image

datatype 'px pil_image = PIL_Image string 'px

definition pil_loader ::
  "(string \<Rightarrow> 'px \<Rightarrow> 'px) \<Rightarrow> (string \<rightharpoonup> 'px image_file) \<Rightarrow> string \<Rightarrow> 'px pil_image result" where
  "pil_loader conv imgs fp =
     (case imgs fp of
        None \<Rightarrow> Inl FileNotFoundError
      | Some Not_Image \<Rightarrow> Inl UnidentifiedImageError
      | Some (Image_Data mode px) \<Rightarrow> Inr (PIL_Image ''RGB'' (conv mode px)))"

section \<open>Lemmas\<close>

lemma path_join_relative_inj:
  "relative b1 \<Longrightarrow> relative b2 \<Longrightarrow> path_join a b1 = path_join a b2 \<Longrightarrow> b1 = b2"
  by (auto simp: path_join_def relative_def split: if_splits)

lemma proxy_file_relative [simp]: "relative (proxy_file b)"
  by (simp add: proxy_file_def relative_def)

lemma proxy_file_inj: "proxy_file b = proxy_file c \<longleftrightarrow> b = c"
  by (simp add: proxy_file_def py_str_inj)

lemma save_path_loss_files:
  "files (save_path_loss a f xs st) =
     (if writable st (path_join (model_path a) f)
      then (files st)(path_join (model_path a) f \<mapsto> Pickle xs) else files st)"
  by (simp add: save_path_loss_def Let_def)

text \<open>The batch size in \<open>args\<close> plays no part in persistence.\<close>

lemma save_path_loss_al_batch_size [simp]:
  "save_path_loss (a\<lparr>al_batch_size := n\<rparr>) f xs st = save_path_loss a f xs st"
  by (simp add: save_path_loss_def)

lemma load_saved_state_al_batch_size [simp]:
  "load_saved_state (a\<lparr>al_batch_size := n\<rparr>) r l st = load_saved_state a r l st"
  by (simp add: load_saved_state_def resume_set_def checkpoint_file_def)

lemma save_path_loss_writable [simp]: "writable (save_path_loss a f xs st) = writable st"
  by (simp add: save_path_loss_def Let_def)

lemma simple_save_model_Inr:
  "simple_save_model a w p st = Inr st' \<longleftrightarrow>
     writable st (path_join (model_path a) p) \<and>
     st' = st\<lparr>files := (files st)(path_join (model_path a) p \<mapsto> Torch_Model w)\<rparr>"
  by (auto simp: simple_save_model_def Let_def)

section \<open>Round trips\<close>

text \<open>
  C3: persisting a list of \<open>PathLoss\<close> with \<open>save_path_loss\<close> and reading it back with
  \<open>load_path_loss\<close> under the same name gives the identical list, paths and losses in the
  same order, provided the file could be opened for writing.
\<close>

theorem path_loss_roundtrip:
  assumes "writable st (path_join (model_path a) f)"
  shows "load_path_loss a f (save_path_loss a f xs st) = Inr (Some xs)"
  using assms by (simp add: load_path_loss_def save_path_loss_files)

theorem path_loss_roundtrip_witness:
  "writable \<lparr>files = Map.empty, writable = (\<lambda>_. True)\<rparr> (path_join (model_path demo_args) ''pool.pkl'')
   \<and> load_path_loss demo_args ''pool.pkl''
       (save_path_loss demo_args ''pool.pkl'' [PathLoss ''img_0.png'' 2.5, PathLoss ''img_1.png'' 1]
         (\<lparr>files = Map.empty, writable = (\<lambda>_. True)\<rparr> :: (string, unit, unit) fs))
     = Inr (Some [PathLoss ''img_0.png'' 2.5, PathLoss ''img_1.png'' 1])"
  using path_loss_roundtrip [of "\<lparr>files = Map.empty, writable = (\<lambda>_. True)\<rparr> :: (string, unit, unit) fs"
      demo_args "''pool.pkl''" "[PathLoss ''img_0.png'' 2.5, PathLoss ''img_1.png'' 1]"]
  by simp

text \<open>A save that fails to open its file is only printed: the store is unchanged.\<close>

lemma save_path_loss_unwritable:
  "\<not> writable st (path_join (model_path a) f) \<Longrightarrow> save_path_loss a f xs st = st"
  by (simp add: save_path_loss_def)

text \<open>Saving under one relative name leaves every other relative name as it was.\<close>

lemma load_path_loss_other:
  "relative f \<Longrightarrow> relative g \<Longrightarrow> f \<noteq> g \<Longrightarrow>
   load_path_loss a g (save_path_loss a f xs st) = load_path_loss a g st"
  by (auto simp: load_path_loss_def save_path_loss_files dest: path_join_relative_inj)

lemma model_roundtrip:
  "simple_save_model a w p st = Inr st' \<Longrightarrow> simple_load_model a p st' = Inr w"
  by (auto simp: simple_save_model_Inr simple_load_model_def)

lemma model_roundtrip_other:
  "simple_save_model a w p st = Inr st' \<Longrightarrow> relative p \<Longrightarrow> relative q \<Longrightarrow> p \<noteq> q \<Longrightarrow>
   simple_load_model a q st' = simple_load_model a q st"
  by (auto simp: simple_save_model_Inr simple_load_model_def dest: path_join_relative_inj)

lemma load_path_loss_save_model:
  "simple_save_model a w p st = Inr st' \<Longrightarrow> relative p \<Longrightarrow> relative f \<Longrightarrow> p \<noteq> f \<Longrightarrow>
   load_path_loss a f st' = load_path_loss a f st"
  by (auto simp: simple_save_model_Inr load_path_loss_def dest: path_join_relative_inj)

text \<open>The name of a checkpoint does not depend on the step and epoch counters or on \<open>resume\<close>.\<close>

lemma checkpoint_file_upd [simp]:
  "checkpoint_file (a\<lparr>global_step := g\<rparr>) = checkpoint_file a"
  "checkpoint_file (a\<lparr>current_epoch := c\<rparr>) = checkpoint_file a"
  "checkpoint_file (a\<lparr>resume := r\<rparr>) = checkpoint_file a"
  by (simp_all add: fun_eq_iff checkpoint_file_def)

text \<open>A checkpoint path is never the empty string, so a \<open>resume\<close> set to one counts as set.\<close>

lemma checkpoint_file_nonempty [simp]: "checkpoint_file a level e \<noteq> []"
  by (simp add: checkpoint_file_def path_join_def)

text \<open>
  After \<open>save_state\<close>, \<open>load_saved_state\<close> with \<open>recent\<close> reads back the checkpoint
  just written, through \<open>args.resume\<close>.
\<close>

lemma checkpoint_roundtrip:
  "save_state a w opt level ot st = Inr (a', st') \<Longrightarrow>
   load_saved_state a' True level' st' = Inr (Torch_Checkpoint w (ot @ ''-optimizer'') opt)"
  by (auto simp: save_state_def load_saved_state_def resume_set_def checkpoint_file_def
      path_join_def Let_def split: if_splits)

text \<open>Checkpoints of different epochs are different files.\<close>

lemma checkpoint_name_relative: "relative (ckpt_prefix m @ s)"
  by (simp add: relative_def ckpt_prefix_def)

lemma checkpoint_file_inj:
  "checkpoint_file a level e = checkpoint_file a level e' \<longleftrightarrow> e = e'"
  by (auto simp: checkpoint_file_def py_str_inj
      dest!: path_join_relative_inj [OF checkpoint_name_relative checkpoint_name_relative])

section \<open>Stores extended by writes\<close>

lemma writes_only_refl [intro]: "writes_only mp N st st"
  by (simp add: writes_only_def)

lemma writes_only_trans:
  "writes_only mp N st1 st2 \<Longrightarrow> writes_only mp N st2 st3 \<Longrightarrow> writes_only mp N st1 st3"
  unfolding writes_only_def by (metis subset_trans)

lemma save_path_loss_writes_only:
  "f \<in> N \<Longrightarrow> writes_only (model_path a) N st (save_path_loss a f xs st)"
  by (auto simp: writes_only_def save_path_loss_files)

lemma simple_save_model_writes_only:
  "simple_save_model a w p st = Inr st' \<Longrightarrow> p \<in> N \<Longrightarrow> writes_only (model_path a) N st st'"
  by (auto simp: writes_only_def simple_save_model_Inr)

text \<open>Every image \<open>pil_loader\<close> returns is in mode \<open>RGB\<close>; its failures are the two errors of opening.\<close>

lemma pil_loader_cases:
  "pil_loader conv imgs p = Inr img \<Longrightarrow> \<exists>mode px. imgs p = Some (Image_Data mode px) \<and> img = PIL_Image ''RGB'' (conv mode px)"
  "pil_loader conv imgs p = Inl e \<Longrightarrow> e \<in> {FileNotFoundError, UnidentifiedImageError}"
  by (auto simp: pil_loader_def split: option.splits image_file.splits)

end
