(* ===== verification/Selector.thy ===== *)
theory Selector
  imports Config
begin

text \<open>
  The acquisition policy \<open>PretextTrainer.get_new_samples\<close>
  (\<open>models/active_learning/pretext_trainer.py\<close>, lines 108--135). It receives the
  softmax predictions of the proxy as a matrix, one row per sample, and the samples in the
  same order, ranks the rows by least confidence, by entropy, or (\<open>BOTH\<close>) by a
  combination, maps the ranking back to the samples and keeps the first 5120.

  NumPy floating point values are modelled as real numbers with one extra value \<open>NaN\<close>:
  \<open>np.log(p) * p\<close> is NaN for \<open>p = 0\<close> (\<open>-inf * 0\<close>) and for \<open>p < 0\<close>, and NaN
  propagates through sums. \<open>argsort\<close> is a parameter: NumPy's default sort is not
  stable, so any function that returns a permutation of the row indices sorted by key,
  with NaN after every number as NumPy orders it, is admitted (\<open>is_argsort\<close>);
  \<open>stable_argsort\<close> is one of them.
\<close>

datatype float64 = F real | NaN

fun f_add :: "float64 \<Rightarrow> float64 \<Rightarrow> float64" where
  "f_add (F x) (F y) = F (x + y)"
| "f_add _ _ = NaN"

fun f_neg :: "float64 \<Rightarrow> float64" where
  "f_neg (F x) = F (- x)"
| "f_neg NaN = NaN"

text \<open>The position of a value in NumPy's sort order: every number before NaN.\<close>

fun nan_key :: "float64 \<Rightarrow> bool \<times> real" where
  "nan_key (F x) = (False, x)"
| "nan_key NaN = (True, 0)"

text \<open>\<open>np.log(p) * p\<close> for one probability.\<close>

definition np_log_mul :: "real \<Rightarrow> float64" where
  "np_log_mul p = (if 0 < p then F (ln p * p) else NaN)"

text \<open>\<open>(np.log(preds) * preds).sum(axis=1) * -1.\<close> for one row.\<close>

definition entropy :: "real list \<Rightarrow> float64" where
  "entropy row = f_neg (foldr f_add (map np_log_mul row) (F 0))"

text \<open>\<open>preds.max(axis=1)\<close> for one row (a non-empty row: the caller checks).\<close>

definition row_max :: "real list \<Rightarrow> real" where
  "row_max row = Max (set row)"

definition is_argsort :: "(float64 list \<Rightarrow> nat list) \<Rightarrow> bool" where
  "is_argsort srt \<longleftrightarrow>
     (\<forall>ks. mset (srt ks) = mset [0..<length ks] \<and> sorted (map (\<lambda>i. nan_key (ks ! i)) (srt ks)))"

definition stable_argsort :: "float64 list \<Rightarrow> nat list" where
  "stable_argsort ks = sort_key (\<lambda>i. nan_key (ks ! i)) [0..<length ks]"

text \<open>
  \<open>probs = preds.max(axis=1); indices = probs.argsort(axis=0)\<close>. A row without
  entries makes the reduction raise \<open>ValueError\<close>.
\<close>

definition lc_indices :: "(float64 list \<Rightarrow> nat list) \<Rightarrow> real list list \<Rightarrow> nat list result" where
  "lc_indices argsort preds =
     (if [] \<in> set preds then Inl ValueError else Inr (argsort (map (\<lambda>row. F (row_max row)) preds)))"

text \<open>\<open>entropy = ...; indices = entropy.argsort(axis=0)[::-1]\<close>.\<close>

definition entropy_indices :: "(float64 list \<Rightarrow> nat list) \<Rightarrow> real list list \<Rightarrow> nat list" where
  "entropy_indices argsort preds = rev (argsort (map entropy preds))"

text \<open>
  The whole policy. In the \<open>BOTH\<close> branch the two index arrays are added elementwise and
  shuffled, and then sliced with \<open>len(indices)/2\<close>, which is a float in Python 3:
  slicing a NumPy array with a float bound raises \<open>TypeError\<close>, so the branch never
  returns. \<open>samples[item]\<close> raises \<open>IndexError\<close> for an index past the samples.
\<close>

definition get_new_samples ::
  "(float64 list \<Rightarrow> nat list) \<Rightarrow> al_method \<Rightarrow> real list list \<Rightarrow> 'a list \<Rightarrow> 'a list result" where
  "get_new_samples argsort m preds samples =
     (let chosen =
        (if m = LEAST_CONFIDENCE then lc_indices argsort preds
         else if m = ENTROPY then Inr (entropy_indices argsort preds)
         else if m = BOTH then
           (case lc_indices argsort preds of
              Inl e \<Rightarrow> Inl e
            | Inr indices1 \<Rightarrow>
                (let indices2 = entropy_indices argsort preds;
                     indices = map2 (+) indices1 indices2
                 in Inl TypeError))
         else Inl ValueError)
      in case chosen of
           Inl e \<Rightarrow> Inl e
         | Inr indices \<Rightarrow>
             (case py_index_all samples indices of
                Inl e \<Rightarrow> Inl e
              | Inr new_samples \<Rightarrow> Inr (take 5120 new_samples)))"

section \<open>The argsort interface\<close>

lemma is_argsortD:
  assumes "is_argsort srt"
  shows argsort_mset: "mset (srt ks) = mset [0..<length ks]"
    and argsort_sorted: "sorted (map (\<lambda>i. nan_key (ks ! i)) (srt ks))"
  using assms by (auto simp: is_argsort_def)

lemma argsort_set:
  "is_argsort srt \<Longrightarrow> set (srt ks) = {0..<length ks}"
  by (metis argsort_mset set_mset_mset set_upt)

lemma argsort_length:
  "is_argsort srt \<Longrightarrow> length (srt ks) = length ks"
  by (metis argsort_mset size_mset length_upt minus_nat.diff_0)

lemma argsort_distinct:
  "is_argsort srt \<Longrightarrow> distinct (srt ks)"
  by (metis argsort_mset distinct_upt mset_eq_imp_distinct_iff)

lemma stable_argsort_is_argsort: "is_argsort stable_argsort"
  by (simp add: is_argsort_def stable_argsort_def)

lemmas argsort_facts = argsort_set argsort_length argsort_distinct

text \<open>The ranking read back through a permutation of the row indices stays in range.\<close>

lemma index_all_argsort:
  assumes "is_argsort srt" and "length ks \<le> length samples"
  shows "py_index_all samples (srt ks) = Inr (map ((!) samples) (srt ks))"
  using assms by (auto simp: py_index_all_eq argsort_set)

lemma index_all_argsort_rev:
  assumes "is_argsort srt" and "length ks \<le> length samples"
  shows "py_index_all samples (rev (srt ks)) = Inr (map ((!) samples) (rev (srt ks)))"
  using assms by (auto simp: py_index_all_eq argsort_set)

section \<open>Entropy and NaN\<close>

lemma f_add_NaN_right [simp]: "f_add x NaN = NaN"
  by (cases x) auto

lemma f_neg_NaN_iff [simp]: "f_neg x = NaN \<longleftrightarrow> x = NaN"
  by (cases x) auto

lemma foldr_f_add_NaN: "NaN \<in> set xs \<Longrightarrow> foldr f_add xs y = NaN"
  by (induction xs) auto

lemma foldr_f_add_F: "NaN \<notin> set xs \<Longrightarrow> \<exists>r. foldr f_add xs (F 0) = F r"
proof (induction xs)
  case (Cons x xs)
  then show ?case by (cases x) auto
qed simp

text \<open>A row with a probability that is not positive has entropy NaN; other rows a number.\<close>

lemma entropy_NaN_iff: "entropy row = NaN \<longleftrightarrow> (\<exists>p \<in> set row. p \<le> 0)"
proof
  assume "entropy row = NaN"
  then have "NaN \<in> set (map np_log_mul row)"
    using foldr_f_add_F [of "map np_log_mul row"] by (auto simp: entropy_def)
  then show "\<exists>p \<in> set row. p \<le> 0"
    by (auto simp: np_log_mul_def not_less split: if_splits)
next
  assume "\<exists>p \<in> set row. p \<le> 0"
  then have "NaN \<in> set (map np_log_mul row)"
    by (force simp: np_log_mul_def)
  then show "entropy row = NaN"
    by (simp add: entropy_def foldr_f_add_NaN)
qed

lemma nan_key_top: "(True, 0) \<le> nan_key k \<Longrightarrow> k = NaN"
  by (cases k) auto

lemma nan_key_le_NaN [simp]: "nan_key k \<le> (True, 0)"
  by (cases k) auto

section \<open>Branches of the policy\<close>

lemma get_new_samples_lc:
  "get_new_samples srt LEAST_CONFIDENCE preds samples =
     (case lc_indices srt preds of Inl e \<Rightarrow> Inl e
      | Inr idx \<Rightarrow> (case py_index_all samples idx of Inl e \<Rightarrow> Inl e | Inr ys \<Rightarrow> Inr (take 5120 ys)))"
  by (simp add: get_new_samples_def)

lemma get_new_samples_entropy:
  "get_new_samples srt ENTROPY preds samples =
     (case py_index_all samples (entropy_indices srt preds) of
        Inl e \<Rightarrow> Inl e | Inr ys \<Rightarrow> Inr (take 5120 ys))"
  by (simp add: get_new_samples_def)

lemma lc_keys_sorted:
  assumes "is_argsort srt"
  shows "sorted (map (\<lambda>i. row_max (preds ! i)) (srt (map (\<lambda>row. F (row_max row)) preds)))"
proof -
  let ?ks = "map (\<lambda>row. F (row_max row)) preds"
  have "map (\<lambda>i. nan_key (?ks ! i)) (srt ?ks) = map (\<lambda>i. (False, row_max (preds ! i))) (srt ?ks)"
    using argsort_set [OF assms, of ?ks] by (auto intro!: map_cong)
  with argsort_sorted [OF assms, of ?ks] show ?thesis
    by (simp add: sorted_map_pair_const)
qed

lemmas selector_simps = get_new_samples_lc get_new_samples_entropy lc_indices_def
  entropy_indices_def index_all_argsort index_all_argsort_rev

text \<open>
  C5: under least confidence, the selection is the first 5120 samples of a ranking of all
  rows (a permutation of the row indices) by their maximal probability, ascending: the
  least confident sample first.
\<close>

theorem least_confidence_ranking:
  assumes "is_argsort srt" and "[] \<notin> set preds" and "length preds \<le> length samples"
  shows "\<exists>idx. get_new_samples srt LEAST_CONFIDENCE preds samples = Inr (take 5120 (map ((!) samples) idx))
           \<and> mset idx = mset [0..<length preds] \<and> sorted (map (\<lambda>i. row_max (preds ! i)) idx)"
proof -
  let ?idx = "srt (map (\<lambda>row. F (row_max row)) preds)"
  have "get_new_samples srt LEAST_CONFIDENCE preds samples = Inr (take 5120 (map ((!) samples) ?idx))"
    using assms by (simp add: selector_simps)
  moreover have "mset ?idx = mset [0..<length preds]"
    using argsort_mset [OF assms(1)] by simp
  ultimately show ?thesis
    using lc_keys_sorted [OF assms(1)] by blast
qed

theorem least_confidence_ranking_witness:
  "is_argsort stable_argsort \<and> [] \<notin> set [[0.9, 0.1], [0.6, 0.4::real]] \<and> length [[0.9, 0.1], [0.6, 0.4::real]] \<le> length [''a'', ''b'']
   \<and> (\<exists>idx. get_new_samples stable_argsort LEAST_CONFIDENCE [[0.9, 0.1], [0.6, 0.4]] [''a'', ''b'']
          = Inr (take 5120 (map ((!) [''a'', ''b'']) idx))
        \<and> mset idx = mset [0..<length [[0.9, 0.1], [0.6, 0.4::real]]]
        \<and> sorted (map (\<lambda>i. row_max ([[0.9, 0.1], [0.6, 0.4]] ! i)) idx))"
  using least_confidence_ranking [OF stable_argsort_is_argsort, of "[[0.9, 0.1], [0.6, 0.4]]" "[''a'', ''b'']"]
  by (simp add: stable_argsort_is_argsort)

text \<open>
  C9: under entropy, the selection is the first 5120 samples of a ranking of all rows by
  their entropy, descending (the reversed ascending argsort), where NumPy's NaN, the
  entropy of a row holding a zero probability, counts as larger than every number.
\<close>

theorem entropy_ranking:
  assumes "is_argsort srt" and "length preds \<le> length samples"
  shows "\<exists>idx. get_new_samples srt ENTROPY preds samples = Inr (take 5120 (map ((!) samples) (rev idx)))
           \<and> mset idx = mset [0..<length preds] \<and> sorted (map (\<lambda>i. nan_key (entropy (preds ! i))) idx)"
proof -
  let ?ks = "map entropy preds"
  have "get_new_samples srt ENTROPY preds samples = Inr (take 5120 (map ((!) samples) (rev (srt ?ks))))"
    using assms by (simp add: selector_simps rev_map)
  moreover have "map (\<lambda>i. nan_key (?ks ! i)) (srt ?ks) = map (\<lambda>i. nan_key (entropy (preds ! i))) (srt ?ks)"
    using argsort_set [OF assms(1), of ?ks] by (auto intro!: map_cong)
  moreover have "mset (srt ?ks) = mset [0..<length preds]"
    using argsort_mset [OF assms(1), of ?ks] by simp
  ultimately show ?thesis
    using argsort_sorted [OF assms(1), of ?ks] by metis
qed

theorem entropy_ranking_witness:
  "is_argsort stable_argsort \<and> length [[0.5, 0.5], [1, 0::real]] \<le> length [''a'', ''b'']
   \<and> (\<exists>idx. get_new_samples stable_argsort ENTROPY [[0.5, 0.5], [1, 0]] [''a'', ''b'']
          = Inr (take 5120 (map ((!) [''a'', ''b'']) (rev idx)))
        \<and> mset idx = mset [0..<length [[0.5, 0.5], [1, 0::real]]]
        \<and> sorted (map (\<lambda>i. nan_key (entropy ([[0.5, 0.5], [1, 0]] ! i))) idx))"
  using entropy_ranking [OF stable_argsort_is_argsort, of "[[0.5, 0.5], [1, 0]]" "[''a'', ''b'']"]
  by (simp add: stable_argsort_is_argsort)

text \<open>Any selection the policy returns is a cut at 5120 of samples read at valid indices.\<close>

lemma get_new_samples_Inr_take:
  assumes "get_new_samples srt m preds samples = Inr ys"
  shows "\<exists>idx. (\<forall>i \<in> set idx. i < length samples) \<and> ys = take 5120 (map ((!) samples) idx)"
  using assms
  by (auto simp: get_new_samples_def lc_indices_def py_index_all_eq Let_def split: if_splits sum.splits)

lemma get_new_samples_Inr_bound:
  "get_new_samples srt m preds samples = Inr ys \<Longrightarrow> length ys \<le> 5120 \<and> set ys \<subseteq> set samples"
  by (drule get_new_samples_Inr_take) (auto dest!: in_set_takeD)

text \<open>
  C10: whenever the policy returns, it returns at most 5120 samples, exactly
  \<open>min(5120, number of rows)\<close> of them, each one of the given samples, and no sample
  twice when the samples are distinct.
\<close>

theorem selection_bounds:
  assumes "is_argsort srt" and "get_new_samples srt m preds samples = Inr ys"
  shows "length ys = min 5120 (length preds) \<and> set ys \<subseteq> set samples
         \<and> (distinct samples \<longrightarrow> distinct ys)"
proof -
  obtain idx where idx: "set idx = {0..<length preds}" "length idx = length preds" "distinct idx"
    and res: "ys = take 5120 (map ((!) samples) idx)" and rng: "\<forall>i \<in> set idx. i < length samples"
  proof -
    consider (lc) "m = LEAST_CONFIDENCE" | (en) "m = ENTROPY" | (other) "m \<noteq> LEAST_CONFIDENCE" "m \<noteq> ENTROPY"
      by blast
    then show thesis
    proof cases
      case lc
      let ?i = "srt (map (\<lambda>row. F (row_max row)) preds)"
      from assms(2) lc have "\<forall>i \<in> set ?i. i < length samples" "ys = take 5120 (map ((!) samples) ?i)"
        by (auto simp: get_new_samples_lc lc_indices_def py_index_all_eq split: if_splits)
      with that [of ?i] show thesis
        using argsort_facts [OF assms(1), of "map (\<lambda>row. F (row_max row)) preds"] by simp
    next
      case en
      let ?i = "rev (srt (map entropy preds))"
      from assms(2) en have "\<forall>i \<in> set ?i. i < length samples" "ys = take 5120 (map ((!) samples) ?i)"
        by (auto simp: get_new_samples_entropy entropy_indices_def py_index_all_eq split: if_splits)
      with that [of ?i] show thesis
        using argsort_facts [OF assms(1), of "map entropy preds"] by simp
    next
      case other
      with assms(2) show thesis
        by (auto simp: get_new_samples_def lc_indices_def split: if_splits sum.splits)
    qed
  qed
  have "set ys \<subseteq> set (map ((!) samples) idx)"
    unfolding res by (rule set_take_subset)
  also have "\<dots> \<subseteq> set samples"
    using rng by auto
  finally have "set ys \<subseteq> set samples" .
  moreover have "distinct samples \<longrightarrow> distinct ys"
    using res rng idx(3) by (auto intro: distinct_take simp: distinct_map inj_on_def nth_eq_iff_index_eq)
  ultimately show ?thesis
    using res idx(2) by simp
qed

theorem selection_bounds_witness:
  "is_argsort stable_argsort
   \<and> get_new_samples stable_argsort ENTROPY [[0.5, 0.5], [1, 0::real]] [''a'', ''b''] = Inr [''b'', ''a'']
   \<and> length [''b'', ''a''] = min 5120 (length [[0.5, 0.5], [1, 0::real]])
   \<and> set [''b'', ''a''] \<subseteq> set [''a'', ''b''] \<and> distinct [''a'', ''b''] \<and> distinct [''b'', ''a'']"
proof -
  have nan: "entropy [1, 0] = NaN"
    by (simp add: entropy_NaN_iff)
  have run: "get_new_samples stable_argsort ENTROPY [[0.5, 0.5], [1, 0::real]] [''a'', ''b''] = Inr [''b'', ''a'']"
    by (simp add: nan get_new_samples_entropy entropy_indices_def stable_argsort_def entropy_NaN_iff
        py_index_all_eq)
  show ?thesis
    using selection_bounds [OF stable_argsort_is_argsort run] run stable_argsort_is_argsort by simp
qed

text \<open>A policy name that is none of the three raises \<open>ValueError\<close>.\<close>

lemma unknown_policy_raises:
  "get_new_samples srt (Unknown_AL_Method s) preds samples = Inl ValueError"
  by (simp add: get_new_samples_def)

text \<open>
  More prediction rows than samples: the ranking contains an index past the samples, and
  the mapping back raises \<open>IndexError\<close> before the cut at 5120.
\<close>

lemma index_all_argsort_short:
  assumes "is_argsort srt" and "length samples < length ks"
  shows "py_index_all samples (srt ks) = Inl IndexError"
    and "py_index_all samples (rev (srt ks)) = Inl IndexError"
proof -
  have "length samples \<in> set (srt ks)"
    using assms by (simp add: argsort_set)
  then show "py_index_all samples (srt ks) = Inl IndexError"
    and "py_index_all samples (rev (srt ks)) = Inl IndexError"
    by (auto simp: py_index_all_eq)
qed

text \<open>
  C18: when the predictions have more rows than there are samples, both rankings index
  past the sample list and \<open>get_new_samples\<close> raises \<open>IndexError\<close> instead of returning a
  selection.
\<close>

theorem rows_exceed_samples:
  assumes "is_argsort srt" and "length samples < length preds"
    and "m = ENTROPY \<or> (m = LEAST_CONFIDENCE \<and> [] \<notin> set preds)"
  shows "get_new_samples srt m preds samples = Inl IndexError"
  using assms(3) index_all_argsort_short [OF assms(1), where samples = samples] assms(2)
  by (auto simp: get_new_samples_lc get_new_samples_entropy lc_indices_def entropy_indices_def)

theorem rows_exceed_samples_witness:
  "is_argsort stable_argsort \<and> length [''a''] < length [[0.5, 0.5], [1, 0::real]]
   \<and> (ENTROPY = ENTROPY \<or> (ENTROPY = LEAST_CONFIDENCE \<and> [] \<notin> set [[0.5, 0.5], [1, 0::real]]))
   \<and> get_new_samples stable_argsort ENTROPY [[0.5, 0.5], [1, 0::real]] [''a''] = Inl IndexError"
  using rows_exceed_samples [OF stable_argsort_is_argsort, of "[''a'']" "[[0.5, 0.5], [1, 0::real]]" ENTROPY]
  by (simp add: stable_argsort_is_argsort)

text \<open>
  C14: under entropy, a row that holds a zero probability (its entropy is NaN) beats every
  row with a finite entropy: as soon as one such row exists, the first selected sample is
  one whose prediction row contains a probability that is not positive, even when that
  row is a confident one-hot prediction whose entropy in exact arithmetic is 0.
\<close>

theorem entropy_zero_probability_first:
  assumes "is_argsort srt" and "length preds \<le> length samples"
    and "i < length preds" and "0 \<in> set (preds ! i)"
  shows "\<exists>j y ys. get_new_samples srt ENTROPY preds samples = Inr (y # ys) \<and> j < length preds
           \<and> y = samples ! j \<and> (\<exists>p \<in> set (preds ! j). p \<le> 0)"
proof -
  let ?ks = "map entropy preds"
  let ?idx = "srt ?ks"
  have set_idx: "set ?idx = {0..<length preds}"
    using argsort_set [OF assms(1)] by simp
  then have ne: "?idx \<noteq> []" and i_in: "i \<in> set ?idx"
    using assms(3) by auto
  define j where "j = last ?idx"
  have j_in: "j \<in> set ?idx"
    using ne by (simp add: j_def)
  have sorted: "sorted (map (\<lambda>i. nan_key (?ks ! i)) ?idx)"
    by (rule argsort_sorted [OF assms(1)])
  have "nan_key (?ks ! i) \<le> last (map (\<lambda>i. nan_key (?ks ! i)) ?idx)"
    using sorted_le_last [OF sorted] i_in by simp
  also have "\<dots> = nan_key (?ks ! j)"
    using ne by (simp add: j_def last_map)
  finally have "nan_key (?ks ! i) \<le> nan_key (?ks ! j)" .
  moreover have "?ks ! i = NaN"
    using assms(3,4) by (force simp: entropy_NaN_iff)
  ultimately have "entropy (preds ! j) = NaN"
    using j_in set_idx by (auto dest!: nan_key_top)
  moreover have "get_new_samples srt ENTROPY preds samples = Inr (take 5120 (map ((!) samples) (rev ?idx)))"
    using assms(1,2) by (simp add: selector_simps)
  moreover have "rev ?idx = j # rev (butlast ?idx)"
    using ne by (simp add: j_def rev_eq_Cons_iff)
  ultimately show ?thesis
    using j_in set_idx by (auto simp: entropy_NaN_iff)
qed

theorem entropy_zero_probability_first_witness:
  "is_argsort stable_argsort \<and> length [[0.5, 0.5], [1, 0::real]] \<le> length [''uncertain'', ''certain'']
   \<and> 1 < length [[0.5, 0.5], [1, 0::real]] \<and> 0 \<in> set ([[0.5, 0.5], [1, 0::real]] ! 1)
   \<and> (\<exists>j y ys. get_new_samples stable_argsort ENTROPY [[0.5, 0.5], [1, 0]] [''uncertain'', ''certain''] = Inr (y # ys)
        \<and> j < length [[0.5, 0.5], [1, 0::real]] \<and> y = [''uncertain'', ''certain''] ! j
        \<and> (\<exists>p \<in> set ([[0.5, 0.5], [1, 0::real]] ! j). p \<le> 0))"
  using entropy_zero_probability_first [OF stable_argsort_is_argsort,
      of "[[0.5, 0.5], [1, 0::real]]" "[''uncertain'', ''certain'']" 1]
  by (simp add: stable_argsort_is_argsort)

text \<open>
  C15: with a stable argsort, the least-confidence selection through an index permutation
  equals the direct reference computation: pair every row's maximal probability with its
  sample, sort the pairs by the probability (stably), and keep the first 5120 samples.
\<close>

theorem least_confidence_reference:
  assumes "[] \<notin> set preds" and "length preds \<le> length samples"
  shows "get_new_samples stable_argsort LEAST_CONFIDENCE preds samples
         = Inr (take 5120 (map snd (sort_key fst (zip (map row_max preds) samples))))"
proof -
  let ?n = "length preds"
  let ?h = "\<lambda>i. (row_max (preds ! i), samples ! i)"
  have "zip (map row_max preds) samples = map ?h [0..<?n]"
    using assms(2) by (simp add: zip_as_map_nth)
  then have ref: "map snd (sort_key fst (zip (map row_max preds) samples))
              = map ((!) samples) (sort_key (\<lambda>i. row_max (preds ! i)) [0..<?n])"
    by (simp add: sort_key_map comp_def)
  have "stable_argsort (map (\<lambda>row. F (row_max row)) preds)
        = sort_key (\<lambda>i. (False, row_max (preds ! i))) [0..<?n]"
    unfolding stable_argsort_def length_map by (rule sort_key_cong_set) simp
  then have "stable_argsort (map (\<lambda>row. F (row_max row)) preds)
             = sort_key (\<lambda>i. row_max (preds ! i)) [0..<?n]"
    by (simp add: sort_key_pair_const)
  with ref assms show ?thesis
    by (simp add: get_new_samples_lc lc_indices_def py_index_all_eq)
qed

theorem least_confidence_reference_witness:
  "[] \<notin> set [[0.9, 0.1], [0.6, 0.4], [0.7, 0.3::real]] \<and> length [[0.9, 0.1], [0.6, 0.4], [0.7, 0.3::real]] \<le> length [''a'', ''b'', ''c'']
   \<and> get_new_samples stable_argsort LEAST_CONFIDENCE [[0.9, 0.1], [0.6, 0.4], [0.7, 0.3]] [''a'', ''b'', ''c'']
       = Inr (take 5120 (map snd (sort_key fst (zip (map row_max [[0.9, 0.1], [0.6, 0.4], [0.7, 0.3::real]]) [''a'', ''b'', ''c'']))))"
  using least_confidence_reference [of "[[0.9, 0.1], [0.6, 0.4], [0.7, 0.3::real]]" "[''a'', ''b'', ''c'']"]
  by simp

text \<open>The reference computation on that input: the least confident sample first.\<close>

lemma least_confidence_example:
  "get_new_samples stable_argsort LEAST_CONFIDENCE [[0.9, 0.1], [0.6, 0.4], [0.7, 0.3::real]] [''a'', ''b'', ''c'']
   = Inr [''b'', ''c'', ''a'']"
  by (simp add: selector_simps stable_argsort_def row_max_def stable_argsort_is_argsort)

end
