(* ===== verification/Datasets.thy ===== *)
theory Datasets
  imports Config
begin

text \<open>
  \<open>datautils/target_dataset.py\<close>: the choice of the target dataset directory
  (\<open>get_target_pretrain_ds\<close>), the batch size of a \<open>TargetDataset\<close>, the choice of its
  transforms, and the \<open>DataLoader\<close> it builds (\<open>get_loader\<close>). A loader is described by
  its dataset kind, transforms, batch size and flags; \<open>loader_batches\<close> is what iterating it
  yields for a dataset listed in the order the loader draws it (the shuffle is that order).
\<close>

datatype transforms = Transforms | TransformsSimCLR | TransformsDCL | ToTensor | TransformsSwAV
  | TransformsMoCo

datatype ds_kind = MakeBatchDataset | ImageFolder

datatype loader =
    TorchLoader ds_kind transforms nat bool bool \<comment> \<open>dataset, transforms, batch size, drop_last, shuffle\<close>
  | SwAVLoader nat \<comment> \<open>\<open>TransformsSwAV(...).train_loader\<close>, built outside the sources\<close>

record target_ds =
  td_dir :: string
  td_method :: ssl_method
  td_training_type :: training_type
  td_with_train :: bool
  td_is_train :: bool
  td_batch_size :: nat

text \<open>\<open>TargetDataset.__init__\<close>: an explicit batch size wins unless it is falsy (\<open>None\<close> or 0).\<close>

definition TargetDataset ::
  "args \<Rightarrow> string \<Rightarrow> training_type \<Rightarrow> bool \<Rightarrow> bool \<Rightarrow> nat option \<Rightarrow> target_ds" where
  "TargetDataset a d tt with_train is_train bs =
     \<lparr>td_dir = dataset_dir a @ d, td_method = method_name a, td_training_type = tt,
      td_with_train = with_train, td_is_train = is_train,
      td_batch_size = (case bs of None \<Rightarrow> params_batch_size a tt
                       | Some b \<Rightarrow> if b = 0 then params_batch_size a tt else b)\<rparr>"

text \<open>
  The transforms chosen in \<open>get_loader\<close> outside SwAV. Outside active learning the code
  has an \<open>if\<close> for SimCLR followed by a separate \<open>if/elif/else\<close> chain whose \<open>else\<close>
  is the bare expression \<open>ValueError\<close> (nothing is raised): SimCLR keeps its transforms
  through that \<open>else\<close>, and a method matched by neither leaves \<open>transforms\<close> unbound,
  which raises \<open>UnboundLocalError\<close> at its first use.
\<close>

definition td_transforms :: "target_ds \<Rightarrow> transforms result" where
  "td_transforms ds =
     (if td_training_type ds = ACTIVE_LEARNING then Inr Transforms
      else
        (let m = td_method ds;
             t1 = (if m = SIMCLR then Some TransformsSimCLR else None);
             t2 = (if m = DCL then Some TransformsDCL
                   else if m = MYOW then Some ToTensor
                   else if m = SUPERVISED then Some Transforms
                   else t1)
         in case t2 of None \<Rightarrow> Inl UnboundLocalError | Some t \<Rightarrow> Inr t))"

definition td_get_loader :: "target_ds \<Rightarrow> loader result" where
  "td_get_loader ds =
     (if td_method ds \<noteq> SWAV then
        (case td_transforms ds of
           Inl e \<Rightarrow> Inl e
         | Inr t \<Rightarrow>
             Inr (TorchLoader
                    (if td_training_type ds = ACTIVE_LEARNING then MakeBatchDataset else ImageFolder)
                    t (td_batch_size ds) True (td_is_train ds)))
      else Inr (SwAVLoader (td_batch_size ds)))"

text \<open>
  \<open>get_target_pretrain_ds\<close>: one directory per dataset; for any other name the final
  \<open>else\<close> evaluates \<open>ValueError\<close> without raising it and the function returns
  \<open>None\<close>.
\<close>

definition get_target_pretrain_ds ::
  "args \<Rightarrow> training_type \<Rightarrow> bool \<Rightarrow> nat option \<Rightarrow> target_ds option" where
  "get_target_pretrain_ds a tt is_train bs =
     (case target_dataset a of
        CHEST_XRAY \<Rightarrow> Some (TargetDataset a ''/chest_xray'' tt False is_train bs)
      | REAL \<Rightarrow> Some (TargetDataset a ''/real'' tt False is_train bs)
      | UCMERCED \<Rightarrow> Some (TargetDataset a ''/ucmerced/images'' tt False is_train bs)
      | IMAGENET \<Rightarrow> Some (TargetDataset a ''/imagenet'' tt True is_train bs)
      | CIFAR10 \<Rightarrow> Some (TargetDataset a ''/cifar10v2'' tt True is_train bs)
      | Unknown_Dataset _ \<Rightarrow> None)"

text \<open>\<open>get_target_pretrain_ds(...).get_loader()\<close>: calling a method on \<open>None\<close> raises.\<close>

definition target_loader ::
  "args \<Rightarrow> training_type \<Rightarrow> bool \<Rightarrow> nat option \<Rightarrow> loader result" where
  "target_loader a tt is_train bs =
     (case get_target_pretrain_ds a tt is_train bs of
        None \<Rightarrow> Inl AttributeError
      | Some ds \<Rightarrow> td_get_loader ds)"

section \<open>Iterating a loader\<close>

text \<open>Consecutive batches of \<open>n\<close> items; an incomplete last batch is dropped.\<close>

function chunks :: "nat \<Rightarrow> 'a list \<Rightarrow> 'a list list" where
  "chunks n xs = (if n = 0 \<or> length xs < n then [] else take n xs # chunks n (drop n xs))"
  by pat_completeness auto
termination
  by (relation "measure (\<lambda>(n, xs). length xs)") auto

declare chunks.simps [simp del]

text \<open>
  The batches a loader yields over a dataset listed in drawing order. \<open>DataLoader\<close>
  refuses a batch size of 0 with \<open>ValueError\<close>; without \<open>drop_last\<close> the last batch may
  be short. The SwAV loader is built outside the sources; it is taken to batch the same way
  with \<open>drop_last\<close>.
\<close>

definition loader_batches :: "loader \<Rightarrow> 'a list \<Rightarrow> 'a list list result" where
  "loader_batches ld xs =
     (case ld of
        TorchLoader _ _ bs dl _ \<Rightarrow>
          (if bs = 0 then Inl ValueError
           else if dl then Inr (chunks bs xs)
           else Inr (chunks bs xs @ (if length xs mod bs = 0 then [] else [drop (length xs - length xs mod bs) xs])))
      | SwAVLoader bs \<Rightarrow> (if bs = 0 then Inl ValueError else Inr (chunks bs xs)))"

section \<open>Lemmas\<close>

lemma chunks_1: "chunks 1 xs = map (\<lambda>x. [x]) xs"
proof (induction xs)
  case (Cons x xs)
  then show ?case by (subst chunks.simps) simp
qed (simp add: chunks.simps)

lemma target_loader_AL:
  "get_target_pretrain_ds a ACTIVE_LEARNING True None = Some ds \<Longrightarrow> method_name a \<noteq> SWAV \<Longrightarrow>
   target_loader a ACTIVE_LEARNING True None =
     Inr (TorchLoader MakeBatchDataset Transforms (al_batch_size a) True True)"
  by (auto simp: target_loader_def get_target_pretrain_ds_def TargetDataset_def td_get_loader_def
      td_transforms_def params_batch_size_def split: dataset_type.splits)

end
