(* ===== verification/Model_Ops.thy ===== *)
theory Model_Ops
  imports AL_Prelude
begin

text \<open>
  The interface between the active-learning code and the neural-network library it calls.
  The encoder, its heads, its criterion and its optimizer live outside the sources
  (\<open>models/backbones\<close>, \<open>models/utils/commons.py\<close>, \<open>optim/optimizer.py\<close>, PyTorch);
  the code uses them only through the operations below, which every component theory takes
  as a parameter of type \<open>ops\<close>:
  \<^item> \<open>forward w k imgs\<close>: the output of the \<open>k\<close>-th training-mode forward pass of the run
    with weights \<open>w\<close> on a batch (dropout and augmentation make passes differ by \<open>k\<close>);
  \<^item> \<open>logits w imgs\<close>: the evaluation-mode output, one row of class scores per image;
  \<^item> \<open>load_sd w sd\<close>: \<open>model.load_state_dict(sd, strict=False)\<close>;
  \<^item> \<open>crit o1 o2\<close>: the scalar value of \<open>criterion(o1, o2)\<close>;
  \<^item> \<open>train_step c w opt imgs\<close>: \<open>zero_grad\<close>, forward, the loss of criterion \<open>c\<close>,
    \<open>backward\<close> and \<open>optimizer.step()\<close> on one batch: new weights, new optimizer
    state, the batch loss;
  \<^item> \<open>sched_step opt\<close>: \<open>scheduler.step()\<close>;
  \<^item> \<open>fresh_opt w\<close>: \<open>load_optimizer\<close> with no saved state, a new optimizer and scheduler.
\<close>

text \<open>
  The criterion a trainer holds: \<open>NTXentLoss(args)\<close>, or the one
  \<open>get_model_criterion\<close> returns with the model.
\<close>

datatype criterion = NTXentLoss | Model_Criterion

record ('w, 'o, 'img, 'out) ops =
  forward :: "'w \<Rightarrow> nat \<Rightarrow> 'img list \<Rightarrow> 'out"
  logits :: "'w \<Rightarrow> 'img list \<Rightarrow> real list list"
  load_sd :: "'w \<Rightarrow> 'w \<Rightarrow> 'w"
  crit :: "'out \<Rightarrow> 'out \<Rightarrow> real"
  train_step :: "criterion \<Rightarrow> 'w \<Rightarrow> 'o \<Rightarrow> 'img list \<Rightarrow> 'w \<times> 'o \<times> real"
  sched_step :: "'o \<Rightarrow> 'o"
  fresh_opt :: "'w \<Rightarrow> 'o"

text \<open>An encoder whose two forward passes on the same input agree (no dropout).\<close>

definition deterministic :: "('w, 'o, 'img, 'out) ops \<Rightarrow> bool" where
  "deterministic m \<longleftrightarrow> (\<forall>w k k' imgs. forward m w k imgs = forward m w k' imgs)"

text \<open>Loading a model's own state dictionary leaves it as it is.\<close>

definition load_own_sd :: "('w, 'o, 'img, 'out) ops \<Rightarrow> bool" where
  "load_own_sd m \<longleftrightarrow> (\<forall>w. load_sd m w w = w)"

text \<open>A set of operations for the concrete examples: weights and outputs are numbers.\<close>

definition demo_ops :: "(nat, nat, nat, nat) ops" where
  "demo_ops =
     \<lparr>forward = (\<lambda>w k imgs. w + k * sum_list imgs), logits = (\<lambda>w imgs. map (\<lambda>i. [real i, 1]) imgs),
      load_sd = (\<lambda>w sd. sd), crit = (\<lambda>o1 o2. \<bar>real o1 - real o2\<bar>),
      train_step = (\<lambda>c w opt imgs. (Suc w, Suc opt, 1)), sched_step = Suc, fresh_opt = (\<lambda>w. 0)\<rparr>"

end
