(* ===== verification/Scorer.thy ===== *)
theory Scorer
  imports File_Store Datasets Model_Ops
begin

text \<open>
  The scorer \<open>PretextTrainer.make_batches\<close>
  (\<open>models/active_learning/pretext_trainer.py\<close>, lines 137--183). It sets
  \<open>args.al_batch_size\<close> to 1, restores the encoder from the latest level-1 checkpoint,
  iterates the target dataset one image at a time, scores each image by two forward passes
  and the symmetric criterion \<open>criterion(o1, o2) + criterion(o2, o1)\<close>, sorts the scores
  descending, persists them under \<open>args.al_path_loss_file\<close>, restores
  \<open>args.al_batch_size\<close> and returns the sorted list. The default collate function turns the
  paths of a batch into a list, so each record's path is the list of the batch's paths.
\<close>

type_synonym 'img item = "'img \<times> string"

text \<open>The scoring loop: forward passes are numbered from \<open>k\<close>, two per batch.\<close>

fun score_batches ::
  "('w, 'o, 'img, 'out) ops \<Rightarrow> 'w \<Rightarrow> nat \<Rightarrow> 'img item list list \<Rightarrow> string list path_loss list" where
  "score_batches m w k [] = []"
| "score_batches m w k (b # bs) =
     (let image = map fst b;
          output1 = forward m w k image;
          output2 = forward m w (Suc k) image;
          l = crit m output1 output2 + crit m output2 output1
      in PathLoss (map snd b) l # score_batches m w (k + 2) bs)"

definition make_batches ::
  "('w, 'o, 'img, 'out) ops \<Rightarrow> args \<Rightarrow> 'w \<Rightarrow> (string list, 'w, 'o) fs \<Rightarrow> 'img item list
   \<Rightarrow> (args \<times> (string list, 'w, 'o) fs \<times> string list path_loss list) result" where
  "make_batches m a encoder st items =
     (let bsz = al_batch_size a;
          a1 = a\<lparr>al_batch_size := 1\<rparr>
      in case load_saved_state a1 True ''1'' st of
           Inl e \<Rightarrow> Inl e
         | Inr state \<Rightarrow>
             (case state_model state of
                Inl e \<Rightarrow> Inl e
              | Inr sd \<Rightarrow>
                  (let model = load_sd m encoder sd
                   in case target_loader a1 ACTIVE_LEARNING True None of
                        Inl e \<Rightarrow> Inl e
                      | Inr ld \<Rightarrow>
                          (case loader_batches ld items of
                             Inl e \<Rightarrow> Inl e
                           | Inr batches \<Rightarrow>
                               (let pathloss = score_batches m model 0 batches;
                                    sorted_samples = sorted_desc loss pathloss;
                                    st' = save_path_loss a1 (al_path_loss_file a1) sorted_samples st
                                in Inr (a1\<lparr>al_batch_size := bsz\<rparr>, st', sorted_samples))))))"

section \<open>Lemmas\<close>

text \<open>
  A store holding the level-1 checkpoint that \<open>demo_args\<close> points at, and a dataset of
  two images, for the concrete examples.
\<close>

definition demo_store :: "(string list, nat, nat) fs" where
  "demo_store =
     \<lparr>files = [checkpoint_file demo_args ''1'' 400 \<mapsto> Torch_Checkpoint 5 ''Adam-Cosine-optimizer'' 0],
      writable = (\<lambda>_. True)\<rparr>"

definition demo_items :: "nat item list" where
  "demo_items = [(1, ''a.png''), (2, ''b.png'')]"

definition demo_ops_det :: "(nat, nat, nat, nat) ops" where
  "demo_ops_det = demo_ops\<lparr>forward := (\<lambda>w k imgs. w + sum_list imgs)\<rparr>"

text \<open>
  The same deterministic encoder with a criterion that, like the cross entropy the code's
  comment names, is not 0 on equal arguments.
\<close>

definition demo_ops_ce :: "(nat, nat, nat, nat) ops" where
  "demo_ops_ce = demo_ops_det\<lparr>crit := (\<lambda>o1 o2. real o1)\<rparr>"

lemma score_batches_length [simp]: "length (score_batches m w k bs) = length bs"
  by (induction bs arbitrary: k) (simp_all add: Let_def)

lemma score_batches_paths: "map path (score_batches m w k bs) = map (map snd) bs"
  by (induction bs arbitrary: k) (simp_all add: Let_def)

text \<open>
  With an encoder whose forward passes agree, the two passes of every image give the same
  output, and its score is the symmetric criterion on that output twice.
\<close>

lemma score_batches_deterministic:
  "deterministic m \<Longrightarrow>
   score_batches m w k (map (\<lambda>x. [x]) items)
     = map (\<lambda>it. PathLoss [snd it] (2 * crit m (forward m w 0 [fst it]) (forward m w 0 [fst it]))) items"
proof (induction items arbitrary: k)
  case (Cons it items)
  have "forward m w k [fst it] = forward m w 0 [fst it]" and "forward m w (Suc k) [fst it] = forward m w 0 [fst it]"
    using Cons.prems by (simp_all add: deterministic_def)
  with Cons show ?case
    by (simp add: Let_def)
qed simp

lemma loader_batches_AL_1:
  "loader_batches (TorchLoader MakeBatchDataset Transforms 1 True True) items = Inr (map (\<lambda>x. [x]) items)"
  by (simp add: loader_batches_def chunks_1 [unfolded One_nat_def])

text \<open>Everything \<open>make_batches\<close> returns when it returns, in one place.\<close>

lemma make_batches_Inr:
  assumes "make_batches m a encoder st items = Inr (a', st', out)"
  shows "\<exists>sd. load_saved_state a True ''1'' st = Inr sd \<and> state_model sd \<noteq> Inl TypeError
           \<and> (\<forall>s. target_dataset a \<noteq> Unknown_Dataset s)
           \<and> (\<exists>w. out = sorted_desc loss (score_batches m w 0 (map (\<lambda>x. [x]) items)))
           \<and> a' = a
           \<and> st' = save_path_loss a (al_path_loss_file a) out st"
  using assms
  by (auto simp: make_batches_def Let_def target_loader_def td_get_loader_def td_transforms_def
      get_target_pretrain_ds_def TargetDataset_def params_batch_size_def loader_batches_def
      chunks_1 [unfolded One_nat_def] split: sum.splits option.splits if_splits dataset_type.splits)

lemma demo_make_batches_ops:
  "make_batches m demo_args 0 demo_store demo_items =
     (let out = sorted_desc loss (score_batches m (load_sd m 0 5) 0 [[(1, ''a.png'')], [(2, ''b.png'')]])
      in Inr (demo_args, save_path_loss demo_args ''al_path_loss.pkl'' out demo_store, out))"
proof -
  have ls: "load_saved_state demo_args True ''1'' demo_store = Inr (Torch_Checkpoint 5 ''Adam-Cosine-optimizer'' 0)"
    by (simp add: load_saved_state_def demo_store_def resume_set_def demo_args_def)
  have tl: "target_loader (demo_args\<lparr>al_batch_size := n\<rparr>) ACTIVE_LEARNING True None
            = Inr (TorchLoader MakeBatchDataset Transforms n True True)" for n
    by (simp add: target_loader_def get_target_pretrain_ds_def demo_args_def TargetDataset_def
        td_get_loader_def td_transforms_def params_batch_size_def)
  have fn: "al_path_loss_file demo_args = ''al_path_loss.pkl''"
    by (simp add: demo_args_def)
  show ?thesis
    by (simp add: make_batches_def Let_def ls tl fn loader_batches_AL_1 [unfolded One_nat_def]
        state_model_def demo_items_def)
qed

lemma demo_make_batches:
  "make_batches demo_ops demo_args 0 demo_store demo_items =
     Inr (demo_args, save_path_loss demo_args ''al_path_loss.pkl'' [PathLoss [''b.png''] 4, PathLoss [''a.png''] 2] demo_store,
          [PathLoss [''b.png''] 4, PathLoss [''a.png''] 2])"
  by (simp add: demo_make_batches_ops demo_ops_def sorted_desc_def Let_def)

text \<open>
  C4: when the scorer returns, it has scored every image exactly once (one record per
  image, the records' paths are the images' paths), its list is sorted by loss descending,
  \<open>args\<close> is as it was before the call, and the list is persisted under
  \<open>args.al_path_loss_file\<close>, readable back unchanged, if that file could be written.
\<close>

theorem make_batches_scores:
  assumes "make_batches m a encoder st items = Inr (a', st', out)"
  shows "length out = length items \<and> mset (map path out) = mset (map (\<lambda>x. [snd x]) items)
         \<and> sorted_wrt (\<ge>) (map loss out) \<and> a' = a
         \<and> (writable st (path_join (model_path a) (al_path_loss_file a))
            \<longrightarrow> load_path_loss a (al_path_loss_file a) st' = Inr (Some out))"
proof -
  obtain w where out: "out = sorted_desc loss (score_batches m w 0 (map (\<lambda>x. [x]) items))"
    and a': "a' = a" and st': "st' = save_path_loss a (al_path_loss_file a) out st"
    using make_batches_Inr [OF assms] by blast
  have "mset (map path out) = mset (map path (score_batches m w 0 (map (\<lambda>x. [x]) items)))"
    unfolding out mset_map sorted_desc_mset ..
  also have "\<dots> = mset (map (\<lambda>x. [snd x]) items)"
    by (simp add: score_batches_paths comp_def)
  finally have paths: "mset (map path out) = mset (map (\<lambda>x. [snd x]) items)" .
  have "length out = length items"
    by (simp add: out sorted_desc_length)
  moreover have "sorted_wrt (\<ge>) (map loss out)"
    unfolding out by (rule sorted_desc_sorted)
  moreover have "writable st (path_join (model_path a) (al_path_loss_file a))
            \<longrightarrow> load_path_loss a (al_path_loss_file a) st' = Inr (Some out)"
    by (simp add: st' load_path_loss_def save_path_loss_files)
  ultimately show ?thesis
    using paths a' by blast
qed

theorem make_batches_scores_witness:
  "make_batches demo_ops demo_args 0 demo_store demo_items =
     Inr (demo_args, save_path_loss demo_args ''al_path_loss.pkl'' [PathLoss [''b.png''] 4, PathLoss [''a.png''] 2] demo_store,
          [PathLoss [''b.png''] 4, PathLoss [''a.png''] 2])
   \<and> length [PathLoss [''b.png''] 4, PathLoss [''a.png''] (2::real)] = length demo_items
   \<and> sorted_wrt (\<ge>) (map loss [PathLoss [''b.png''] 4, PathLoss [''a.png''] 2])
   \<and> load_path_loss demo_args ''al_path_loss.pkl''
         (save_path_loss demo_args ''al_path_loss.pkl'' [PathLoss [''b.png''] 4, PathLoss [''a.png''] 2] demo_store)
       = Inr (Some [PathLoss [''b.png''] 4, PathLoss [''a.png''] 2])"
  using make_batches_scores [OF demo_make_batches] demo_make_batches
  by (simp add: demo_args_def demo_store_def demo_items_def)

text \<open>
  C16: \<open>make_batches\<close> calls \<open>model.eval()\<close> (line 150) before its two forward passes, so
  without dropout the passes agree. For an encoder whose passes agree, the score of every
  image is \<open>2 * criterion(o, o)\<close> for its output \<open>o\<close>, and the scorer returns these
  scores sorted descending. Such a score is 0 only when the criterion vanishes on equal
  arguments; the cross entropy named at line 168 does not (it gives the entropy of
  \<open>softmax(o)\<close>), so the specification's zero-loss property (section 8) does not follow.
\<close>

theorem deterministic_scores:
  assumes "deterministic m" and "make_batches m a encoder st items = Inr (a', st', out)"
  shows "\<exists>w. out = sorted_desc loss
               (map (\<lambda>it. PathLoss [snd it] (2 * crit m (forward m w 0 [fst it]) (forward m w 0 [fst it]))) items)"
proof -
  obtain w where "out = sorted_desc loss (score_batches m w 0 (map (\<lambda>x. [x]) items))"
    using make_batches_Inr [OF assms(2)] by blast
  then show ?thesis
    using score_batches_deterministic [OF assms(1)] by auto
qed

theorem deterministic_scores_witness:
  "deterministic demo_ops_ce
   \<and> make_batches demo_ops_ce demo_args 0 demo_store demo_items =
       Inr (demo_args, save_path_loss demo_args ''al_path_loss.pkl'' [PathLoss [''b.png''] 14, PathLoss [''a.png''] 12] demo_store,
            [PathLoss [''b.png''] 14, PathLoss [''a.png''] 12])
   \<and> (\<exists>w. [PathLoss [''b.png''] 14, PathLoss [''a.png''] 12] = sorted_desc loss
         (map (\<lambda>it. PathLoss [snd it] (2 * crit demo_ops_ce (forward demo_ops_ce w 0 [fst it]) (forward demo_ops_ce w 0 [fst it])))
            demo_items))"
proof -
  have det: "deterministic demo_ops_ce"
    by (simp add: deterministic_def demo_ops_ce_def demo_ops_det_def demo_ops_def)
  have run: "make_batches demo_ops_ce demo_args 0 demo_store demo_items =
       Inr (demo_args, save_path_loss demo_args ''al_path_loss.pkl'' [PathLoss [''b.png''] 14, PathLoss [''a.png''] 12] demo_store,
            [PathLoss [''b.png''] 14, PathLoss [''a.png''] 12])"
    by (simp add: demo_make_batches_ops demo_ops_ce_def demo_ops_det_def demo_ops_def sorted_desc_def Let_def)
  show ?thesis
    using deterministic_scores [OF det run] det run by blast
qed

lemma target_loader_AL_batches:
  assumes "\<forall>s. target_dataset a \<noteq> Unknown_Dataset s"
  shows "\<exists>ld. target_loader (a\<lparr>al_batch_size := Suc 0\<rparr>) ACTIVE_LEARNING True None = Inr ld
              \<and> loader_batches ld items = Inr (map (\<lambda>x. [x]) items)"
  using assms
  by (cases "target_dataset a")
     (auto simp: target_loader_def get_target_pretrain_ds_def TargetDataset_def td_get_loader_def
       td_transforms_def params_batch_size_def loader_batches_def chunks_1 [unfolded One_nat_def])

text \<open>
  C17: the scorer returns (and hands back \<open>args\<close> unchanged) whenever the level-1
  checkpoint it restores from exists as a training checkpoint and the target dataset is one
  it knows, whatever the encoder, the self-supervised method and the images.
\<close>

theorem make_batches_succeeds:
  assumes "load_saved_state a True ''1'' st = Inr (Torch_Checkpoint sd n opt)"
    and "\<forall>s. target_dataset a \<noteq> Unknown_Dataset s"
  shows "\<exists>st' out. make_batches m a encoder st items = Inr (a, st', out)"
proof -
  obtain ld where ld: "target_loader (a\<lparr>al_batch_size := Suc 0\<rparr>) ACTIVE_LEARNING True None = Inr ld"
    and b: "loader_batches ld items = Inr (map (\<lambda>x. [x]) items)"
    using target_loader_AL_batches [OF assms(2)] by blast
  show ?thesis
    using assms(1) ld b by (simp add: make_batches_def Let_def state_model_def)
qed

theorem make_batches_succeeds_witness:
  "load_saved_state demo_args True ''1'' demo_store = Inr (Torch_Checkpoint 5 ''Adam-Cosine-optimizer'' 0)
   \<and> (\<forall>s. target_dataset demo_args \<noteq> Unknown_Dataset s)
   \<and> (\<exists>st' out. make_batches demo_ops demo_args 0 demo_store demo_items = Inr (demo_args, st', out))"
proof -
  have ls: "load_saved_state demo_args True ''1'' demo_store = Inr (Torch_Checkpoint 5 ''Adam-Cosine-optimizer'' 0)"
    by (simp add: load_saved_state_def demo_store_def resume_set_def demo_args_def)
  have td: "\<forall>s. target_dataset demo_args \<noteq> Unknown_Dataset s"
    by (simp add: demo_args_def)
  show ?thesis
    using make_batches_succeeds [OF ls td, of demo_ops 0 demo_items] ls td by simp
qed

end
