(* ===== verification/Proxy_Trainer.thy ===== *)
theory Proxy_Trainer
  imports File_Store Model_Ops Selector
begin

text \<open>
  Training and querying the proxy encoder.
  \<^item> \<open>SimCLRTrainer.__init__\<close> and \<open>train_epoch\<close>
    (\<open>models/self_sup/simclr/trainer/simclr_trainer.py\<close>): a trainer holds the model, a
    criterion, an optimizer with its scheduler, and the configured batch size.
  \<^item> \<open>PretextTrainer.train_proxy\<close> (\<open>pretext_trainer.py\<close>, lines 30--68): picks the
    trainer of the configured self-supervised method and runs \<open>args.al_epochs\<close> epochs,
    stepping the scheduler after each.
  \<^item> \<open>PretextTrainer.finetune\<close> and \<open>get_predictions\<close> (lines 70--106): softmax
    predictions of the proxy over a batch of samples, handed to \<open>get_new_samples\<close>.
  The data loaders over a sample list (\<open>PretextDataLoader\<close>, not in the sources) are
  parameters: \<open>loader_of samples e\<close> is the list of image batches of epoch \<open>e\<close>.
  \<open>SimCLRTrainerV2\<close> (DCL) and \<open>get_myow_trainer\<close> (MYOW) are not in the sources
  either; they are taken to build their trainer as \<open>SimCLRTrainer\<close> does.
\<close>

record ('w, 'o) trainer =
  tr_model :: 'w
  tr_criterion :: criterion
  tr_optimizer :: 'o
  tr_batch_size :: nat

text \<open>
  \<open>load_optimizer(args, params, state, train_params)\<close> (\<open>optim/optimizer.py\<close>): the
  optimizer state saved in a training checkpoint when one is given, a new optimizer
  otherwise.
\<close>

definition load_optimizer ::
  "('w, 'o, 'img, 'out) ops \<Rightarrow> 'w \<Rightarrow> ('p, 'w, 'o) blob option \<Rightarrow> 'o" where
  "load_optimizer m w state =
     (case state of Some (Torch_Checkpoint _ _ opt) \<Rightarrow> opt | _ \<Rightarrow> fresh_opt m w)"

text \<open>
  \<open>SimCLRTrainer.__init__\<close>. In active learning without \<open>rebuild_al_model\<close> the encoder
  is taken as it is with an NT-Xent criterion and \<open>state = None\<close>. Otherwise the model and
  criterion come from \<open>get_model_criterion\<close> and, except for the first base pretraining,
  the weights and the optimizer are restored from the checkpoint \<open>load_saved_state\<close>
  finds.
\<close>

definition SimCLRTrainer ::
  "('w, 'o, 'img, 'out) ops \<Rightarrow> args \<Rightarrow> ('p, 'w, 'o) fs \<Rightarrow> 'w \<Rightarrow> bool \<Rightarrow> string \<Rightarrow> training_type
   \<Rightarrow> ('w, 'o) trainer result" where
  "SimCLRTrainer m a st encoder rebuild_al_model pretrain_level training_type =
     (let bs = params_batch_size a training_type
      in if training_type = ACTIVE_LEARNING \<and> \<not> rebuild_al_model then
           Inr \<lparr>tr_model = encoder, tr_criterion = NTXentLoss,
                tr_optimizer = load_optimizer m encoder (None :: ('p, 'w, 'o) blob option),
                tr_batch_size = bs\<rparr>
         else if training_type \<noteq> BASE_PRETRAIN \<or> epoch_num a \<noteq> base_epochs a then
           (case load_saved_state a True pretrain_level st of
              Inl e \<Rightarrow> Inl e
            | Inr state \<Rightarrow>
                (case state_model state of
                   Inl e \<Rightarrow> Inl e
                 | Inr sd \<Rightarrow>
                     (let model = load_sd m encoder sd
                      in Inr \<lparr>tr_model = model, tr_criterion = Model_Criterion,
                              tr_optimizer = load_optimizer m model (Some state), tr_batch_size = bs\<rparr>)))
         else
           Inr \<lparr>tr_model = encoder, tr_criterion = Model_Criterion,
                tr_optimizer = load_optimizer m encoder (None :: ('p, 'w, 'o) blob option),
                tr_batch_size = bs\<rparr>)"

text \<open>
  The batch loop of \<open>train_epoch\<close>: one optimizer step per batch; \<open>total_num\<close> grows by
  the configured batch size and \<open>args.global_step\<close> by one per batch.
\<close>

fun epoch_steps ::
  "('w, 'o, 'img, 'out) ops \<Rightarrow> ('w, 'o) trainer \<Rightarrow> 'img list list \<Rightarrow> nat \<Rightarrow> real \<Rightarrow> nat
   \<Rightarrow> ('w, 'o) trainer \<times> nat \<times> real \<times> nat" where
  "epoch_steps m tr [] gs total_loss total_num = (tr, gs, total_loss, total_num)"
| "epoch_steps m tr (imgs # rest) gs total_loss total_num =
     (case train_step m (tr_criterion tr) (tr_model tr) (tr_optimizer tr) imgs of
        (w', opt', l) \<Rightarrow>
          epoch_steps m (tr\<lparr>tr_model := w', tr_optimizer := opt'\<rparr>) rest (Suc gs)
            (total_loss + l * real (tr_batch_size tr)) (total_num + tr_batch_size tr))"

text \<open>\<open>return total_loss / total_num\<close>: with no batch, Python raises \<open>ZeroDivisionError\<close>.\<close>

definition train_epoch ::
  "('w, 'o, 'img, 'out) ops \<Rightarrow> ('w, 'o) trainer \<Rightarrow> args \<Rightarrow> 'img list list
   \<Rightarrow> (('w, 'o) trainer \<times> args \<times> real) result" where
  "train_epoch m tr a loader =
     (case epoch_steps m tr loader (global_step a) 0 0 of
        (tr', gs, total_loss, total_num) \<Rightarrow>
          (if total_num = 0 then Inl ZeroDivisionError
           else Inr (tr', a\<lparr>global_step := gs\<rparr>, total_loss / real total_num)))"

text \<open>\<open>for epoch in range(args.al_epochs)\<close>: an epoch, then \<open>trainer.scheduler.step()\<close>.\<close>

fun proxy_epochs ::
  "('w, 'o, 'img, 'out) ops \<Rightarrow> (nat \<Rightarrow> 'img list list) \<Rightarrow> nat \<Rightarrow> nat \<Rightarrow> ('w, 'o) trainer \<Rightarrow> args
   \<Rightarrow> (('w, 'o) trainer \<times> args) result" where
  "proxy_epochs m ld e 0 tr a = Inr (tr, a)"
| "proxy_epochs m ld e (Suc n) tr a =
     (case train_epoch m tr a (ld e) of
        Inl err \<Rightarrow> Inl err
      | Inr (tr', a', epoch_loss) \<Rightarrow>
          proxy_epochs m ld (Suc e) n (tr'\<lparr>tr_optimizer := sched_step m (tr_optimizer tr')\<rparr>) a')"

text \<open>
  The method dispatch of \<open>train_proxy\<close>. Its final \<open>else\<close> is the bare expression
  \<open>ValueError\<close>, which raises nothing: \<open>trainer\<close> stays unbound and its first use
  (\<open>trainer.train_epoch()\<close>, or \<open>return trainer.model\<close> when there are no epochs)
  raises \<open>UnboundLocalError\<close>.
\<close>

definition proxy_trainer ::
  "('w, 'o, 'img, 'out) ops \<Rightarrow> args \<Rightarrow> ('p, 'w, 'o) fs \<Rightarrow> 'w \<Rightarrow> bool \<Rightarrow> ('w, 'o) trainer result" where
  "proxy_trainer m a st model rebuild_al_model =
     (if method_name a \<in> {SIMCLR, DCL, MYOW}
      then SimCLRTrainer m a st model rebuild_al_model ''1'' ACTIVE_LEARNING
      else Inl UnboundLocalError)"

definition train_proxy ::
  "('w, 'o, 'img, 'out) ops \<Rightarrow> ('a list \<Rightarrow> nat \<Rightarrow> 'img list list) \<Rightarrow> args \<Rightarrow> ('p, 'w, 'o) fs
   \<Rightarrow> 'a list \<Rightarrow> 'w \<Rightarrow> bool \<Rightarrow> ('w \<times> args) result" where
  "train_proxy m loader_of a st samples model rebuild_al_model =
     (let loader = loader_of samples
      in case proxy_trainer m a st model rebuild_al_model of
           Inl e \<Rightarrow> Inl e
         | Inr trainer \<Rightarrow>
             (case proxy_epochs m loader 0 (al_epochs a) trainer a of
                Inl e \<Rightarrow> Inl e
              | Inr (trainer', a') \<Rightarrow> Inr (tr_model trainer', a')))"

section \<open>Scoring a batch with the proxy\<close>

text \<open>
  \<open>F.softmax(outputs, dim=1)\<close> on one row, in exact real arithmetic. The float32 softmax
  of the code can underflow to 0; the model does not have that rounding, so no property
  below depends on the softmax never being 0.
\<close>

definition softmax :: "real list \<Rightarrow> real list" where
  "softmax row = map (\<lambda>x. exp x / sum_list (map exp row)) row"

definition get_predictions :: "real list list \<Rightarrow> real list list" where
  "get_predictions outputs = map softmax outputs"

text \<open>
  \<open>finetune\<close>: evaluation mode, no gradients, one prediction block per batch of the
  fine-tuning loader over the samples, concatenated by \<open>torch.cat\<close>, which raises on an
  empty list of blocks.
\<close>

definition finetune ::
  "('w, 'o, 'img, 'out) ops \<Rightarrow> (float64 list \<Rightarrow> nat list) \<Rightarrow> ('a list \<Rightarrow> 'img list list) \<Rightarrow> args
   \<Rightarrow> 'w \<Rightarrow> 'a list \<Rightarrow> 'a list result" where
  "finetune m argsort ft_loader_of a model samples =
     (let preds = map (\<lambda>imgs. get_predictions (logits m model imgs)) (ft_loader_of samples)
      in if preds = [] then Inl RuntimeError
         else get_new_samples argsort (al_method a) (concat preds) samples)"

section \<open>The training loops\<close>

definition demo_loader :: "nat list \<Rightarrow> nat \<Rightarrow> nat list list" where
  "demo_loader samples e = [samples]"

text \<open>A store holding the level-1 checkpoint of epoch 400, the one \<open>demo_args\<close> points at.\<close>

definition demo_ckpt_store :: "(nat, nat, nat) fs" where
  "demo_ckpt_store =
     \<lparr>files = [checkpoint_file demo_args ''1'' 400 \<mapsto> Torch_Checkpoint 5 ''Adam-Cosine-optimizer'' 0],
      writable = (\<lambda>_. True)\<rparr>"

lemma epoch_steps_counts:
  "epoch_steps m tr loader gs tls tn = (tr', gs', tls', tn') \<Longrightarrow>
   gs' = gs + length loader \<and> tn' = tn + length loader * tr_batch_size tr
   \<and> tr_batch_size tr' = tr_batch_size tr \<and> tr_criterion tr' = tr_criterion tr"
proof (induction loader arbitrary: tr gs tls tn)
  case (Cons imgs rest)
  obtain w' opt' l where st: "train_step m (tr_criterion tr) (tr_model tr) (tr_optimizer tr) imgs = (w', opt', l)"
    by (cases "train_step m (tr_criterion tr) (tr_model tr) (tr_optimizer tr) imgs") auto
  with Cons.prems have "epoch_steps m (tr\<lparr>tr_model := w', tr_optimizer := opt'\<rparr>) rest (Suc gs)
      (tls + l * real (tr_batch_size tr)) (tn + tr_batch_size tr) = (tr', gs', tls', tn')"
    by simp
  from Cons.IH [OF this] show ?case by simp
qed simp

text \<open>One epoch returns exactly when it saw a batch and the batch size is not 0.\<close>

lemma train_epoch_cases:
  "(loader = [] \<or> tr_batch_size tr = 0) \<and> train_epoch m tr a loader = Inl ZeroDivisionError
   \<or> loader \<noteq> [] \<and> 0 < tr_batch_size tr \<and>
     (\<exists>tr' l. train_epoch m tr a loader = Inr (tr', a\<lparr>global_step := global_step a + length loader\<rparr>, l)
        \<and> tr_batch_size tr' = tr_batch_size tr)"
proof -
  obtain tr' gs tl tn where es: "epoch_steps m tr loader (global_step a) 0 0 = (tr', gs, tl, tn)"
    by (cases "epoch_steps m tr loader (global_step a) 0 0") auto
  from epoch_steps_counts [OF es] have "gs = global_step a + length loader"
    and "tn = length loader * tr_batch_size tr" and "tr_batch_size tr' = tr_batch_size tr"
    by auto
  with es show ?thesis
    by (auto simp: train_epoch_def)
qed

lemma proxy_epochs_Inr:
  assumes "0 < tr_batch_size tr" and "\<forall>i < n. ld (e + i) \<noteq> []"
  shows "\<exists>tr'. proxy_epochs m ld e n tr a
           = Inr (tr', a\<lparr>global_step := global_step a + (\<Sum>i<n. length (ld (e + i)))\<rparr>)"
  using assms
proof (induction n arbitrary: e tr a)
  case (Suc n)
  from Suc.prems(2) have ne: "ld e \<noteq> []" by (metis add_0_right zero_less_Suc)
  with Suc.prems(1) train_epoch_cases [of "ld e" tr m a] obtain tr' l
    where ep: "train_epoch m tr a (ld e) = Inr (tr', a\<lparr>global_step := global_step a + length (ld e)\<rparr>, l)"
      and bs: "tr_batch_size tr' = tr_batch_size tr"
    by auto
  have "\<forall>i < n. ld (Suc e + i) \<noteq> []"
    using Suc.prems(2) by auto
  with Suc.IH [where e = "Suc e" and tr = "tr'\<lparr>tr_optimizer := sched_step m (tr_optimizer tr')\<rparr>"
      and a = "a\<lparr>global_step := global_step a + length (ld e)\<rparr>"] Suc.prems(1) bs
  obtain tr'' where "proxy_epochs m ld (Suc e) n (tr'\<lparr>tr_optimizer := sched_step m (tr_optimizer tr')\<rparr>)
        (a\<lparr>global_step := global_step a + length (ld e)\<rparr>)
      = Inr (tr'', a\<lparr>global_step := global_step a + length (ld e) + (\<Sum>i<n. length (ld (Suc e + i)))\<rparr>)"
    by auto
  moreover have "length (ld e) + (\<Sum>i<n. length (ld (Suc e + i))) = (\<Sum>i<Suc n. length (ld (e + i)))"
    by (subst sum.lessThan_Suc_shift) simp
  ultimately show ?case
    using ep by (simp add: add.assoc)
qed simp

lemma proxy_epochs_empty:
  assumes "i < n" and "ld (e + i) = []"
  shows "proxy_epochs m ld e n tr a = Inl ZeroDivisionError"
  using assms
proof (induction n arbitrary: e i tr a)
  case (Suc n)
  consider (first) "ld e = [] \<or> tr_batch_size tr = 0" | (later) "ld e \<noteq> []" "0 < tr_batch_size tr"
    by blast
  then show ?case
  proof cases
    case first
    then show ?thesis
      using train_epoch_cases [of "ld e" tr m a] by auto
  next
    case later
    have "i \<noteq> 0"
    proof
      assume "i = 0"
      with Suc.prems(2) later show False by simp
    qed
    then obtain i' where i': "i = Suc i'" by (cases i) auto
    from later train_epoch_cases [of "ld e" tr m a] obtain tr' l
      where ep: "train_epoch m tr a (ld e) = Inr (tr', a\<lparr>global_step := global_step a + length (ld e)\<rparr>, l)"
      by auto
    have "i' < n" "ld (Suc e + i') = []"
      using Suc.prems i' by auto
    from Suc.IH [OF this] ep show ?thesis by auto
  qed
qed simp

text \<open>Training changes nothing in \<open>args\<close> but \<open>global_step\<close>.\<close>

lemma train_epoch_args:
  "train_epoch m tr a loader = Inr (tr', a', l) \<Longrightarrow> a' = a\<lparr>global_step := global_step a'\<rparr>"
  by (auto simp: train_epoch_def split: prod.splits if_splits)

lemma proxy_epochs_args:
  "proxy_epochs m ld e n tr a = Inr (tr', a') \<Longrightarrow> a' = a\<lparr>global_step := global_step a'\<rparr>"
proof (induction n arbitrary: e tr a)
  case (Suc n)
  then obtain tr1 a1 l where ep: "train_epoch m tr a (ld e) = Inr (tr1, a1, l)"
    and rest: "proxy_epochs m ld (Suc e) n (tr1\<lparr>tr_optimizer := sched_step m (tr_optimizer tr1)\<rparr>) a1 = Inr (tr', a')"
    by (auto split: sum.splits prod.splits)
  from train_epoch_args [OF ep] Suc.IH [OF rest] show ?case
    by (metis args.update_convs(15) args.surjective)
qed simp

lemma train_proxy_args:
  "train_proxy m l a st p w r = Inr (w', a') \<Longrightarrow> a' = a\<lparr>global_step := global_step a'\<rparr>"
  by (auto simp: train_proxy_def Let_def dest: proxy_epochs_args split: sum.splits prod.splits)

text \<open>Without \<open>rebuild_al_model\<close> the proxy trainer reads nothing from the file store.\<close>

lemma train_proxy_no_rebuild_store:
  "train_proxy m l a st p w False = train_proxy m l a st' p w False"
  by (simp add: train_proxy_def proxy_trainer_def SimCLRTrainer_def load_optimizer_def)

section \<open>Properties of the proxy trainer\<close>

lemma proxy_trainer_AL:
  "method_name a \<in> {SIMCLR, DCL, MYOW} \<Longrightarrow>
   proxy_trainer m a st model False =
     Inr \<lparr>tr_model = model, tr_criterion = NTXentLoss, tr_optimizer = fresh_opt m model,
          tr_batch_size = al_batch_size a\<rparr>"
  by (simp add: proxy_trainer_def SimCLRTrainer_def load_optimizer_def params_batch_size_def)

text \<open>
  The proxy trainer is built whenever the method is supported and, when it is rebuilt
  (batch 0), \<open>load_saved_state(args, recent=True, '1')\<close> finds a state with a
  \<open>'model'\<close> entry; its batch size is \<open>args.al_batch_size\<close> either way.
\<close>

lemma proxy_trainer_Inr:
  assumes "method_name a \<in> {SIMCLR, DCL, MYOW}"
    and "rebuild \<longrightarrow> (\<exists>b w. load_saved_state a True ''1'' st = Inr b \<and> state_model b = Inr w)"
  shows "\<exists>tr. proxy_trainer m a st model rebuild = Inr tr \<and> tr_batch_size tr = al_batch_size a"
proof (cases rebuild)
  case True
  then obtain b w where "load_saved_state a True ''1'' st = Inr b" and "state_model b = Inr w"
    using assms(2) by blast
  with assms(1) True show ?thesis
    by (simp add: proxy_trainer_def SimCLRTrainer_def params_batch_size_def Let_def)
next
  case False
  with proxy_trainer_AL [OF assms(1), where m = m and st = st and model = model] show ?thesis
    by simp
qed

text \<open>
  C12: with a supported method and a positive batch size, and, when the trainer is rebuilt
  (batch 0), a level-1 checkpoint that \<open>load_saved_state\<close> finds, \<open>train_proxy\<close> returns
  after exactly \<open>args.al_epochs\<close> epochs, one optimizer step per batch, when every
  epoch's loader yields a batch; the only change to \<open>args\<close> is \<open>global_step\<close>, advanced by
  the number of batches of all epochs.
\<close>

theorem train_proxy_runs:
  assumes "method_name a \<in> {SIMCLR, DCL, MYOW}" and "0 < al_batch_size a"
    and "\<forall>e < al_epochs a. loader_of samples e \<noteq> []"
    and "rebuild \<longrightarrow> (\<exists>b w. load_saved_state a True ''1'' st = Inr b \<and> state_model b = Inr w)"
  shows "\<exists>w. train_proxy m loader_of a st samples model rebuild
            = Inr (w, a\<lparr>global_step := global_step a + (\<Sum>e<al_epochs a. length (loader_of samples e))\<rparr>)"
proof -
  obtain tr where tr: "proxy_trainer m a st model rebuild = Inr tr" and bs: "0 < tr_batch_size tr"
    using proxy_trainer_Inr [OF assms(1,4), of m model] assms(2) by auto
  have ne: "\<forall>i < al_epochs a. loader_of samples (0 + i) \<noteq> []"
    using assms(3) by simp
  obtain tr' where "proxy_epochs m (loader_of samples) 0 (al_epochs a) tr a
    = Inr (tr', a\<lparr>global_step := global_step a + (\<Sum>i<al_epochs a. length (loader_of samples (0 + i)))\<rparr>)"
    using proxy_epochs_Inr [OF bs ne, of m a] by blast
  then show ?thesis
    by (simp add: train_proxy_def tr)
qed

theorem train_proxy_runs_witness:
  "method_name demo_args \<in> {SIMCLR, DCL, MYOW} \<and> 0 < al_batch_size demo_args
   \<and> al_epochs demo_args = 1 \<and> demo_loader [1, 2] 0 = [[1, 2]]
   \<and> load_saved_state demo_args True ''1'' demo_ckpt_store = Inr (Torch_Checkpoint 5 ''Adam-Cosine-optimizer'' 0)
   \<and> (\<exists>w. train_proxy demo_ops demo_loader demo_args demo_ckpt_store [1, 2] 0 True
        = Inr (w, demo_args\<lparr>global_step := global_step demo_args
                   + (\<Sum>e<al_epochs demo_args. length (demo_loader [1, 2] e))\<rparr>))"
proof -
  have ls: "load_saved_state demo_args True ''1'' demo_ckpt_store = Inr (Torch_Checkpoint 5 ''Adam-Cosine-optimizer'' 0)"
    by (simp add: load_saved_state_def demo_ckpt_store_def resume_set_def demo_args_def)
  have h: "method_name demo_args \<in> {SIMCLR, DCL, MYOW}" "0 < al_batch_size demo_args"
    "\<forall>e < al_epochs demo_args. demo_loader [1, 2] e \<noteq> []"
    "True \<longrightarrow> (\<exists>b w. load_saved_state demo_args True ''1'' demo_ckpt_store = Inr b \<and> state_model b = Inr w)"
    using ls by (simp_all add: demo_args_def demo_loader_def state_model_def)
  show ?thesis
    using train_proxy_runs [where a = demo_args and loader_of = demo_loader and samples = "[1, 2]"
        and m = demo_ops and st = demo_ckpt_store and model = 0 and rebuild = True, OF h] h ls
    by (simp add: demo_args_def demo_loader_def)
qed

text \<open>
  C13: if some epoch's loader yields no batch, \<open>train_proxy\<close> raises
  \<open>ZeroDivisionError\<close> from \<open>total_loss / total_num\<close> in \<open>train_epoch\<close>, whether the
  trainer is rebuilt (batch 0, whose pool is the seed selection and may be empty when the
  scored pool is) or continued.
\<close>

theorem train_proxy_empty_epoch:
  assumes "method_name a \<in> {SIMCLR, DCL, MYOW}" and "e < al_epochs a" and "loader_of samples e = []"
    and "rebuild \<longrightarrow> (\<exists>b w. load_saved_state a True ''1'' st = Inr b \<and> state_model b = Inr w)"
  shows "train_proxy m loader_of a st samples model rebuild = Inl ZeroDivisionError"
proof -
  obtain tr where tr: "proxy_trainer m a st model rebuild = Inr tr"
    using proxy_trainer_Inr [OF assms(1,4), of m model] by auto
  have "loader_of samples (0 + e) = []"
    using assms(3) by simp
  note pe = proxy_epochs_empty [where ld = "loader_of samples", OF assms(2) this]
  show ?thesis
    by (simp add: train_proxy_def tr pe)
qed

theorem train_proxy_empty_epoch_witness:
  "method_name demo_args \<in> {SIMCLR, DCL, MYOW} \<and> 0 < al_epochs demo_args
   \<and> (\<lambda>(s::nat list) (e::nat). ([] :: nat list list)) [] 0 = []
   \<and> load_saved_state demo_args True ''1'' demo_ckpt_store = Inr (Torch_Checkpoint 5 ''Adam-Cosine-optimizer'' 0)
   \<and> train_proxy demo_ops (\<lambda>s e. []) demo_args demo_ckpt_store ([] :: nat list) 0 True = Inl ZeroDivisionError"
proof -
  have ls: "load_saved_state demo_args True ''1'' demo_ckpt_store = Inr (Torch_Checkpoint 5 ''Adam-Cosine-optimizer'' 0)"
    by (simp add: load_saved_state_def demo_ckpt_store_def resume_set_def demo_args_def)
  have h: "method_name demo_args \<in> {SIMCLR, DCL, MYOW}" "0 < al_epochs demo_args"
    "True \<longrightarrow> (\<exists>b w. load_saved_state demo_args True ''1'' demo_ckpt_store = Inr b \<and> state_model b = Inr w)"
    using ls by (simp_all add: demo_args_def state_model_def)
  show ?thesis
    using train_proxy_empty_epoch [OF h(1) h(2), of "\<lambda>s e. []" "[] :: nat list" True demo_ckpt_store demo_ops 0] h ls
    by simp
qed

text \<open>\<open>finetune\<close> over a sample list the loader yields no batch for raises in \<open>torch.cat\<close>.\<close>

lemma finetune_no_batches:
  "ft_loader_of samples = [] \<Longrightarrow> finetune m srt ft_loader_of a model samples = Inl RuntimeError"
  by (simp add: finetune_def)

end
