(* ===== verification/Orchestrator.thy ===== *)
theory Orchestrator
  imports Scorer Proxy_Trainer
begin

text \<open>
  The active-learning controller \<open>PretextTrainer.do_active_learning\<close>
  (\<open>models/active_learning/pretext_trainer.py\<close>, lines 185--220). It reads the scored
  pool from the cache or scores the dataset, then runs \<open>args.al_batches\<close> batches over
  consecutive slices of 6400 records of the scored pool. Batch 0 takes the first 5120
  records of its slice. Batch \<open>b > 0\<close> reloads the proxy saved by batch \<open>b - 1\<close> from
  \<open>proxy_{b-1}.pth\<close> and lets it select from its slice (\<open>finetune\<close>). Every batch but
  the last appends its selection to the pretraining pool, retrains the proxy on the whole
  pool and saves it as \<open>proxy_{b}.pth\<close>; the last only appends. At the end the pool is
  persisted under \<open>args.pretrain_path_loss_file\<close> and returned.

  The state the loop threads through its iterations is the record \<open>al_state\<close>: the
  \<open>args\<close> namespace (its \<open>global_step\<close> advances during training), the file store, the
  proxy's weights, the pool and the \<open>rebuild_al_model\<close> flag. The collaborators that are
  not in the sources are the fields of \<open>al_env\<close>: the target dataset in the order the
  scoring loader draws it, the \<open>PretextDataLoader\<close> batches over a sample list for
  training and for fine-tuning, and the \<open>argsort\<close> NumPy uses.
\<close>

type_synonym sample = "string list path_loss"

record ('w, 'o) al_state =
  al_args :: args
  al_fs :: "(string list, 'w, 'o) fs"
  proxy_model :: 'w
  pool :: "sample list"
  rebuild_al_model :: bool

record 'img al_env =
  dataset_items :: "'img item list"
  loader_of :: "sample list \<Rightarrow> nat \<Rightarrow> 'img list list"
  ft_loader_of :: "sample list \<Rightarrow> 'img list list"
  argsort :: "float64 list \<Rightarrow> nat list"

text \<open>\<open>sample6400 = path_loss[batch * 6400 : (batch + 1) * 6400]\<close>.\<close>

definition batch_slice :: "sample list \<Rightarrow> nat \<Rightarrow> sample list" where
  "batch_slice pl b = py_slice pl (b * 6400) ((b + 1) * 6400)"

text \<open>
  How batch \<open>b\<close> obtains its selection and the proxy it continues with: the seed prefix
  for batch 0, otherwise the proxy reloaded from \<open>proxy_{b-1}.pth\<close> (loaded into the
  current proxy with \<open>strict=False\<close>) and its \<open>finetune\<close> selection.
\<close>

definition batch_selection ::
  "('w, 'o, 'img, 'out) ops \<Rightarrow> 'img al_env \<Rightarrow> sample list \<Rightarrow> nat \<Rightarrow> ('w, 'o) al_state
   \<Rightarrow> ('w \<times> sample list) result" where
  "batch_selection m env pl b s =
     (let sample6400 = batch_slice pl b
      in if 0 < b then
           (case simple_load_model (al_args s) (proxy_file (b - 1)) (al_fs s) of
              Inl e \<Rightarrow> Inl e
            | Inr sd \<Rightarrow>
                (let pm = load_sd m (proxy_model s) sd
                 in case finetune m (argsort env) (ft_loader_of env) (al_args s) pm sample6400 of
                      Inl e \<Rightarrow> Inl e
                    | Inr samplek \<Rightarrow> Inr (pm, samplek)))
         else Inr (proxy_model s, take 5120 sample6400))"

text \<open>One iteration of the \<open>for batch in range(args.al_batches)\<close> loop.\<close>

definition al_batch ::
  "('w, 'o, 'img, 'out) ops \<Rightarrow> 'img al_env \<Rightarrow> sample list \<Rightarrow> nat \<Rightarrow> ('w, 'o) al_state
   \<Rightarrow> ('w, 'o) al_state result" where
  "al_batch m env pl b s =
     (case batch_selection m env pl b s of
        Inl e \<Rightarrow> Inl e
      | Inr (pm, samplek) \<Rightarrow>
          (let pool' = pool s @ samplek
           in if b < al_batches (al_args s) - 1 then
                (case train_proxy m (loader_of env) (al_args s) (al_fs s) pool' pm (rebuild_al_model s) of
                   Inl e \<Rightarrow> Inl e
                 | Inr (pm', a') \<Rightarrow>
                     (case simple_save_model a' pm' (proxy_file b) (al_fs s) of
                        Inl e \<Rightarrow> Inl e
                      | Inr st' \<Rightarrow>
                          Inr (s\<lparr>al_args := a', al_fs := st', proxy_model := pm', pool := pool',
                                 rebuild_al_model := False\<rparr>)))
              else Inr (s\<lparr>proxy_model := pm, pool := pool'\<rparr>)))"

fun al_loop ::
  "('w, 'o, 'img, 'out) ops \<Rightarrow> 'img al_env \<Rightarrow> sample list \<Rightarrow> nat list \<Rightarrow> ('w, 'o) al_state
   \<Rightarrow> ('w, 'o) al_state result" where
  "al_loop m env pl [] s = Inr s"
| "al_loop m env pl (b # bs) s =
     (case al_batch m env pl b s of Inl e \<Rightarrow> Inl e | Inr s' \<Rightarrow> al_loop m env pl bs s')"

text \<open>
  The scored pool: the cache if \<open>load_path_loss\<close> finds it, otherwise a fresh scoring
  pass, which also persists it.
\<close>

definition scored_pool ::
  "('w, 'o, 'img, 'out) ops \<Rightarrow> 'img al_env \<Rightarrow> args \<Rightarrow> 'w \<Rightarrow> (string list, 'w, 'o) fs
   \<Rightarrow> (args \<times> (string list, 'w, 'o) fs \<times> sample list) result" where
  "scored_pool m env a encoder st =
     (case load_path_loss a (al_path_loss_file a) st of
        Inl e \<Rightarrow> Inl e
      | Inr (Some path_loss) \<Rightarrow> Inr (a, st, path_loss)
      | Inr None \<Rightarrow> make_batches m a encoder st (dataset_items env))"

definition init_state :: "args \<Rightarrow> (string list, 'w, 'o) fs \<Rightarrow> 'w \<Rightarrow> ('w, 'o) al_state" where
  "init_state a st encoder =
     \<lparr>al_args = a, al_fs = st, proxy_model = encoder, pool = [], rebuild_al_model = True\<rparr>"

definition do_active_learning ::
  "('w, 'o, 'img, 'out) ops \<Rightarrow> 'img al_env \<Rightarrow> args \<Rightarrow> 'w \<Rightarrow> (string list, 'w, 'o) fs
   \<Rightarrow> (args \<times> (string list, 'w, 'o) fs \<times> sample list) result" where
  "do_active_learning m env a encoder st =
     (case scored_pool m env a encoder st of
        Inl e \<Rightarrow> Inl e
      | Inr (a1, st1, path_loss) \<Rightarrow>
          (case al_loop m env path_loss [0..<al_batches a1] (init_state a1 st1 encoder) of
             Inl e \<Rightarrow> Inl e
           | Inr s \<Rightarrow>
               Inr (al_args s,
                    save_path_loss (al_args s) (pretrain_path_loss_file (al_args s)) (pool s) (al_fs s),
                    pool s)))"

section \<open>Abstract specification: the loop as a fold\<close>

text \<open>
  What the loop computes, without the file round trip: a fold over the batch indices that
  threads the arguments, the proxy and the pool in memory, passes the proxy of the previous
  batch directly to \<open>finetune\<close>, and rebuilds the trainer exactly for batch 0. The
  file store the trainer may read is the one the loop starts from.
\<close>

record 'w al_abs =
  ab_args :: args
  ab_proxy :: 'w
  ab_pool :: "sample list"

text \<open>The selection of batch \<open>b\<close> when the proxy \<open>w\<close> is passed in memory.\<close>

definition abs_selection ::
  "('w, 'o, 'img, 'out) ops \<Rightarrow> 'img al_env \<Rightarrow> args \<Rightarrow> 'w \<Rightarrow> sample list \<Rightarrow> nat \<Rightarrow> sample list result" where
  "abs_selection m env a w pl b =
     (if 0 < b then finetune m (argsort env) (ft_loader_of env) a w (batch_slice pl b)
      else Inr (take 5120 (batch_slice pl b)))"

definition abs_batch ::
  "('w, 'o, 'img, 'out) ops \<Rightarrow> 'img al_env \<Rightarrow> (string list, 'w, 'o) fs \<Rightarrow> sample list \<Rightarrow> nat
   \<Rightarrow> 'w al_abs \<Rightarrow> 'w al_abs result" where
  "abs_batch m env st0 pl b t =
     (case abs_selection m env (ab_args t) (ab_proxy t) pl b of
        Inl e \<Rightarrow> Inl e
      | Inr samplek \<Rightarrow>
          (let pool' = ab_pool t @ samplek
           in if b < al_batches (ab_args t) - 1 then
                (case train_proxy m (loader_of env) (ab_args t) st0 pool' (ab_proxy t) (b = 0) of
                   Inl e \<Rightarrow> Inl e
                 | Inr (w', a') \<Rightarrow> Inr \<lparr>ab_args = a', ab_proxy = w', ab_pool = pool'\<rparr>)
              else Inr (t\<lparr>ab_pool := pool'\<rparr>)))"

fun abs_loop ::
  "('w, 'o, 'img, 'out) ops \<Rightarrow> 'img al_env \<Rightarrow> (string list, 'w, 'o) fs \<Rightarrow> sample list \<Rightarrow> nat list
   \<Rightarrow> 'w al_abs \<Rightarrow> 'w al_abs result" where
  "abs_loop m env st0 pl [] t = Inr t"
| "abs_loop m env st0 pl (b # bs) t =
     (case abs_batch m env st0 pl b t of Inl e \<Rightarrow> Inl e | Inr t' \<Rightarrow> abs_loop m env st0 pl bs t')"

definition abstr :: "('w, 'o) al_state \<Rightarrow> 'w al_abs" where
  "abstr s = \<lparr>ab_args = al_args s, ab_proxy = proxy_model s, ab_pool = pool s\<rparr>"

text \<open>
  The invariant that links the two at the start of batch \<open>k\<close> of \<open>n\<close>: the store is the
  initial one until batch 0 has run, afterwards \<open>proxy_{k-1}.pth\<close> holds the current
  proxy; the trainer is rebuilt exactly at batch 0; training has changed neither the model
  directory nor the number of batches; writability is that of the initial store.
\<close>

definition chain_inv ::
  "nat \<Rightarrow> (string list, 'w, 'o) fs \<Rightarrow> string \<Rightarrow> nat \<Rightarrow> ('w, 'o) al_state \<Rightarrow> bool" where
  "chain_inv n st0 mp k s \<longleftrightarrow>
     al_batches (al_args s) = n \<and> model_path (al_args s) = mp \<and> writable (al_fs s) = writable st0
     \<and> rebuild_al_model s = (k = 0) \<and> (k = 0 \<longrightarrow> al_fs s = st0)
     \<and> (0 < k \<longrightarrow> files (al_fs s) (path_join mp (proxy_file (k - 1))) = Some (Torch_Model (proxy_model s)))"

text \<open>
  Collaborators and a store for the examples: every loader yields one batch of one image,
  and the store holds the level-1 checkpoint of \<open>demo_args\<close> and a cached scored pool.
\<close>

definition demo_env :: "nat al_env" where
  "demo_env =
     \<lparr>dataset_items = demo_items, loader_of = (\<lambda>s e. [[length s]]), ft_loader_of = (\<lambda>s. [[0]]),
      argsort = stable_argsort\<rparr>"

definition demo_al_store :: "sample list \<Rightarrow> (string list, nat, nat) fs" where
  "demo_al_store pl =
     \<lparr>files = [checkpoint_file demo_args ''1'' 400 \<mapsto> Torch_Checkpoint 5 ''Adam-Cosine-optimizer'' 0,
               path_join ''save'' ''al_path_loss.pkl'' \<mapsto> Pickle pl],
      writable = (\<lambda>_. True)\<rparr>"

text \<open>The same store with nothing writable (a read-only model directory).\<close>

definition demo_ro_store :: "sample list \<Rightarrow> (string list, nat, nat) fs" where
  "demo_ro_store pl = (demo_al_store pl)\<lparr>writable := (\<lambda>_. False)\<rparr>"


lemma chain_inv_init: "chain_inv (al_batches a) st (model_path a) 0 (init_state a st w)"
  by (simp add: chain_inv_def init_state_def)

text \<open>The selection step agrees with the in-memory one and keeps the proxy.\<close>

lemma batch_selection_refines:
  assumes "load_own_sd m" and "chain_inv n st0 mp k s"
  shows "batch_selection m env pl k s =
           (case abs_selection m env (al_args s) (proxy_model s) pl k of
              Inl e \<Rightarrow> Inl e | Inr samplek \<Rightarrow> Inr (proxy_model s, samplek))"
  using assms
  by (auto simp: batch_selection_def abs_selection_def chain_inv_def simple_load_model_def
      load_own_sd_def Let_def split: sum.splits)

lemma al_batch_refines:
  assumes own: "load_own_sd m" and inv: "chain_inv n st0 mp k s" and k: "k < n"
    and wr: "\<forall>b. writable st0 (path_join mp (proxy_file b))"
  shows "map_sum id abstr (al_batch m env pl k s) = abs_batch m env st0 pl k (abstr s)
         \<and> (\<forall>s'. al_batch m env pl k s = Inr s' \<longrightarrow> Suc k < n \<longrightarrow> chain_inv n st0 mp (Suc k) s')"
proof -
  let ?sel = "abs_selection m env (al_args s) (proxy_model s) pl k"
  have sel: "batch_selection m env pl k s = (case ?sel of Inl e \<Rightarrow> Inl e | Inr samplek \<Rightarrow> Inr (proxy_model s, samplek))"
    by (rule batch_selection_refines [OF own inv])
  have fields: "al_batches (al_args s) = n" "model_path (al_args s) = mp" "writable (al_fs s) = writable st0"
    "rebuild_al_model s = (k = 0)" "k = 0 \<longrightarrow> al_fs s = st0"
    using inv by (simp_all add: chain_inv_def)
  have train: "train_proxy m (loader_of env) (al_args s) (al_fs s) p (proxy_model s) (rebuild_al_model s)
             = train_proxy m (loader_of env) (al_args s) st0 p (proxy_model s) (k = 0)" for p
    using fields(4,5) by (cases "k = 0") (simp_all add: train_proxy_no_rebuild_store [of _ _ _ "al_fs s" _ _ st0])
  show ?thesis
  proof (cases ?sel)
    case (Inl e)
    then show ?thesis
      by (simp add: al_batch_def abs_batch_def sel abstr_def Let_def)
  next
    case (Inr samplek)
    note sk = this
    show ?thesis
    proof (cases "k < n - 1")
      case False
      then have "\<not> Suc k < n" by arith
      with False sk k fields(1) show ?thesis
        by (simp add: al_batch_def abs_batch_def sel abstr_def Let_def)
    next
      case True
      show ?thesis
      proof (cases "train_proxy m (loader_of env) (al_args s) st0 (pool s @ samplek) (proxy_model s) (k = 0)")
        case (Inl e)
        with sk True fields(1) train show ?thesis
          by (simp add: al_batch_def abs_batch_def sel abstr_def Let_def)
      next
        case (Inr r)
        note tp = this
        obtain w' a' where r: "r = (w', a')" by (cases r)
        have a': "a' = al_args s\<lparr>global_step := global_step a'\<rparr>"
          using train_proxy_args [of m "loader_of env" "al_args s" st0 "pool s @ samplek" "proxy_model s"
              "k = 0" w' a'] tp r by simp
        then have mp': "model_path a' = mp" and nb': "al_batches a' = n"
          using fields(1,2) by (metis args.select_convs(6) args.surjective args.update_convs(15),
                                metis args.select_convs(3) args.surjective args.update_convs(15))
        have "writable (al_fs s) (path_join (model_path a') (proxy_file k))"
          using wr fields(3) mp' by simp
        then have save: "simple_save_model a' w' (proxy_file k) (al_fs s)
            = Inr ((al_fs s)\<lparr>files := (files (al_fs s))(path_join mp (proxy_file k) \<mapsto> Torch_Model w')\<rparr>)"
          using mp' by (simp add: simple_save_model_def)
        show ?thesis
          using sk True fields train tp r save mp' nb'
          by (simp add: al_batch_def abs_batch_def sel abstr_def Let_def chain_inv_def)
      qed
    qed
  qed
qed

lemma al_loop_refines_from:
  assumes own: "load_own_sd m" and wr: "\<forall>b. writable st0 (path_join mp (proxy_file b))"
  shows "chain_inv n st0 mp k s \<Longrightarrow> k \<le> n \<Longrightarrow>
         map_sum id abstr (al_loop m env pl [k..<n] s) = abs_loop m env st0 pl [k..<n] (abstr s)"
proof (induction "n - k" arbitrary: k s)
  case 0
  then show ?case by simp
next
  case (Suc d)
  then have k: "k < n" by arith
  have upt: "[k..<n] = k # [Suc k..<n]"
    using k by (rule upt_conv_Cons)
  from al_batch_refines [OF own Suc.prems(1) k wr]
  have eq: "map_sum id abstr (al_batch m env pl k s) = abs_batch m env st0 pl k (abstr s)"
    and inv': "\<And>s'. al_batch m env pl k s = Inr s' \<Longrightarrow> Suc k < n \<Longrightarrow> chain_inv n st0 mp (Suc k) s'"
    by blast+
  show ?case
  proof (cases "al_batch m env pl k s")
    case (Inl e)
    with eq have "abs_batch m env st0 pl k (abstr s) = Inl e" by simp
    with Inl show ?thesis by (simp add: upt)
  next
    case (Inr s')
    with eq have ab: "abs_batch m env st0 pl k (abstr s) = Inr (abstr s')" by simp
    show ?thesis
    proof (cases "Suc k < n")
      case True
      have "map_sum id abstr (al_loop m env pl [Suc k..<n] s') = abs_loop m env st0 pl [Suc k..<n] (abstr s')"
        using Suc.hyps(1) [of "Suc k" s'] Suc.hyps(2) inv' [OF Inr True] True by simp
      with Inr ab show ?thesis by (simp add: upt)
    next
      case False
      then have e: "[Suc k..<n] = []" by simp
      from Inr ab show ?thesis by (simp add: upt e)
    qed
  qed
qed

text \<open>
  C1: refinement of the checkpoint-chained loop by the in-memory fold. If loading a model's
  own state dictionary changes nothing and every \<open>proxy_{b}.pth\<close> can be written, then
  \<open>do_active_learning\<close>, which passes the proxy from one batch to the next through the
  file \<open>proxy_{b-1}.pth\<close>, returns the same arguments and the same pretraining pool as
  the fold \<open>abs_loop\<close> that threads the proxy and the pool in memory, and fails exactly
  when the fold fails, with the same exception.
\<close>

theorem do_active_learning_refines:
  assumes "load_own_sd m" and "scored_pool m env a w st = Inr (a1, st1, pl)"
    and "\<forall>b. writable st1 (path_join (model_path a1) (proxy_file b))"
  shows "map_sum id (\<lambda>(a', st', p). (a', p)) (do_active_learning m env a w st)
         = map_sum id (\<lambda>t. (ab_args t, ab_pool t))
             (abs_loop m env st1 pl [0..<al_batches a1] \<lparr>ab_args = a1, ab_proxy = w, ab_pool = []\<rparr>)"
proof -
  have "map_sum id abstr (al_loop m env pl [0..<al_batches a1] (init_state a1 st1 w))
        = abs_loop m env st1 pl [0..<al_batches a1] (abstr (init_state a1 st1 w))"
    by (rule al_loop_refines_from [OF assms(1,3) chain_inv_init]) simp
  moreover have "abstr (init_state a1 st1 w) = \<lparr>ab_args = a1, ab_proxy = w, ab_pool = []\<rparr>"
    by (simp add: abstr_def init_state_def)
  ultimately have L: "abs_loop m env st1 pl [0..<al_batches a1] \<lparr>ab_args = a1, ab_proxy = w, ab_pool = []\<rparr>
      = map_sum id abstr (al_loop m env pl [0..<al_batches a1] (init_state a1 st1 w))"
    by simp
  show ?thesis
    using assms(2)
    by (cases "al_loop m env pl [0..<al_batches a1] (init_state a1 st1 w)")
       (simp_all only: L, simp_all add: do_active_learning_def abstr_def)
qed

section \<open>Concrete runs\<close>

lemma demo_ckpt_ne: "path_join ''save'' ''al_path_loss.pkl'' \<noteq> checkpoint_file demo_args ''1'' 400"
  by (simp add: path_join_def checkpoint_file_def demo_args_def ckpt_prefix_def)

lemma demo_load_saved_state:
  "load_saved_state demo_args True ''1'' (demo_al_store pl) = Inr (Torch_Checkpoint 5 ''Adam-Cosine-optimizer'' 0)"
  using demo_ckpt_ne
  by (simp add: load_saved_state_def demo_al_store_def resume_set_def demo_args_def del: fun_upd_apply)
     (simp add: demo_args_def)

lemma demo_train_proxy:
  "train_proxy demo_ops (loader_of demo_env) demo_args (demo_al_store pl) (take 5120 pl) 0 True
   = Inr (6, demo_args\<lparr>global_step := 1\<rparr>)"
  by (simp add: train_proxy_def proxy_trainer_def SimCLRTrainer_def demo_load_saved_state state_model_def
      load_optimizer_def train_epoch_def demo_env_def demo_ops_def params_batch_size_def)
     (simp add: demo_args_def train_epoch_def)

lemma demo_finetune:
  "finetune demo_ops stable_argsort (ft_loader_of demo_env) (demo_args\<lparr>global_step := 1\<rparr>) 6 (PathLoss [''x''] 1 # xs) = Inr [PathLoss [''x''] 1]"
  by (simp add: finetune_def demo_env_def demo_ops_def get_predictions_def get_new_samples_def
      lc_indices_def stable_argsort_def softmax_def py_index_all_eq demo_args_def)

lemma demo_own_sd: "load_own_sd demo_ops"
  by (simp add: load_own_sd_def demo_ops_def)

lemma demo_scored_pool:
  "scored_pool demo_ops demo_env demo_args 0 (demo_al_store pl) = Inr (demo_args, demo_al_store pl, pl)"
  using demo_ckpt_ne by (simp add: scored_pool_def load_path_loss_def demo_al_store_def demo_args_def)

lemma demo_one_batch_run:
  "do_active_learning demo_ops demo_env (demo_args\<lparr>al_batches := 1\<rparr>) 0
     (demo_al_store [PathLoss [''a''] 2, PathLoss [''b''] 1])
   = Inr (demo_args\<lparr>al_batches := 1\<rparr>,
          save_path_loss (demo_args\<lparr>al_batches := 1\<rparr>) ''pretrain_path_loss.pkl''
            [PathLoss [''a''] 2, PathLoss [''b''] 1] (demo_al_store [PathLoss [''a''] 2, PathLoss [''b''] 1]),
          [PathLoss [''a''] 2, PathLoss [''b''] 1])"
  using demo_ckpt_ne
  by (simp add: do_active_learning_def scored_pool_def load_path_loss_def demo_al_store_def
      init_state_def al_batch_def batch_selection_def batch_slice_def py_slice_def demo_args_def)

theorem do_active_learning_refines_witness:
  "load_own_sd demo_ops
   \<and> scored_pool demo_ops demo_env demo_args 0 (demo_al_store [PathLoss [''x''] 1])
       = Inr (demo_args, demo_al_store [PathLoss [''x''] 1], [PathLoss [''x''] 1])
   \<and> (\<forall>b. writable (demo_al_store [PathLoss [''x''] 1]) (path_join (model_path demo_args) (proxy_file b)))
   \<and> map_sum id (\<lambda>(a', st', p). (a', p)) (do_active_learning demo_ops demo_env demo_args 0 (demo_al_store [PathLoss [''x''] 1]))
       = map_sum id (\<lambda>t. (ab_args t, ab_pool t))
           (abs_loop demo_ops demo_env (demo_al_store [PathLoss [''x''] 1]) [PathLoss [''x''] 1]
              [0..<al_batches demo_args] \<lparr>ab_args = demo_args, ab_proxy = 0, ab_pool = []\<rparr>)"
proof -
  have w: "\<forall>b. writable (demo_al_store [PathLoss [''x''] 1]) (path_join (model_path demo_args) (proxy_file b))"
    by (simp add: demo_al_store_def)
  show ?thesis
    using do_active_learning_refines [OF demo_own_sd demo_scored_pool w] demo_own_sd demo_scored_pool w
    by blast
qed

lemma batch_slice_1:
  "length pl = 12800 \<Longrightarrow> batch_slice pl 1 = drop 6400 pl \<and> length (batch_slice pl 1) = 6400"
  by (simp add: batch_slice_def py_slice_def)

text \<open>
  C2: the two-batch run of the specification. With a scored pool of 12800 records and
  \<open>al_batches = 2\<close>, batch 0 selects the first 5120 records, trains the proxy on them and
  saves it as \<open>proxy_0.pth\<close>; batch 1 reloads that proxy and lets it select from records
  6400--12799; no proxy is trained or saved after the last batch, and the pool of
  5120 + |selection| records is persisted and returned.
\<close>

theorem two_batch_run:
  assumes own: "load_own_sd m"
    and sp: "scored_pool m env a w st = Inr (a1, st1, pl)"
    and len: "length pl = 12800" and nb: "al_batches a1 = 2"
    and tp: "train_proxy m (loader_of env) a1 st1 (take 5120 pl) w True = Inr (w0, a2)"
    and wr: "writable st1 (path_join (model_path a1) (proxy_file 0))"
    and ft: "finetune m (argsort env) (ft_loader_of env) a2 w0 (drop 6400 pl) = Inr ks"
  shows "do_active_learning m env a w st =
           Inr (a2, save_path_loss a2 (pretrain_path_loss_file a2) (take 5120 pl @ ks)
                      (st1\<lparr>files := (files st1)(path_join (model_path a1) (proxy_file 0) \<mapsto> Torch_Model w0)\<rparr>),
                take 5120 pl @ ks)
         \<and> length (batch_slice pl 1) = 6400"
proof -
  have a2: "a2 = a1\<lparr>global_step := global_step a2\<rparr>"
    using train_proxy_args [OF tp] .
  have nb2: "al_batches a2 = 2" and mp2: "model_path a2 = model_path a1"
    by (subst a2, simp add: nb)+
  define st2 where "st2 = st1\<lparr>files := (files st1)(path_join (model_path a1) (proxy_file 0) \<mapsto> Torch_Model w0)\<rparr>"
  have sv: "simple_save_model a2 w0 (proxy_file 0) st1 = Inr st2"
    by (simp add: simple_save_model_def mp2 wr st2_def)
  define s1 :: "('a, 'b) al_state" where
    "s1 = \<lparr>al_args = a2, al_fs = st2, proxy_model = w0, pool = take 5120 pl, rebuild_al_model = False\<rparr>"
  have sl: "batch_slice pl 1 = drop 6400 pl" "length (batch_slice pl 1) = 6400"
    using batch_slice_1 [OF len] by blast+
  have b0: "al_batch m env pl 0 (init_state a1 st1 w) = Inr s1"
    by (simp add: al_batch_def init_state_def batch_selection_def batch_slice_def py_slice_def nb tp sv s1_def)
  have ld: "simple_load_model a2 (proxy_file 0) st2 = Inr w0"
    using model_roundtrip [OF sv] .
  have b1: "al_batch m env pl 1 s1 = Inr (s1\<lparr>proxy_model := w0, pool := take 5120 pl @ ks\<rparr>)"
    using own by (simp add: al_batch_def batch_selection_def s1_def ld sl(1)[unfolded One_nat_def] ft nb2 load_own_sd_def)
  have "[0..<al_batches a1] = [0, 1]"
    by (simp add: nb upt_rec)
  then show ?thesis
    using sp b0 b1 sl(2) by (simp add: do_active_learning_def s1_def st2_def)
qed

theorem two_batch_run_witness:
  "do_active_learning demo_ops demo_env demo_args 0 (demo_al_store (replicate 12800 (PathLoss [''x''] 1))) =
     Inr (demo_args\<lparr>global_step := 1\<rparr>,
          save_path_loss (demo_args\<lparr>global_step := 1\<rparr>) ''pretrain_path_loss.pkl''
            (replicate 5120 (PathLoss [''x''] 1) @ [PathLoss [''x''] 1])
            ((demo_al_store (replicate 12800 (PathLoss [''x''] 1)))
               \<lparr>files := (files (demo_al_store (replicate 12800 (PathLoss [''x''] 1))))
                   (path_join ''save'' (proxy_file 0) \<mapsto> Torch_Model 6)\<rparr>),
          replicate 5120 (PathLoss [''x''] 1) @ [PathLoss [''x''] 1])
   \<and> length (batch_slice (replicate 12800 (PathLoss [''x''] 1)) 1) = 6400"
proof -
  have ft: "finetune demo_ops (argsort demo_env) (ft_loader_of demo_env) (demo_args\<lparr>global_step := 1\<rparr>) 6
              (drop 6400 (replicate 12800 (PathLoss [''x''] 1))) = Inr [PathLoss [''x''] 1]"
    using demo_finetune [of "replicate 6399 (PathLoss [''x''] 1)"]
    by (simp add: demo_env_def replicate_Suc[symmetric] del: replicate_Suc)
  have wr: "writable (demo_al_store (replicate 12800 (PathLoss [''x''] 1))) (path_join (model_path demo_args) (proxy_file 0))"
    by (simp add: demo_al_store_def)
  show ?thesis
    using two_batch_run [OF demo_own_sd demo_scored_pool _ _ demo_train_proxy wr ft]
    by (simp add: demo_args_def)
qed

section \<open>Growth of the pretraining pool\<close>

lemma batch_selection_bound:
  "batch_selection m env pl b s = Inr (pm, samplek) \<Longrightarrow>
   length samplek \<le> 5120 \<and> set samplek \<subseteq> set (batch_slice pl b)"
  by (auto simp: batch_selection_def finetune_def Let_def split: if_splits sum.splits
      dest: get_new_samples_Inr_bound in_set_takeD)

lemma al_batch_pool:
  "al_batch m env pl b s = Inr s' \<Longrightarrow>
   \<exists>samplek. pool s' = pool s @ samplek \<and> length samplek \<le> 5120 \<and> set samplek \<subseteq> set pl"
  using py_slice_set [of pl "b * 6400" "(b + 1) * 6400"]
  by (fastforce simp: al_batch_def Let_def batch_slice_def split: sum.splits prod.splits if_splits
      dest!: batch_selection_bound)

lemma al_loop_pool:
  "al_loop m env pl bs s = Inr s' \<Longrightarrow>
   length (pool s') \<le> length (pool s) + 5120 * length bs \<and> set (pool s') \<subseteq> set (pool s) \<union> set pl
   \<and> take (length (pool s)) (pool s') = pool s"
proof (induction bs arbitrary: s)
  case (Cons b bs)
  then obtain s1 where s1: "al_batch m env pl b s = Inr s1" and rest: "al_loop m env pl bs s1 = Inr s'"
    by (auto split: sum.splits)
  from al_batch_pool [OF s1] obtain k where k: "pool s1 = pool s @ k" "length k \<le> 5120" "set k \<subseteq> set pl"
    by blast
  from Cons.IH [OF rest] have ih: "length (pool s') \<le> length (pool s1) + 5120 * length bs"
    "set (pool s') \<subseteq> set (pool s1) \<union> set pl" "take (length (pool s1)) (pool s') = pool s1"
    by blast+
  have "pool s' = pool s @ k @ drop (length (pool s1)) (pool s')"
    by (metis append_take_drop_id append.assoc ih(3) k(1))
  then have "take (length (pool s)) (pool s') = pool s"
    by (metis append_eq_conv_conj)
  with ih k show ?case
    by auto
qed simp

text \<open>
  C11: the pretraining pool only grows by appending: when the run returns, its pool holds
  at most 5120 records per active-learning batch, every one of them a record of the scored
  pool, and the pool is persisted under \<open>args.pretrain_path_loss_file\<close>.
\<close>

theorem pool_bounded:
  assumes "do_active_learning m env a w st = Inr (a', st', p)"
  shows "\<exists>a1 st1 pl. scored_pool m env a w st = Inr (a1, st1, pl)
           \<and> length p \<le> 5120 * al_batches a1 \<and> set p \<subseteq> set pl
           \<and> (writable st' (path_join (model_path a') (pretrain_path_loss_file a'))
              \<longrightarrow> files st' (path_join (model_path a') (pretrain_path_loss_file a')) = Some (Pickle p))"
proof -
  obtain a1 st1 pl s where sp: "scored_pool m env a w st = Inr (a1, st1, pl)"
    and lp: "al_loop m env pl [0..<al_batches a1] (init_state a1 st1 w) = Inr s"
    and res: "a' = al_args s" "st' = save_path_loss (al_args s) (pretrain_path_loss_file (al_args s)) (pool s) (al_fs s)"
      "p = pool s"
    using assms by (auto simp: do_active_learning_def split: sum.splits prod.splits)
  from al_loop_pool [OF lp] have "length p \<le> 5120 * al_batches a1" "set p \<subseteq> set pl"
    by (simp_all add: init_state_def res)
  moreover have "writable st' (path_join (model_path a') (pretrain_path_loss_file a'))
              \<longrightarrow> files st' (path_join (model_path a') (pretrain_path_loss_file a')) = Some (Pickle p)"
    by (simp add: res save_path_loss_files)
  ultimately show ?thesis
    using sp by blast
qed

theorem pool_bounded_witness:
  "do_active_learning demo_ops demo_env (demo_args\<lparr>al_batches := 1\<rparr>) 0
     (demo_al_store [PathLoss [''a''] 2, PathLoss [''b''] 1])
     = Inr (demo_args\<lparr>al_batches := 1\<rparr>,
            save_path_loss (demo_args\<lparr>al_batches := 1\<rparr>) ''pretrain_path_loss.pkl''
              [PathLoss [''a''] 2, PathLoss [''b''] 1] (demo_al_store [PathLoss [''a''] 2, PathLoss [''b''] 1]),
            [PathLoss [''a''] 2, PathLoss [''b''] 1])
   \<and> length [PathLoss [''a''] 2, PathLoss [''b''] 1] \<le> 5120 * al_batches (demo_args\<lparr>al_batches := 1\<rparr>)
   \<and> files (save_path_loss (demo_args\<lparr>al_batches := 1\<rparr>) ''pretrain_path_loss.pkl''
         [PathLoss [''a''] 2, PathLoss [''b''] 1] (demo_al_store [PathLoss [''a''] 2, PathLoss [''b''] 1]))
         (path_join ''save'' ''pretrain_path_loss.pkl'')
       = Some (Pickle [PathLoss [''a''] 2, PathLoss [''b''] 1])"
proof -
  have sp: "scored_pool demo_ops demo_env (demo_args\<lparr>al_batches := 1\<rparr>) 0
              (demo_al_store [PathLoss [''a''] 2, PathLoss [''b''] 1])
            = Inr (demo_args\<lparr>al_batches := 1\<rparr>, demo_al_store [PathLoss [''a''] 2, PathLoss [''b''] 1],
                   [PathLoss [''a''] 2, PathLoss [''b''] 1])"
    using demo_ckpt_ne by (simp add: scored_pool_def load_path_loss_def demo_al_store_def demo_args_def)
  obtain a1 st1 pl where h: "scored_pool demo_ops demo_env (demo_args\<lparr>al_batches := 1\<rparr>) 0
              (demo_al_store [PathLoss [''a''] 2, PathLoss [''b''] 1]) = Inr (a1, st1, pl)"
    and b: "length [PathLoss [''a''] 2, PathLoss [''b''] 1] \<le> 5120 * al_batches a1"
    and f: "writable (save_path_loss (demo_args\<lparr>al_batches := 1\<rparr>) ''pretrain_path_loss.pkl''
              [PathLoss [''a''] 2, PathLoss [''b''] 1] (demo_al_store [PathLoss [''a''] 2, PathLoss [''b''] 1]))
              (path_join (model_path (demo_args\<lparr>al_batches := 1\<rparr>)) (pretrain_path_loss_file (demo_args\<lparr>al_batches := 1\<rparr>)))
            \<longrightarrow> files (save_path_loss (demo_args\<lparr>al_batches := 1\<rparr>) ''pretrain_path_loss.pkl''
              [PathLoss [''a''] 2, PathLoss [''b''] 1] (demo_al_store [PathLoss [''a''] 2, PathLoss [''b''] 1]))
              (path_join (model_path (demo_args\<lparr>al_batches := 1\<rparr>)) (pretrain_path_loss_file (demo_args\<lparr>al_batches := 1\<rparr>)))
              = Some (Pickle [PathLoss [''a''] 2, PathLoss [''b''] 1])"
    using pool_bounded [OF demo_one_batch_run] by blast
  from h sp have "a1 = demo_args\<lparr>al_batches := 1\<rparr>" by simp
  with b f demo_one_batch_run show ?thesis
    by (simp add: demo_al_store_def demo_args_def)
qed

section \<open>Resuming from the score cache\<close>

lemma al_batch_dataset_items [simp]:
  "al_batch m (env\<lparr>dataset_items := xs\<rparr>) pl b s = al_batch m env pl b s"
proof -
  have e: "argsort (env\<lparr>dataset_items := xs\<rparr>) = argsort env"
    "ft_loader_of (env\<lparr>dataset_items := xs\<rparr>) = ft_loader_of env"
    "loader_of (env\<lparr>dataset_items := xs\<rparr>) = loader_of env"
    by simp_all
  show ?thesis
    unfolding al_batch_def batch_selection_def e ..
qed

lemma al_loop_dataset_items [simp]:
  "al_loop m (env\<lparr>dataset_items := xs\<rparr>) pl bs s = al_loop m env pl bs s"
  by (induction bs arbitrary: s) (simp_all split: sum.splits)

text \<open>
  C30: a persisted scored pool is a frozen input (sections 3 and 4.5 of the
  specification). When \<open>load_path_loss\<close> finds the cache, \<open>do_active_learning\<close> runs its
  batches over the cached list in its stored order with the store as it is, and the
  result does not depend on the dataset: no image is scored again.
\<close>

theorem cached_scores_reused:
  assumes "load_path_loss a (al_path_loss_file a) st = Inr (Some pl)"
  shows "do_active_learning m (env\<lparr>dataset_items := xs\<rparr>) a encoder st = do_active_learning m env a encoder st
         \<and> do_active_learning m env a encoder st =
             (case al_loop m env pl [0..<al_batches a] (init_state a st encoder) of
                Inl e \<Rightarrow> Inl e
              | Inr s \<Rightarrow> Inr (al_args s, save_path_loss (al_args s) (pretrain_path_loss_file (al_args s)) (pool s) (al_fs s),
                             pool s))"
  using assms by (simp add: do_active_learning_def scored_pool_def)

theorem cached_scores_reused_witness:
  "load_path_loss demo_args (al_path_loss_file demo_args) (demo_al_store [PathLoss [''a''] 2])
     = Inr (Some [PathLoss [''a''] 2])
   \<and> do_active_learning demo_ops (demo_env\<lparr>dataset_items := []\<rparr>) demo_args 0 (demo_al_store [PathLoss [''a''] 2])
     = do_active_learning demo_ops demo_env demo_args 0 (demo_al_store [PathLoss [''a''] 2])"
proof -
  have l: "load_path_loss demo_args (al_path_loss_file demo_args) (demo_al_store [PathLoss [''a''] 2])
           = Inr (Some [PathLoss [''a''] 2])"
    by (simp add: load_path_loss_def demo_al_store_def demo_args_def)
  show ?thesis
    using cached_scores_reused [OF l, of demo_ops "[]" demo_env 0] l by simp
qed

section \<open>Error paths of persistence\<close>

text \<open>
  C29: a proxy checkpoint that cannot be written aborts the run. Section 7 of the
  specification says save failures are reported and the run continues; that holds for the
  pickled pools (\<open>save_path_loss\<close> catches \<open>IOError\<close>), but \<open>simple_save_model\<close> is not
  guarded: when batch \<open>b\<close> is not the last and its selection and training succeed, an
  unwritable \<open>proxy_{b}.pth\<close> makes the batch raise \<open>OSError\<close>.
\<close>

theorem proxy_save_failure_aborts:
  assumes "batch_selection m env pl b s = Inr (pm, k)" and "b < al_batches (al_args s) - 1"
    and tp: "train_proxy m (loader_of env) (al_args s) (al_fs s) (pool s @ k) pm (rebuild_al_model s) = Inr (pm', a')"
    and "\<not> writable (al_fs s) (path_join (model_path (al_args s)) (proxy_file b))"
  shows "al_batch m env pl b s = Inl OSError"
proof -
  have "model_path a' = model_path (al_args s)"
    by (subst train_proxy_args [OF tp]) simp
  then show ?thesis
    using assms by (simp add: al_batch_def Let_def simple_save_model_def)
qed

theorem proxy_save_failure_aborts_witness:
  "batch_selection demo_ops demo_env [PathLoss [''x.png''] 1] 0 (init_state demo_args (demo_ro_store [PathLoss [''x.png''] 1]) 0)
     = Inr (0, [PathLoss [''x.png''] 1])
   \<and> 0 < al_batches demo_args - 1
   \<and> train_proxy demo_ops (loader_of demo_env) demo_args (demo_ro_store [PathLoss [''x.png''] 1]) [PathLoss [''x.png''] 1] 0 True
     = Inr (6, demo_args\<lparr>global_step := 1\<rparr>)
   \<and> \<not> writable (demo_ro_store [PathLoss [''x.png''] 1]) (path_join (model_path demo_args) (proxy_file 0))
   \<and> al_batch demo_ops demo_env [PathLoss [''x.png''] 1] 0 (init_state demo_args (demo_ro_store [PathLoss [''x.png''] 1]) 0)
     = Inl OSError"
proof -
  let ?st = "demo_ro_store [PathLoss [''x.png''] 1]"
  let ?s = "init_state demo_args ?st (0::nat)"
  have sel: "batch_selection demo_ops demo_env [PathLoss [''x.png''] 1] 0 ?s = Inr (0, [PathLoss [''x.png''] 1])"
    by (simp add: batch_selection_def batch_slice_def py_slice_def init_state_def)
  have n: "0 < al_batches demo_args - 1"
    by (simp add: demo_args_def)
  have ls: "load_saved_state demo_args True ''1'' ?st = Inr (Torch_Checkpoint 5 ''Adam-Cosine-optimizer'' 0)"
    using demo_load_saved_state [of "[PathLoss [''x.png''] 1]"]
    by (simp add: load_saved_state_def demo_ro_store_def)
  have tp: "train_proxy demo_ops (loader_of demo_env) demo_args ?st [PathLoss [''x.png''] 1] 0 True
            = Inr (6, demo_args\<lparr>global_step := 1\<rparr>)"
    by (simp add: train_proxy_def proxy_trainer_def SimCLRTrainer_def ls state_model_def
        load_optimizer_def train_epoch_def demo_env_def demo_ops_def params_batch_size_def)
       (simp add: demo_args_def train_epoch_def)
  have w: "\<not> writable ?st (path_join (model_path demo_args) (proxy_file 0))"
    by (simp add: demo_ro_store_def)
  have tp': "train_proxy demo_ops (loader_of demo_env) (al_args ?s) (al_fs ?s) (pool ?s @ [PathLoss [''x.png''] 1]) 0
               (rebuild_al_model ?s) = Inr (6, demo_args\<lparr>global_step := 1\<rparr>)"
    using tp by (simp add: init_state_def)
  have "al_batch demo_ops demo_env [PathLoss [''x.png''] 1] 0 ?s = Inl OSError"
    by (rule proxy_save_failure_aborts [OF sel _ tp']) (use n w in \<open>simp_all add: init_state_def\<close>)
  then show ?thesis
    using sel n tp w by simp
qed

end
