(* ===== verification/AL_Steps.thy ===== *)
theory AL_Steps
  imports Orchestrator
begin

text \<open>
  The controller of \<open>do_active_learning\<close> as the state machine of the specification:
  \<open>INIT \<rightarrow> SCORED \<rightarrow> BATCH 0 \<rightarrow> \<dots> \<rightarrow> BATCH n \<rightarrow> DONE\<close>, with a phase \<open>FAILED e\<close>
  for a step that raises \<open>e\<close>. A configuration holds the loop state of
  \<open>Orchestrator\<close>, the scored pool and the number of batches \<open>range(args.al_batches)\<close>
  fixed when the loop starts. The theory shows that the relation is deterministic and that
  its runs are exactly the function \<open>do_active_learning\<close>, and proves the checkpoint chain
  as an invariant of the reachable configurations.
\<close>

datatype al_phase = INIT | SCORED | BATCH nat | DONE | FAILED py_error

record ('w, 'o) al_cfg =
  phase :: al_phase
  cur :: "('w, 'o) al_state"
  scored :: "sample list"
  nbatches :: nat

definition init_cfg :: "args \<Rightarrow> 'w \<Rightarrow> (string list, 'w, 'o) fs \<Rightarrow> ('w, 'o) al_cfg" where
  "init_cfg a encoder st = \<lparr>phase = INIT, cur = init_state a st encoder, scored = [], nbatches = 0\<rparr>"

text \<open>The persisting of the final pool (line 219).\<close>

definition finish :: "('w, 'o) al_state \<Rightarrow> ('w, 'o) al_state" where
  "finish s = s\<lparr>al_fs := save_path_loss (al_args s) (pretrain_path_loss_file (al_args s)) (pool s) (al_fs s)\<rparr>"

inductive al_step ::
  "('w, 'o, 'img, 'out) ops \<Rightarrow> 'img al_env \<Rightarrow> ('w, 'o) al_cfg \<Rightarrow> ('w, 'o) al_cfg \<Rightarrow> bool"
  for m env where
  score: "phase c = INIT \<Longrightarrow>
          scored_pool m env (al_args (cur c)) (proxy_model (cur c)) (al_fs (cur c)) = Inr (a1, st1, pl) \<Longrightarrow>
          al_step m env c \<lparr>phase = SCORED, cur = init_state a1 st1 (proxy_model (cur c)), scored = pl,
                           nbatches = al_batches a1\<rparr>"
| score_fail: "phase c = INIT \<Longrightarrow>
          scored_pool m env (al_args (cur c)) (proxy_model (cur c)) (al_fs (cur c)) = Inl e \<Longrightarrow>
          al_step m env c (c\<lparr>phase := FAILED e\<rparr>)"
| begin_batches: "phase c = SCORED \<Longrightarrow> al_step m env c (c\<lparr>phase := BATCH 0\<rparr>)"
| batch: "phase c = BATCH b \<Longrightarrow> b < nbatches c \<Longrightarrow> al_batch m env (scored c) b (cur c) = Inr s' \<Longrightarrow>
          al_step m env c (c\<lparr>phase := BATCH (Suc b), cur := s'\<rparr>)"
| batch_fail: "phase c = BATCH b \<Longrightarrow> b < nbatches c \<Longrightarrow> al_batch m env (scored c) b (cur c) = Inl e \<Longrightarrow>
          al_step m env c (c\<lparr>phase := FAILED e\<rparr>)"
| complete: "phase c = BATCH b \<Longrightarrow> \<not> b < nbatches c \<Longrightarrow>
          al_step m env c (c\<lparr>phase := DONE, cur := finish (cur c)\<rparr>)"

text \<open>What a terminal configuration returns: the value or the exception of the call.\<close>

definition outcome ::
  "('w, 'o) al_cfg \<Rightarrow> (args \<times> (string list, 'w, 'o) fs \<times> sample list) result option" where
  "outcome c = (case phase c of
                  DONE \<Rightarrow> Some (Inr (al_args (cur c), al_fs (cur c), pool (cur c)))
                | FAILED e \<Rightarrow> Some (Inl e)
                | _ \<Rightarrow> None)"

text \<open>
  The invariant of the reachable configurations. In the loop at batch \<open>b\<close>: the number of
  batches in \<open>args\<close> is the one the loop started with; the pool holds at most 5120 records
  per completed batch, all from the scored pool; a batch still to run rebuilds its trainer
  exactly when it is batch 0; and a batch \<open>b > 0\<close> still to run finds
  \<open>proxy_{b-1}.pth\<close>, holding the current proxy.
\<close>

definition al_inv :: "('w, 'o) al_cfg \<Rightarrow> bool" where
  "al_inv c =
     (case phase c of
        INIT \<Rightarrow> rebuild_al_model (cur c) \<and> pool (cur c) = []
      | SCORED \<Rightarrow> rebuild_al_model (cur c) \<and> pool (cur c) = [] \<and> al_batches (al_args (cur c)) = nbatches c
      | BATCH b \<Rightarrow> b \<le> nbatches c \<and> al_batches (al_args (cur c)) = nbatches c
          \<and> length (pool (cur c)) \<le> 5120 * b \<and> set (pool (cur c)) \<subseteq> set (scored c)
          \<and> (b < nbatches c \<longrightarrow> rebuild_al_model (cur c) = (b = 0))
          \<and> (0 < b \<and> b < nbatches c \<longrightarrow>
               simple_load_model (al_args (cur c)) (proxy_file (b - 1)) (al_fs (cur c)) = Inr (proxy_model (cur c)))
      | DONE \<Rightarrow> True
      | FAILED e \<Rightarrow> True)"

text \<open>
  The configuration the two-batch example reaches after batch 0: the scored pool is the single
  record \<open>x.png\<close>, batch 0 trained the proxy (weights 5 from the checkpoint, one step) and
  saved it as \<open>proxy_0.pth\<close>.
\<close>

definition demo_pool :: "sample list" where
  "demo_pool = [PathLoss [''x.png''] 1]"

definition demo_cfg1 :: "(nat, nat) al_cfg" where
  "demo_cfg1 =
     \<lparr>phase = BATCH 1,
      cur = \<lparr>al_args = demo_args\<lparr>global_step := 1\<rparr>,
             al_fs = (demo_al_store demo_pool)
                       \<lparr>files := (files (demo_al_store demo_pool))(path_join ''save'' (proxy_file 0) \<mapsto> Torch_Model 6)\<rparr>,
             proxy_model = 6, pool = demo_pool, rebuild_al_model = False\<rparr>,
      scored = demo_pool, nbatches = 2\<rparr>"

text \<open>The triple \<open>do_active_learning\<close> returns from the final loop state.\<close>

definition run_result :: "('w, 'o) al_state \<Rightarrow> args \<times> (string list, 'w, 'o) fs \<times> sample list" where
  "run_result s = (al_args s, al_fs (finish s), pool s)"

text \<open>
  The files a run of \<open>do_active_learning\<close> writes under \<open>args.model_path\<close>: the scored
  pool, the final pool and the proxy checkpoints.
\<close>

definition al_outputs :: "args \<Rightarrow> string set" where
  "al_outputs a = {al_path_loss_file a, pretrain_path_loss_file a} \<union> range proxy_file"

inductive_simps al_step_simps: "al_step m env c c'"

lemma al_step_deterministic:
  "al_step m env c c1 \<Longrightarrow> al_step m env c c2 \<Longrightarrow> c1 = c2"
  by (induction rule: al_step.induct) (auto elim: al_step.cases)

lemma terminal_no_step:
  "outcome c \<noteq> None \<Longrightarrow> \<not> al_step m env c c'"
  by (auto simp: outcome_def elim: al_step.cases split: al_phase.splits)

lemma outcome_terminal:
  "outcome c \<noteq> None \<Longrightarrow> (al_step m env)\<^sup>*\<^sup>* c c' \<Longrightarrow> c' = c"
  by (metis converse_rtranclpE terminal_no_step)

lemma deterministic_confluent:
  assumes "(al_step m env)\<^sup>*\<^sup>* x z" and "(al_step m env)\<^sup>*\<^sup>* x y" and "outcome y \<noteq> None"
  shows "(al_step m env)\<^sup>*\<^sup>* z y"
  using assms(1)
proof (induction rule: rtranclp_induct)
  case base
  then show ?case using assms(2) .
next
  case (step z z')
  from step.IH show ?case
  proof (rule converse_rtranclpE)
    assume "z = y"
    with step.hyps(2) terminal_no_step [OF assms(3)] show ?thesis by blast
  next
    fix u
    assume "al_step m env z u" and "(al_step m env)\<^sup>*\<^sup>* u y"
    with \<open>al_step m env z z'\<close> show ?thesis by (auto dest: al_step_deterministic)
  qed
qed

lemma reach_terminal_unique:
  "(al_step m env)\<^sup>*\<^sup>* x y \<Longrightarrow> (al_step m env)\<^sup>*\<^sup>* x z \<Longrightarrow> outcome y \<noteq> None \<Longrightarrow> outcome z \<noteq> None
   \<Longrightarrow> y = z"
  by (metis deterministic_confluent outcome_terminal)

lemma loop_trace:
  assumes "phase c = BATCH b" and "b \<le> nbatches c"
    and "al_loop m env (scored c) [b..<nbatches c] (cur c) = r"
  shows "\<exists>c'. (al_step m env)\<^sup>*\<^sup>* c c' \<and> outcome c' = Some (map_sum id run_result r)"
  using assms
proof (induction "nbatches c - b" arbitrary: b c)
  case 0
  then have nb: "nbatches c = b" by simp
  have "al_step m env c (c\<lparr>phase := DONE, cur := finish (cur c)\<rparr>)"
    by (rule al_step.complete [OF 0(2)]) (simp add: nb)
  moreover have "r = Inr (cur c)"
    using 0 nb by simp
  ultimately show ?case
    by (intro exI [of _ "c\<lparr>phase := DONE, cur := finish (cur c)\<rparr>"])
       (auto simp: outcome_def run_result_def finish_def)
next
  case (Suc k)
  then have lt: "b < nbatches c" and up: "[b..<nbatches c] = b # [Suc b..<nbatches c]"
    by (simp_all add: upt_conv_Cons)
  show ?case
  proof (cases "al_batch m env (scored c) b (cur c)")
    case (Inl e)
    then have "al_step m env c (c\<lparr>phase := FAILED e\<rparr>)"
      using Suc.prems(1) lt by (intro al_step.batch_fail) simp_all
    moreover have "r = Inl e"
      using Suc.prems(3) Inl up by simp
    ultimately show ?thesis
      by (intro exI [of _ "c\<lparr>phase := FAILED e\<rparr>"]) (auto simp: outcome_def)
  next
    case (Inr s')
    let ?c1 = "c\<lparr>phase := BATCH (Suc b), cur := s'\<rparr>"
    have st: "al_step m env c ?c1"
      using Suc.prems(1) lt Inr by (intro al_step.batch) simp_all
    have "al_loop m env (scored ?c1) [Suc b..<nbatches ?c1] (cur ?c1) = r"
      using Suc.prems(3) Inr up by simp
    moreover have "k = nbatches ?c1 - Suc b"
      using Suc.hyps(2) by simp
    ultimately obtain c' where "(al_step m env)\<^sup>*\<^sup>* ?c1 c'" "outcome c' = Some (map_sum id run_result r)"
      using Suc.hyps(1) [of ?c1 "Suc b"] lt by auto
    with st show ?thesis
      by (meson converse_rtranclp_into_rtranclp)
  qed
qed

lemma run_trace:
  "\<exists>c. (al_step m env)\<^sup>*\<^sup>* (init_cfg a encoder st) c \<and> outcome c = Some (do_active_learning m env a encoder st)"
proof (cases "scored_pool m env a encoder st")
  case (Inl e)
  have "al_step m env (init_cfg a encoder st) ((init_cfg a encoder st)\<lparr>phase := FAILED e\<rparr>)"
    using Inl by (intro al_step.score_fail) (simp_all add: init_cfg_def init_state_def)
  with Inl show ?thesis
    by (intro exI [of _ "(init_cfg a encoder st)\<lparr>phase := FAILED e\<rparr>"])
       (auto simp: outcome_def do_active_learning_def)
next
  case (Inr r)
  then obtain a1 st1 pl where sp: "scored_pool m env a encoder st = Inr (a1, st1, pl)"
    by (cases r) auto
  let ?c1 = "\<lparr>phase = SCORED, cur = init_state a1 st1 encoder, scored = pl, nbatches = al_batches a1\<rparr>
             :: ('a, 'b) al_cfg"
  have s1: "al_step m env (init_cfg a encoder st) ?c1"
    using al_step.score [of "init_cfg a encoder st" m env a1 st1 pl] sp
    by (simp add: init_cfg_def init_state_def)
  have s2: "al_step m env ?c1 (?c1\<lparr>phase := BATCH 0\<rparr>)"
    by (rule al_step.begin_batches) simp
  obtain c' where tr: "(al_step m env)\<^sup>*\<^sup>* (?c1\<lparr>phase := BATCH 0\<rparr>) c'"
    and oc: "outcome c' = Some (map_sum id run_result (al_loop m env pl [0..<al_batches a1] (init_state a1 st1 encoder)))"
    using loop_trace [of "?c1\<lparr>phase := BATCH 0\<rparr>" 0 m env] by auto
  have "(al_step m env)\<^sup>*\<^sup>* (init_cfg a encoder st) c'"
    using s1 s2 tr by (meson converse_rtranclp_into_rtranclp)
  moreover have "map_sum id run_result (al_loop m env pl [0..<al_batches a1] (init_state a1 st1 encoder))
                 = do_active_learning m env a encoder st"
    by (simp add: do_active_learning_def sp run_result_def finish_def split: sum.splits)
  ultimately show ?thesis
    using oc by auto
qed


lemma al_batch_Inr_facts:
  assumes "al_batch m env pl b s = Inr s'"
  shows "al_batches (al_args s') = al_batches (al_args s)
         \<and> (b < al_batches (al_args s) - 1 \<longrightarrow> \<not> rebuild_al_model s'
              \<and> simple_load_model (al_args s') (proxy_file b) (al_fs s') = Inr (proxy_model s'))
         \<and> (\<not> b < al_batches (al_args s) - 1 \<longrightarrow> rebuild_al_model s' = rebuild_al_model s)"
proof -
  obtain pm k where sel: "batch_selection m env pl b s = Inr (pm, k)"
    using assms by (auto simp: al_batch_def split: sum.splits)
  show ?thesis
  proof (cases "b < al_batches (al_args s) - 1")
    case True
    then obtain pm' a' st' where
      tp: "train_proxy m (loader_of env) (al_args s) (al_fs s) (pool s @ k) pm (rebuild_al_model s) = Inr (pm', a')"
      and sv: "simple_save_model a' pm' (proxy_file b) (al_fs s) = Inr st'"
      and s': "s' = s\<lparr>al_args := a', al_fs := st', proxy_model := pm', pool := pool s @ k, rebuild_al_model := False\<rparr>"
      using assms sel by (auto simp: al_batch_def Let_def split: sum.splits)
    have "al_batches a' = al_batches (al_args s)"
      by (subst train_proxy_args [OF tp]) simp
    with True s' model_roundtrip [OF sv] show ?thesis
      by simp
  next
    case False
    with assms sel show ?thesis
      by (auto simp: al_batch_def Let_def)
  qed
qed

lemma al_inv_step:
  "al_step m env c c' \<Longrightarrow> al_inv c \<Longrightarrow> al_inv c'"
proof (induction rule: al_step.induct)
  case (batch c b s')
  from batch.prems batch.hyps(1) have inv: "b \<le> nbatches c" "al_batches (al_args (cur c)) = nbatches c"
    "length (pool (cur c)) \<le> 5120 * b" "set (pool (cur c)) \<subseteq> set (scored c)"
    by (simp_all add: al_inv_def)
  obtain k where k: "pool s' = pool (cur c) @ k" "length k \<le> 5120" "set k \<subseteq> set (scored c)"
    using al_batch_pool [OF batch.hyps(3)] by blast
  have f: "al_batches (al_args s') = al_batches (al_args (cur c))"
    "b < al_batches (al_args (cur c)) - 1 \<Longrightarrow> \<not> rebuild_al_model s'
       \<and> simple_load_model (al_args s') (proxy_file b) (al_fs s') = Inr (proxy_model s')"
    using al_batch_Inr_facts [OF batch.hyps(3)] by blast+
  show ?case
    using inv k f batch.hyps(2) by (auto simp: al_inv_def)
qed (auto simp: al_inv_def init_state_def)

lemma reach_al_inv:
  "(al_step m env)\<^sup>*\<^sup>* (init_cfg a encoder st) c \<Longrightarrow> al_inv c"
proof (induction rule: rtranclp_induct)
  case base
  then show ?case by (simp add: al_inv_def init_cfg_def init_state_def)
next
  case (step y z)
  show ?case by (rule al_inv_step [OF step.hyps(2) step.IH])
qed

section \<open>The exceptions a later batch can raise\<close>

lemma py_index_all_error: "py_index_all xs idx = Inl e \<Longrightarrow> e = IndexError"
  by (simp add: py_index_all_eq split: if_splits)

lemma get_new_samples_error:
  "get_new_samples srt m preds samples = Inl e \<Longrightarrow> e \<in> {ValueError, TypeError, IndexError}"
  by (auto simp: get_new_samples_def lc_indices_def Let_def split: if_splits sum.splits
      dest: py_index_all_error)

lemma finetune_error:
  "finetune m srt ldr a w samples = Inl e \<Longrightarrow> e \<in> {RuntimeError, ValueError, TypeError, IndexError}"
  by (auto simp: finetune_def Let_def split: if_splits dest: get_new_samples_error)

lemma proxy_epochs_error:
  "proxy_epochs m ld k n tr a = Inl e \<Longrightarrow> e = ZeroDivisionError"
  by (induction n arbitrary: k tr a)
     (auto simp: train_epoch_def split: sum.splits prod.splits if_splits)

lemma train_proxy_no_rebuild_error:
  "train_proxy m l a st samples w False = Inl e \<Longrightarrow> e \<in> {UnboundLocalError, ZeroDivisionError}"
  by (auto simp: train_proxy_def proxy_trainer_def SimCLRTrainer_def Let_def split: if_splits sum.splits
      dest: proxy_epochs_error)

lemma simple_save_model_error: "simple_save_model a w p st = Inl e \<Longrightarrow> e = OSError"
  by (simp add: simple_save_model_def Let_def split: if_splits)

lemma al_batch_later_error:
  assumes "simple_load_model (al_args s) (proxy_file (b - 1)) (al_fs s) = Inr w'" and "0 < b"
    and "\<not> rebuild_al_model s" and "al_batch m env pl b s = Inl e"
  shows "e \<in> {RuntimeError, ValueError, TypeError, IndexError, UnboundLocalError, ZeroDivisionError, OSError}"
  using assms
  by (auto simp: al_batch_def batch_selection_def Let_def split: sum.splits if_splits prod.splits
      dest: finetune_error train_proxy_no_rebuild_error simple_save_model_error)

section \<open>Properties of the runs\<close>

text \<open>
  C7: the state machine is the program. The configurations reachable from
  \<open>init_cfg\<close> that are terminal (\<open>DONE\<close> or \<open>FAILED\<close>) carry exactly the value or the
  exception of \<open>do_active_learning\<close>: there is one, and it is the function's result.
\<close>

theorem al_run_equiv:
  "(\<exists>c. (al_step m env)\<^sup>*\<^sup>* (init_cfg a encoder st) c \<and> outcome c = Some r)
   \<longleftrightarrow> do_active_learning m env a encoder st = r"
proof
  assume "\<exists>c. (al_step m env)\<^sup>*\<^sup>* (init_cfg a encoder st) c \<and> outcome c = Some r"
  then obtain c where c: "(al_step m env)\<^sup>*\<^sup>* (init_cfg a encoder st) c" "outcome c = Some r"
    by blast
  obtain c0 where c0: "(al_step m env)\<^sup>*\<^sup>* (init_cfg a encoder st) c0"
    "outcome c0 = Some (do_active_learning m env a encoder st)"
    using run_trace [of m env a encoder st] by blast
  have "c = c0"
    using reach_terminal_unique [OF c(1) c0(1)] c(2) c0(2) by simp
  with c(2) c0(2) show "do_active_learning m env a encoder st = r"
    by simp
next
  assume "do_active_learning m env a encoder st = r"
  then show "\<exists>c. (al_step m env)\<^sup>*\<^sup>* (init_cfg a encoder st) c \<and> outcome c = Some r"
    using run_trace [of m env a encoder st] by blast
qed

text \<open>
  C6: the checkpoint chain of the specification (section 4.5) holds in every run: when
  batch \<open>b > 0\<close> is about to run, \<open>proxy_{b-1}.pth\<close> exists and holds the current proxy,
  the trainer will not be rebuilt, and the pool holds at most 5120 records per completed
  batch, all from the scored pool.
\<close>

theorem checkpoint_chain:
  assumes "(al_step m env)\<^sup>*\<^sup>* (init_cfg a encoder st) c" and "phase c = BATCH b"
    and "0 < b" and "b < nbatches c"
  shows "simple_load_model (al_args (cur c)) (proxy_file (b - 1)) (al_fs (cur c)) = Inr (proxy_model (cur c))
         \<and> \<not> rebuild_al_model (cur c) \<and> length (pool (cur c)) \<le> 5120 * b
         \<and> set (pool (cur c)) \<subseteq> set (scored c)"
  using reach_al_inv [OF assms(1)] assms(2-4) by (simp add: al_inv_def)

lemma demo_reach_cfg1:
  "(al_step demo_ops demo_env)\<^sup>*\<^sup>* (init_cfg demo_args 0 (demo_al_store demo_pool)) demo_cfg1"
proof -
  let ?c1 = "\<lparr>phase = SCORED, cur = init_state demo_args (demo_al_store demo_pool) (0::nat), scored = demo_pool,
              nbatches = al_batches demo_args\<rparr> :: (nat, nat) al_cfg"
  have s1: "al_step demo_ops demo_env (init_cfg demo_args 0 (demo_al_store demo_pool)) ?c1"
    using al_step.score [of "init_cfg demo_args 0 (demo_al_store demo_pool)" demo_ops demo_env]
      demo_scored_pool [of demo_pool]
    by (simp add: init_cfg_def init_state_def)
  have s2: "al_step demo_ops demo_env ?c1 (?c1\<lparr>phase := BATCH 0\<rparr>)"
    by (rule al_step.begin_batches) simp
  have b0: "al_batch demo_ops demo_env demo_pool 0 (init_state demo_args (demo_al_store demo_pool) 0) = Inr (cur demo_cfg1)"
  proof -
    have tp: "train_proxy demo_ops (loader_of demo_env) demo_args (demo_al_store demo_pool) demo_pool 0 True
              = Inr (6, demo_args\<lparr>global_step := 1\<rparr>)"
      using demo_train_proxy [of demo_pool] by (simp add: demo_pool_def)
    have sv: "simple_save_model (demo_args\<lparr>global_step := 1\<rparr>) 6 (proxy_file 0) (demo_al_store demo_pool)
              = Inr (al_fs (cur demo_cfg1))"
      by (simp add: simple_save_model_def demo_cfg1_def demo_al_store_def demo_args_def)
    have n: "al_batches demo_args = 2" and sl: "take 5120 (batch_slice demo_pool 0) = demo_pool"
      by (simp_all add: demo_args_def batch_slice_def py_slice_def demo_pool_def)
    show ?thesis
      by (simp add: al_batch_def batch_selection_def init_state_def sl n tp sv [unfolded One_nat_def])
         (simp add: demo_cfg1_def)
  qed
  have s3: "al_step demo_ops demo_env (?c1\<lparr>phase := BATCH 0\<rparr>) demo_cfg1"
    using al_step.batch [of "?c1\<lparr>phase := BATCH 0\<rparr>" 0 demo_ops demo_env "cur demo_cfg1"] b0
    by (simp add: demo_cfg1_def demo_args_def)
  show ?thesis
    using s1 s2 s3 by (meson converse_rtranclp_into_rtranclp r_into_rtranclp)
qed

theorem checkpoint_chain_witness:
  "(al_step demo_ops demo_env)\<^sup>*\<^sup>* (init_cfg demo_args 0 (demo_al_store demo_pool)) demo_cfg1
   \<and> phase demo_cfg1 = BATCH 1 \<and> 0 < (1::nat) \<and> 1 < nbatches demo_cfg1
   \<and> simple_load_model (al_args (cur demo_cfg1)) (proxy_file 0) (al_fs (cur demo_cfg1)) = Inr 6
   \<and> \<not> rebuild_al_model (cur demo_cfg1) \<and> length (pool (cur demo_cfg1)) \<le> 5120"
proof -
  have ph: "phase demo_cfg1 = BATCH 1" and nb: "1 < nbatches demo_cfg1"
    by (simp_all add: demo_cfg1_def)
  have "simple_load_model (al_args (cur demo_cfg1)) (proxy_file (1 - 1)) (al_fs (cur demo_cfg1))
          = Inr (proxy_model (cur demo_cfg1))
        \<and> \<not> rebuild_al_model (cur demo_cfg1) \<and> length (pool (cur demo_cfg1)) \<le> 5120 * 1"
    using checkpoint_chain [OF demo_reach_cfg1 ph zero_less_one nb] by blast
  then show ?thesis
    using demo_reach_cfg1 ph nb by (simp add: demo_cfg1_def)
qed

text \<open>
  C8: no batch after the first fails for want of its predecessor's checkpoint. In every
  run, the exceptions batch \<open>b > 0\<close> can raise are those of the fine-tuning pass and the
  selector, of the proxy trainer without rebuilding, and \<open>OSError\<close> from saving its
  proxy; \<open>FileNotFoundError\<close> (a missing \<open>proxy_{b-1}.pth\<close> or checkpoint) is not among
  them.
\<close>

theorem later_batch_errors:
  assumes "(al_step m env)\<^sup>*\<^sup>* (init_cfg a encoder st) c" and "phase c = BATCH b"
    and "0 < b" and "b < nbatches c" and "al_batch m env (scored c) b (cur c) = Inl e"
  shows "e \<in> {RuntimeError, ValueError, TypeError, IndexError, UnboundLocalError, ZeroDivisionError, OSError}"
proof -
  have ld: "simple_load_model (al_args (cur c)) (proxy_file (b - 1)) (al_fs (cur c)) = Inr (proxy_model (cur c))"
    and rb: "\<not> rebuild_al_model (cur c)"
    using reach_al_inv [OF assms(1)] assms(2-4) by (simp_all add: al_inv_def)
  show ?thesis
    by (rule al_batch_later_error [OF ld assms(3) rb assms(5)])
qed

theorem later_batch_errors_witness:
  "(al_step demo_ops demo_env)\<^sup>*\<^sup>* (init_cfg demo_args 0 (demo_al_store demo_pool)) demo_cfg1
   \<and> phase demo_cfg1 = BATCH 1 \<and> 0 < (1::nat) \<and> 1 < nbatches demo_cfg1
   \<and> al_batch demo_ops demo_env (scored demo_cfg1) 1 (cur demo_cfg1) = Inl IndexError
   \<and> IndexError \<in> {RuntimeError, ValueError, TypeError, IndexError, UnboundLocalError, ZeroDivisionError, OSError}"
proof -
  have ph: "phase demo_cfg1 = BATCH 1" and nb: "1 < nbatches demo_cfg1"
    by (simp_all add: demo_cfg1_def)
  have ld: "simple_load_model (demo_args\<lparr>global_step := 1\<rparr>) (proxy_file 0) (al_fs (cur demo_cfg1)) = Inr 6"
    by (simp add: simple_load_model_def demo_cfg1_def demo_args_def)
  have ft: "finetune demo_ops (argsort demo_env) (ft_loader_of demo_env) (demo_args\<lparr>global_step := 1\<rparr>) 6 []
            = Inl IndexError"
    by (simp add: finetune_def demo_env_def demo_ops_def get_predictions_def get_new_samples_def
        lc_indices_def stable_argsort_def softmax_def py_index_all_eq demo_args_def)
  have sl: "batch_slice demo_pool 1 = []"
    by (simp add: batch_slice_def py_slice_def demo_pool_def)
  have c: "cur demo_cfg1 = \<lparr>al_args = demo_args\<lparr>global_step := 1\<rparr>, al_fs = al_fs (cur demo_cfg1),
             proxy_model = 6, pool = demo_pool, rebuild_al_model = False\<rparr>"
    "scored demo_cfg1 = demo_pool"
    by (simp_all add: demo_cfg1_def)
  have sd: "load_sd demo_ops (6::nat) 6 = 6"
    by (simp add: demo_ops_def)
  have err: "al_batch demo_ops demo_env (scored demo_cfg1) 1 (cur demo_cfg1) = Inl IndexError"
    by (subst c(1), simp only: c(2))
       (simp add: al_batch_def batch_selection_def ld [unfolded One_nat_def] sl [unfolded One_nat_def]
         ft [unfolded One_nat_def] sd)
  have "IndexError \<in> {RuntimeError, ValueError, TypeError, IndexError, UnboundLocalError, ZeroDivisionError, OSError}"
    by (rule later_batch_errors [OF demo_reach_cfg1 ph zero_less_one nb err])
  with demo_reach_cfg1 ph nb err show ?thesis
    by simp
qed

section \<open>What a run writes\<close>

lemma scored_pool_writes:
  assumes "scored_pool m env a w st = Inr (a1, st1, pl)" and "al_path_loss_file a \<in> N"
  shows "a1 = a \<and> writes_only (model_path a) N st st1"
proof (cases "load_path_loss a (al_path_loss_file a) st")
  case (Inr r)
  show ?thesis
  proof (cases r)
    case None
    then have "make_batches m a w st (dataset_items env) = Inr (a1, st1, pl)"
      using assms(1) Inr by (simp add: scored_pool_def)
    then have "a1 = a \<and> st1 = save_path_loss a (al_path_loss_file a) pl st"
      by (rule make_batches_Inr [THEN exE]) (elim conjE, simp)
    then show ?thesis
      using save_path_loss_writes_only [OF assms(2)] by (elim conjE) simp
  qed (use assms(1) Inr in \<open>auto simp: scored_pool_def\<close>)
qed (use assms(1) in \<open>simp add: scored_pool_def\<close>)

lemma al_batch_writes:
  assumes "al_batch m env pl b s = Inr s'" and "proxy_file b \<in> N"
  shows "\<exists>g. al_args s' = (al_args s)\<lparr>global_step := g\<rparr>
            \<and> writes_only (model_path (al_args s)) N (al_fs s) (al_fs s')"
proof -
  obtain pm k where sel: "batch_selection m env pl b s = Inr (pm, k)"
    using assms(1) by (auto simp: al_batch_def split: sum.splits)
  show ?thesis
  proof (cases "b < al_batches (al_args s) - 1")
    case True
    then obtain pm' a' st' where
      tp: "train_proxy m (loader_of env) (al_args s) (al_fs s) (pool s @ k) pm (rebuild_al_model s) = Inr (pm', a')"
      and sv: "simple_save_model a' pm' (proxy_file b) (al_fs s) = Inr st'"
      and s': "s' = s\<lparr>al_args := a', al_fs := st', proxy_model := pm', pool := pool s @ k, rebuild_al_model := False\<rparr>"
      using assms(1) sel by (auto simp: al_batch_def Let_def split: sum.splits)
    have a': "a' = (al_args s)\<lparr>global_step := global_step a'\<rparr>"
      by (rule train_proxy_args [OF tp])
    have "model_path a' = model_path (al_args s)"
      by (subst a') simp
    then show ?thesis
      using simple_save_model_writes_only [OF sv assms(2)] a' s' by auto
  next
    case False
    with assms(1) sel show ?thesis
      by (auto simp: al_batch_def Let_def intro: exI [of _ "global_step (al_args s)"])
  qed
qed

lemma finish_writes:
  "pretrain_path_loss_file (al_args s) \<in> N \<Longrightarrow>
   writes_only (model_path (al_args s)) N (al_fs s) (al_fs (finish s))"
  by (simp add: finish_def save_path_loss_writes_only)

lemma reach_writes:
  assumes "(al_step m env)\<^sup>*\<^sup>* (init_cfg a encoder st) c"
  shows "\<exists>g. al_args (cur c) = a\<lparr>global_step := g\<rparr> \<and> writes_only (model_path a) (al_outputs a) st (al_fs (cur c))"
  using assms
proof (induction rule: rtranclp_induct)
  case base
  show ?case
    by (auto simp: init_cfg_def init_state_def intro: exI [of _ "global_step a"])
next
  case (step y z)
  obtain g where g: "al_args (cur y) = a\<lparr>global_step := g\<rparr>"
    and w: "writes_only (model_path a) (al_outputs a) st (al_fs (cur y))"
    using step.IH by blast
  have o: "al_outputs (al_args (cur y)) = al_outputs a" and mp: "model_path (al_args (cur y)) = model_path a"
    by (simp_all add: g al_outputs_def)
  from step.hyps(2) show ?case
  proof cases
    case (score a1 st1 pl)
    have "a1 = al_args (cur y) \<and> writes_only (model_path a) (al_outputs a) (al_fs (cur y)) st1"
      using scored_pool_writes [OF score(3), of "al_outputs a"] mp by (simp add: g al_outputs_def)
    then show ?thesis
      using score(1) g writes_only_trans [OF w] by (auto simp: init_state_def)
  next
    case (batch b s')
    obtain g' where "al_args s' = (al_args (cur y))\<lparr>global_step := g'\<rparr>"
      and "writes_only (model_path a) (al_outputs a) (al_fs (cur y)) (al_fs s')"
      using al_batch_writes [OF batch(4), of "al_outputs a"] mp by (auto simp: al_outputs_def)
    then show ?thesis
      using batch(1) g writes_only_trans [OF w] by auto
  next
    case (complete b)
    have "writes_only (model_path a) (al_outputs a) (al_fs (cur y)) (al_fs (finish (cur y)))"
      using finish_writes [of "cur y" "al_outputs a"] mp g by (simp add: al_outputs_def)
    moreover have "al_args (finish (cur y)) = al_args (cur y)"
      by (simp add: finish_def)
    ultimately show ?thesis
      using complete(1) g writes_only_trans [OF w] by auto
  qed (use g w in auto)
qed

text \<open>
  C27: a run of the controller writes only its own files. In every reachable configuration
  the store extends the initial one: no file is removed, writability is unchanged, and
  every file that differs is, under \<open>args.model_path\<close>, the scored pool, the final pool or
  a proxy checkpoint \<open>proxy_{b}.pth\<close>. In particular a run that fails leaves every
  checkpoint written before the failure in place (the resume point of section 5 of the
  specification), and the pretraining checkpoints it reads are never overwritten unless
  their names coincide with these.
\<close>

theorem al_run_writes_only:
  assumes "(al_step m env)\<^sup>*\<^sup>* (init_cfg a encoder st) c"
  shows "writes_only (model_path a) (al_outputs a) st (al_fs (cur c))"
  using reach_writes [OF assms] by blast

theorem al_run_writes_only_witness:
  "(al_step demo_ops demo_env)\<^sup>*\<^sup>* (init_cfg demo_args 0 (demo_al_store demo_pool)) demo_cfg1
   \<and> writes_only (model_path demo_args) (al_outputs demo_args) (demo_al_store demo_pool) (al_fs (cur demo_cfg1))"
  using al_run_writes_only [OF demo_reach_cfg1] demo_reach_cfg1 by blast

end
