(* ===== verification/Pretrainers.thy ===== *)
theory Pretrainers
  imports Proxy_Trainer Datasets
begin

text \<open>
  The pretraining stages: \<open>BasePretrainer\<close> (\<open>models/trainers/base_pretrainer.py\<close>), which
  builds the encoder and the loader of the first stage, \<open>SelfSupPretrainer\<close>
  (\<open>models/trainers/selfsup_pretrainer.py\<close>), which runs the epoch loop with a
  checkpoint every 20 epochs, and the ImageNet dataset class (\<open>datautils/imagenet.py\<close>).

  The trainers of DCL, SwAV and MYOW (\<open>SimCLRTrainerV2\<close>, \<open>SwAVTrainer\<close>,
  \<open>get_myow_trainer\<close>), the CIFAR-10 dataset and the ResNet backbone are not in the
  sources: they are the fields of \<open>pre_env\<close>. Their \<open>train_epoch(epoch)\<close> is taken to
  change nothing in \<open>args\<close> but \<open>global_step\<close>, as SimCLR's does, and to step the trainer's
  scheduler afterwards (\<open>if trainer.scheduler\<close> is taken to hold). \<open>model\<close> and
  \<open>optimizer\<close>, read from the trainer before the loop, are the objects the epochs update in
  place, so a checkpoint saves the current weights and optimizer state.
\<close>

section \<open>\<open>ImageNet\<close>\<close>

record imagenet =
  im_dir :: string
  im_method :: ssl_method
  im_batch_size :: nat

text \<open>\<open>ImageNet.__init__(args, isAL=False)\<close>; the image size is not modelled.\<close>

definition ImageNet :: "args \<Rightarrow> bool \<Rightarrow> imagenet" where
  "ImageNet a isAL =
     \<lparr>im_dir = dataset_dir a @ ''/imagenet'', im_method = method_name a,
      im_batch_size = (if isAL then al_batch_size a else batch_size a)\<rparr>"

text \<open>
  \<open>ImageNet.get_loader\<close>: SimCLR and MoCo transforms; for any other method the branches
  evaluate \<open>NotImplementedError\<close> without raising it and \<open>transforms\<close> is unbound at its use.
  The \<open>DataLoader\<close> drops the last batch and does not shuffle.
\<close>

definition imagenet_get_loader :: "imagenet \<Rightarrow> loader result" where
  "imagenet_get_loader im =
     (if im_method im = SIMCLR then Inr (TorchLoader ImageFolder TransformsSimCLR (im_batch_size im) True False)
      else if im_method im = MOCO then Inr (TorchLoader ImageFolder TransformsMoCo (im_batch_size im) True False)
      else Inl UnboundLocalError)"

section \<open>Collaborators\<close>

record ('w, 'o) pre_env =
  backbone :: 'w
  cifar10_loader :: "args \<Rightarrow> loader result"
  ext_trainer :: "ssl_method \<Rightarrow> args \<Rightarrow> 'w \<Rightarrow> loader \<Rightarrow> string \<Rightarrow> training_type \<Rightarrow> ('w, 'o) trainer result"
  ext_epoch :: "('w, 'o) trainer \<Rightarrow> loader \<Rightarrow> nat \<Rightarrow> nat \<Rightarrow> (('w, 'o) trainer \<times> nat \<times> real) result"

section \<open>\<open>BasePretrainer\<close>\<close>

text \<open>
  \<open>first_pretrain\<close>: ImageNet is constructed with the keyword \<open>training_type\<close>, which
  \<open>ImageNet.__init__\<close> does not accept (\<open>TypeError\<close>); CIFAR-10 comes from outside the
  sources; every other base dataset falls to \<open>get_target_pretrain_ds\<close>, which reads
  \<open>args.target_dataset\<close>.
\<close>

definition base_first_pretrain :: "('w, 'o) pre_env \<Rightarrow> args \<Rightarrow> ('w \<times> loader) result" where
  "base_first_pretrain pe a =
     (let encoder = backbone pe
      in if base_dataset a = IMAGENET then Inl TypeError
         else if base_dataset a = CIFAR10 then
           (case cifar10_loader pe a of Inl e \<Rightarrow> Inl e | Inr ld \<Rightarrow> Inr (encoder, ld))
         else
           (case target_loader a BASE_PRETRAIN True None of Inl e \<Rightarrow> Inl e | Inr ld \<Rightarrow> Inr (encoder, ld)))"

text \<open>\<open>second_pretrain\<close>: its body is the expression \<open>None\<close>; it returns \<open>None\<close>.\<close>

definition base_second_pretrain :: "('w \<times> loader) option" where
  "base_second_pretrain = None"

section \<open>\<open>SelfSupPretrainer\<close>\<close>

definition pretrain_level :: "training_type \<Rightarrow> string" where
  "pretrain_level tt = (if tt = BASE_PRETRAIN then ''1'' else ''2'')"

text \<open>
  The trainer dispatch of \<open>base_pretrain\<close>. Its final \<open>else\<close> is the bare expression
  \<open>ValueError\<close>; \<open>trainer.model\<close> then raises \<open>UnboundLocalError\<close>.
\<close>

definition pre_trainer ::
  "('w, 'o, 'img, 'out) ops \<Rightarrow> ('w, 'o) pre_env \<Rightarrow> args \<Rightarrow> ('p, 'w, 'o) fs \<Rightarrow> 'w \<Rightarrow> loader
   \<Rightarrow> training_type \<Rightarrow> ('w, 'o) trainer result" where
  "pre_trainer m pe a st encoder ld tt =
     (if method_name a = SIMCLR then SimCLRTrainer m a st encoder False (pretrain_level tt) tt
      else if method_name a \<in> {DCL, SWAV, MYOW} then
        ext_trainer pe (method_name a) a encoder ld (pretrain_level tt) tt
      else Inl UnboundLocalError)"

text \<open>
  \<open>epoch_loss = trainer.train_epoch(epoch)\<close>. \<open>SimCLRTrainer.train_epoch\<close> takes no
  argument besides \<open>self\<close>, so the call raises \<open>TypeError\<close> for SimCLR.
\<close>

definition pre_epoch ::
  "('w, 'o) pre_env \<Rightarrow> args \<Rightarrow> loader \<Rightarrow> ('w, 'o) trainer \<Rightarrow> nat
   \<Rightarrow> (('w, 'o) trainer \<times> args \<times> real) result" where
  "pre_epoch pe a ld tr e =
     (if method_name a = SIMCLR then Inl TypeError
      else case ext_epoch pe tr ld (global_step a) e of
             Inl err \<Rightarrow> Inl err
           | Inr (tr', gs, epoch_loss) \<Rightarrow> Inr (tr', a\<lparr>global_step := gs\<rparr>, epoch_loss))"

text \<open>
  \<open>for epoch in range(args.start_epoch, epochs)\<close>: an epoch, the scheduler step, a
  checkpoint when \<open>epoch > 0 and epoch % 20 == 0\<close> (named by \<open>args.current_epoch\<close>, not
  by \<open>epoch\<close>), then \<open>args.current_epoch += 1\<close>.
\<close>

fun pre_epochs ::
  "('w, 'o, 'img, 'out) ops \<Rightarrow> ('w, 'o) pre_env \<Rightarrow> loader \<Rightarrow> string \<Rightarrow> string \<Rightarrow> nat list
   \<Rightarrow> ('w, 'o) trainer \<Rightarrow> args \<Rightarrow> ('p, 'w, 'o) fs \<Rightarrow> (('w, 'o) trainer \<times> args \<times> ('p, 'w, 'o) fs) result" where
  "pre_epochs m pe ld level ot [] tr a st = Inr (tr, a, st)"
| "pre_epochs m pe ld level ot (e # es) tr a st =
     (case pre_epoch pe a ld tr e of
        Inl err \<Rightarrow> Inl err
      | Inr (tr1, a1, epoch_loss) \<Rightarrow>
          (let tr2 = tr1\<lparr>tr_optimizer := sched_step m (tr_optimizer tr1)\<rparr>
           in case (if 0 < e \<and> e mod 20 = 0
                    then save_state a1 (tr_model tr2) (tr_optimizer tr2) level ot st
                    else Inr (a1, st)) of
                Inl err \<Rightarrow> Inl err
              | Inr (a2, st2) \<Rightarrow>
                  pre_epochs m pe ld level ot es tr2 (a2\<lparr>current_epoch := Suc (current_epoch a2)\<rparr>) st2))"

text \<open>\<open>SelfSupPretrainer.base_pretrain\<close>: the loop, then a final checkpoint.\<close>

definition base_pretrain ::
  "('w, 'o, 'img, 'out) ops \<Rightarrow> ('w, 'o) pre_env \<Rightarrow> args \<Rightarrow> ('p, 'w, 'o) fs \<Rightarrow> 'w \<Rightarrow> loader \<Rightarrow> nat
   \<Rightarrow> training_type \<Rightarrow> string \<Rightarrow> (args \<times> ('p, 'w, 'o) fs) result" where
  "base_pretrain m pe a st encoder ld epochs tt ot =
     (case pre_trainer m pe a st encoder ld tt of
        Inl e \<Rightarrow> Inl e
      | Inr trainer \<Rightarrow>
          (case pre_epochs m pe ld (pretrain_level tt) ot [start_epoch a..<epochs] trainer a st of
             Inl e \<Rightarrow> Inl e
           | Inr (tr', a', st') \<Rightarrow> save_state a' (tr_model tr') (tr_optimizer tr') (pretrain_level tt) ot st'))"

definition first_pretrain ::
  "('w, 'o, 'img, 'out) ops \<Rightarrow> ('w, 'o) pre_env \<Rightarrow> args \<Rightarrow> ('p, 'w, 'o) fs
   \<Rightarrow> (args \<times> ('p, 'w, 'o) fs) result" where
  "first_pretrain m pe a st =
     (case base_first_pretrain pe a of
        Inl e \<Rightarrow> Inl e
      | Inr (encoder, ld) \<Rightarrow> base_pretrain m pe a st encoder ld (base_epochs a) BASE_PRETRAIN (base_optimizer a))"

text \<open>\<open>encoder, loader = super().second_pretrain()\<close> unpacks \<open>None\<close>: \<open>TypeError\<close>.\<close>

definition second_pretrain ::
  "('w, 'o, 'img, 'out) ops \<Rightarrow> ('w, 'o) pre_env \<Rightarrow> args \<Rightarrow> ('p, 'w, 'o) fs
   \<Rightarrow> (args \<times> ('p, 'w, 'o) fs) result" where
  "second_pretrain m pe a st =
     (case base_second_pretrain of
        None \<Rightarrow> Inl TypeError
      | Some (encoder, ld) \<Rightarrow>
          base_pretrain m pe a st encoder ld (target_epochs a) TARGET_PRETRAIN (target_optimizer a))"

text \<open>
  The values of \<open>args.current_epoch\<close> at which the loop over the epochs \<open>es\<close> writes a
  checkpoint, starting from \<open>current_epoch = c\<close>.
\<close>

fun saved_epochs :: "nat \<Rightarrow> nat list \<Rightarrow> nat list" where
  "saved_epochs c [] = []"
| "saved_epochs c (e # es) = (if 0 < e \<and> e mod 20 = 0 then [c] else []) @ saved_epochs (Suc c) es"

text \<open>
  Collaborators for the examples: a DCL trainer whose epochs add one to the weights and to
  \<open>global_step\<close>, a run resumed at epoch 19 of 22, and a store where everything is writable.
\<close>

definition demo_pre_env :: "(nat, nat) pre_env" where
  "demo_pre_env =
     \<lparr>backbone = 0, cifar10_loader = (\<lambda>a. Inr (TorchLoader ImageFolder Transforms 256 True True)),
      ext_trainer = (\<lambda>meth a w ld level tt.
        Inr \<lparr>tr_model = w, tr_criterion = Model_Criterion, tr_optimizer = 0, tr_batch_size = 256\<rparr>),
      ext_epoch = (\<lambda>tr ld gs e. Inr (tr\<lparr>tr_model := Suc (tr_model tr)\<rparr>, Suc gs, 1))\<rparr>"

definition demo_pre_args :: args where
  "demo_pre_args =
     demo_args\<lparr>method_name := DCL, start_epoch := 19, current_epoch := 19, base_epochs := 22,
                base_dataset := CHEST_XRAY\<rparr>"

definition demo_pre_store :: "(string list, nat, nat) fs" where
  "demo_pre_store = \<lparr>files = Map.empty, writable = (\<lambda>_. True)\<rparr>"

section \<open>Lemmas\<close>

lemma save_state_Inr:
  "save_state a w opt level ot st = Inr (a', st') \<longleftrightarrow>
   writable st (checkpoint_file a level (current_epoch a))
   \<and> a' = a\<lparr>resume := Some (checkpoint_file a level (current_epoch a))\<rparr>
   \<and> st' = st\<lparr>files := (files st)(checkpoint_file a level (current_epoch a) \<mapsto> Torch_Checkpoint w (ot @ ''-optimizer'') opt)\<rparr>"
  by (auto simp: save_state_def Let_def)

lemma pre_epoch_args:
  "pre_epoch pe a ld tr e = Inr (tr1, a1, l) \<Longrightarrow> a1 = a\<lparr>global_step := global_step a1\<rparr>"
  by (auto simp: pre_epoch_def split: if_splits sum.splits prod.splits)

lemma saved_epochs_ge: "c' \<in> set (saved_epochs c es) \<Longrightarrow> c \<le> c'"
  by (induction es arbitrary: c) (auto split: if_splits intro: Suc_leD)

lemma pre_epochs_spec:
  assumes "pre_epochs m pe ld level ot es tr a st = Inr (tr', a', st')"
  shows "a' = a\<lparr>global_step := global_step a', current_epoch := current_epoch a + length es,
                 resume := resume a'\<rparr>
         \<and> (\<forall>f. files st' f \<noteq> files st f \<longrightarrow> f \<in> checkpoint_file a level ` set (saved_epochs (current_epoch a) es))
         \<and> (\<forall>c \<in> set (saved_epochs (current_epoch a) es).
               \<exists>w opt. files st' (checkpoint_file a level c) = Some (Torch_Checkpoint w (ot @ ''-optimizer'') opt))
         \<and> writable st' = writable st"
  using assms
proof (induction es arbitrary: tr a st)
  case Nil
  then show ?case by simp
next
  case (Cons e es)
  obtain tr1 a1 l where pe: "pre_epoch pe a ld tr e = Inr (tr1, a1, l)"
    using Cons.prems by (auto split: sum.splits)
  define tr2 where "tr2 = tr1\<lparr>tr_optimizer := sched_step m (tr_optimizer tr1)\<rparr>"
  define sv where "sv = (0 < e \<and> e mod 20 = 0)"
  obtain a2 st2 where s2: "(if sv then save_state a1 (tr_model tr2) (tr_optimizer tr2) level ot st else Inr (a1, st))
                          = Inr (a2, st2)"
    and rest: "pre_epochs m pe ld level ot es tr2 (a2\<lparr>current_epoch := Suc (current_epoch a2)\<rparr>) st2 = Inr (tr', a', st')"
    using Cons.prems pe by (auto simp: tr2_def sv_def Let_def split: sum.splits prod.splits if_splits)
  have a1: "a1 = a\<lparr>global_step := global_step a1\<rparr>"
    using pre_epoch_args [OF pe] .
  have ck: "checkpoint_file a1 level = checkpoint_file a level"
    by (subst a1) simp
  have ce1: "current_epoch a1 = current_epoch a"
    by (subst a1, simp)
  have a2: "a2 = a\<lparr>global_step := global_step a1, resume := resume a2\<rparr>"
    and st2: "files st2 = (if sv then (files st)(checkpoint_file a level (current_epoch a) \<mapsto>
                           Torch_Checkpoint (tr_model tr2) (ot @ ''-optimizer'') (tr_optimizer tr2)) else files st)"
    and w2: "writable st2 = writable st"
    using s2 a1 ck ce1 by (auto simp: save_state_Inr split: if_splits)
  let ?a3 = "a2\<lparr>current_epoch := Suc (current_epoch a2)\<rparr>"
  have ck3: "checkpoint_file ?a3 level = checkpoint_file a level"
    by (subst a2) simp
  have ce3: "current_epoch ?a3 = Suc (current_epoch a)"
    by (subst a2, simp)
  note IH = Cons.IH [OF rest, unfolded ck3 ce3]
  have "a' = a\<lparr>global_step := global_step a', current_epoch := current_epoch a + length (e # es),
                 resume := resume a'\<rparr>"
  proof -
    have "\<And>g c r. a2\<lparr>global_step := g, current_epoch := c, resume := r\<rparr>
                    = a\<lparr>global_step := g, current_epoch := c, resume := r\<rparr>"
      by (subst a2, simp)
    then show ?thesis
      using conjunct1 [OF IH] by simp
  qed
  moreover have "\<forall>f. files st' f \<noteq> files st f \<longrightarrow>
                   f \<in> checkpoint_file a level ` set (saved_epochs (current_epoch a) (e # es))"
    using IH st2 by (auto simp: sv_def split: if_splits)
  moreover have "\<forall>c \<in> set (saved_epochs (current_epoch a) (e # es)).
        \<exists>w opt. files st' (checkpoint_file a level c) = Some (Torch_Checkpoint w (ot @ ''-optimizer'') opt)"
  proof
    fix c
    assume c: "c \<in> set (saved_epochs (current_epoch a) (e # es))"
    show "\<exists>w opt. files st' (checkpoint_file a level c) = Some (Torch_Checkpoint w (ot @ ''-optimizer'') opt)"
    proof (cases "c \<in> set (saved_epochs (Suc (current_epoch a)) es)")
      case True
      then show ?thesis using IH by blast
    next
      case False
      with c have "c = current_epoch a" and "sv"
        by (auto simp: sv_def split: if_splits)
      moreover have "checkpoint_file a level c \<notin> checkpoint_file a level ` set (saved_epochs (Suc (current_epoch a)) es)"
        using \<open>c = current_epoch a\<close> saved_epochs_ge by (fastforce simp: checkpoint_file_inj)
      ultimately show ?thesis
        using IH st2 by (metis fun_upd_same)
    qed
  qed
  moreover have "writable st' = writable st"
    using IH w2 by simp
  ultimately show ?case
    by blast
qed

lemma saved_epochs_upt:
  "set (saved_epochs c [s..<n]) = {c + (e - s) | e. s \<le> e \<and> e < n \<and> 0 < e \<and> e mod 20 = 0}"
proof (induction "n - s" arbitrary: s c)
  case 0
  then show ?case by auto
next
  case (Suc k)
  then have sn: "s < n" and up: "[s..<n] = s # [Suc s..<n]"
    by (simp_all add: upt_conv_Cons)
  have ih: "set (saved_epochs (Suc c) [Suc s..<n])
            = {Suc c + (e - Suc s) | e. Suc s \<le> e \<and> e < n \<and> 0 < e \<and> e mod 20 = 0}"
    using Suc.hyps(1) [of "Suc s" "Suc c"] Suc.hyps(2) by simp
  have shift: "{Suc c + (e - Suc s) | e. Suc s \<le> e \<and> e < n \<and> 0 < e \<and> e mod 20 = 0}
             = {c + (e - s) | e. Suc s \<le> e \<and> e < n \<and> 0 < e \<and> e mod 20 = 0}"
  proof (intro Collect_cong ex_cong1)
    fix x e
    show "(x = Suc c + (e - Suc s) \<and> Suc s \<le> e \<and> e < n \<and> 0 < e \<and> e mod 20 = 0)
          = (x = c + (e - s) \<and> Suc s \<le> e \<and> e < n \<and> 0 < e \<and> e mod 20 = 0)"
      by auto
  qed
  have split: "{c + (e - s) | e. s \<le> e \<and> e < n \<and> 0 < e \<and> e mod 20 = 0}
             = (if 0 < s \<and> s mod 20 = 0 then {c} else {})
               \<union> {c + (e - s) | e. Suc s \<le> e \<and> e < n \<and> 0 < e \<and> e mod 20 = 0}"
  proof (rule set_eqI)
    fix x
    show "x \<in> {c + (e - s) | e. s \<le> e \<and> e < n \<and> 0 < e \<and> e mod 20 = 0}
          \<longleftrightarrow> x \<in> (if 0 < s \<and> s mod 20 = 0 then {c} else {})
               \<union> {c + (e - s) | e. Suc s \<le> e \<and> e < n \<and> 0 < e \<and> e mod 20 = 0}"
      using sn by (auto simp: le_eq_less_or_eq Suc_le_eq)
  qed
  show ?case
    unfolding up saved_epochs.simps set_append ih shift split
    by simp
qed

lemma second_pretrain_fails: "second_pretrain m pe a st = Inl TypeError"
  by (simp add: second_pretrain_def base_second_pretrain_def)

lemma demo_pre_run:
  "\<exists>a' st'. base_pretrain demo_ops demo_pre_env demo_pre_args demo_pre_store 0 ld 22 BASE_PRETRAIN ''Adam-Cosine''
                = Inr (a', st')"
  by (simp add: base_pretrain_def pre_trainer_def demo_pre_args_def demo_args_def demo_pre_env_def
      upt_rec pre_epoch_def save_state_def demo_pre_store_def Let_def)

text \<open>
  What the first stage leaves behind when it returns: \<open>args\<close> advanced to the epoch after
  the last one run, with \<open>args.resume\<close> naming the final checkpoint, which holds the
  trained weights under the base optimizer's key.
\<close>

lemma first_pretrain_final:
  assumes "first_pretrain m pe a st = Inr (a1, st1)"
  shows "\<exists>g w opt.
           a1 = a\<lparr>global_step := g, current_epoch := current_epoch a + (base_epochs a - start_epoch a),
                  resume := Some (checkpoint_file a ''1'' (current_epoch a + (base_epochs a - start_epoch a)))\<rparr>
           \<and> files st1 (checkpoint_file a ''1'' (current_epoch a + (base_epochs a - start_epoch a)))
               = Some (Torch_Checkpoint w (base_optimizer a @ ''-optimizer'') opt)"
proof -
  let ?c = "current_epoch a + (base_epochs a - start_epoch a)"
  obtain enc ld where bp: "base_pretrain m pe a st enc ld (base_epochs a) BASE_PRETRAIN (base_optimizer a) = Inr (a1, st1)"
    using assms by (auto simp: first_pretrain_def split: sum.splits)
  obtain tr tr' a' st' where
    lp: "pre_epochs m pe ld ''1'' (base_optimizer a) [start_epoch a..<base_epochs a] tr a st = Inr (tr', a', st')"
    and sv: "save_state a' (tr_model tr') (tr_optimizer tr') ''1'' (base_optimizer a) st' = Inr (a1, st1)"
    using bp by (auto simp: base_pretrain_def pretrain_level_def split: sum.splits prod.splits)
  have a': "a' = a\<lparr>global_step := global_step a', current_epoch := ?c, resume := resume a'\<rparr>"
    using pre_epochs_spec [OF lp, THEN conjunct1] by simp
  have ce: "current_epoch a' = ?c"
    by (subst a') simp
  have ck: "checkpoint_file a' ''1'' = checkpoint_file a ''1''"
    by (subst a') simp
  have a1: "a1 = a'\<lparr>resume := Some (checkpoint_file a ''1'' ?c)\<rparr>"
    and f: "files st1 (checkpoint_file a ''1'' ?c)
              = Some (Torch_Checkpoint (tr_model tr') (base_optimizer a @ ''-optimizer'') (tr_optimizer tr'))"
    using sv ce ck by (simp_all add: save_state_Inr)
  have "a1 = a\<lparr>global_step := global_step a', current_epoch := ?c, resume := Some (checkpoint_file a ''1'' ?c)\<rparr>"
    by (subst a1, subst a') simp
  with f show ?thesis
    by blast
qed

lemma demo_first_pretrain:
  "\<exists>a1 st1. first_pretrain demo_ops demo_pre_env demo_pre_args demo_pre_store = Inr (a1, st1)"
proof -
  have b: "base_first_pretrain demo_pre_env demo_pre_args = Inr (0, TorchLoader ImageFolder TransformsDCL 256 True True)"
    by (simp add: base_first_pretrain_def demo_pre_env_def demo_pre_args_def demo_args_def target_loader_def
        get_target_pretrain_ds_def TargetDataset_def td_get_loader_def td_transforms_def params_batch_size_def)
  have e: "base_epochs demo_pre_args = 22" "base_optimizer demo_pre_args = ''Adam-Cosine''"
    by (simp_all add: demo_pre_args_def demo_args_def)
  show ?thesis
    using demo_pre_run [of "TorchLoader ImageFolder TransformsDCL 256 True True"] b e
    by (auto simp: first_pretrain_def)
qed

section \<open>Properties of the pretraining stages\<close>

text \<open>
  C19: the checkpoint schedule of \<open>base_pretrain\<close>. When it returns, \<open>current_epoch\<close> has
  advanced by the number of epochs run, \<open>args.resume\<close> names the final checkpoint, and the
  files it changed are exactly checkpoints: one for every epoch \<open>e > 0\<close> divisible by 20,
  named by \<open>current_epoch\<close> at that epoch (\<open>current_epoch + (e - start_epoch)\<close>), and the
  final one, each holding the weights and the \<open><type>-optimizer\<close> state.
\<close>

theorem base_pretrain_checkpoints:
  assumes "base_pretrain m pe a st encoder ld n tt ot = Inr (a', st')"
  shows "current_epoch a' = current_epoch a + (n - start_epoch a)
         \<and> resume a' = Some (checkpoint_file a (pretrain_level tt) (current_epoch a'))
         \<and> (\<forall>f. files st' f \<noteq> files st f \<longrightarrow> f \<in> checkpoint_file a (pretrain_level tt) `
            insert (current_epoch a')
              {current_epoch a + (e - start_epoch a) | e. start_epoch a \<le> e \<and> e < n \<and> 0 < e \<and> e mod 20 = 0})
         \<and> (\<forall>c \<in> insert (current_epoch a')
              {current_epoch a + (e - start_epoch a) | e. start_epoch a \<le> e \<and> e < n \<and> 0 < e \<and> e mod 20 = 0}.
            \<exists>w opt.
              files st' (checkpoint_file a (pretrain_level tt) c) = Some (Torch_Checkpoint w (ot @ ''-optimizer'') opt))"
proof -
  let ?l = "pretrain_level tt"
  obtain tr tr' a1 st1 where
    lp: "pre_epochs m pe ld ?l ot [start_epoch a..<n] tr a st = Inr (tr', a1, st1)"
    and sv: "save_state a1 (tr_model tr') (tr_optimizer tr') ?l ot st1 = Inr (a', st')"
    using assms(1) by (auto simp: base_pretrain_def split: sum.splits prod.splits)
  note ep = pre_epochs_spec [OF lp, unfolded saved_epochs_upt]
  have a1: "a1 = a\<lparr>global_step := global_step a1, current_epoch := current_epoch a + (n - start_epoch a),
                   resume := resume a1\<rparr>"
    using ep by simp
  have ck: "checkpoint_file a1 ?l = checkpoint_file a ?l" and ce: "current_epoch a1 = current_epoch a + (n - start_epoch a)"
    by (subst a1, simp)+
  have a': "a' = a1\<lparr>resume := Some (checkpoint_file a ?l (current_epoch a1))\<rparr>"
    and st': "files st' = (files st1)(checkpoint_file a ?l (current_epoch a1) \<mapsto>
                Torch_Checkpoint (tr_model tr') (ot @ ''-optimizer'') (tr_optimizer tr'))"
    using sv ck by (simp_all add: save_state_Inr)
  have ce': "current_epoch a' = current_epoch a + (n - start_epoch a)"
    using a' ce by simp
  show ?thesis
    using ep ce' by (auto simp: a' st' ce)
qed

theorem base_pretrain_checkpoints_witness:
  "\<exists>a' st'. base_pretrain demo_ops demo_pre_env demo_pre_args demo_pre_store 0
               (TorchLoader ImageFolder Transforms 256 True True) 22 BASE_PRETRAIN ''Adam-Cosine'' = Inr (a', st')
     \<and> current_epoch a' = 22 \<and> resume a' = Some (checkpoint_file demo_pre_args ''1'' 22)
     \<and> files st' (checkpoint_file demo_pre_args ''1'' 20) \<noteq> None
     \<and> files st' (checkpoint_file demo_pre_args ''1'' 21) = None"
proof -
  obtain a' st' where run: "base_pretrain demo_ops demo_pre_env demo_pre_args demo_pre_store 0
               (TorchLoader ImageFolder Transforms 256 True True) 22 BASE_PRETRAIN ''Adam-Cosine'' = Inr (a', st')"
    using demo_pre_run by blast
  have s: "start_epoch demo_pre_args = 19" "current_epoch demo_pre_args = 19" "pretrain_level BASE_PRETRAIN = ''1''"
    by (simp_all add: demo_pre_args_def demo_args_def pretrain_level_def)
  let ?S = "{current_epoch demo_pre_args + (e - start_epoch demo_pre_args) | e.
               start_epoch demo_pre_args \<le> e \<and> e < 22 \<and> 0 < e \<and> e mod 20 = 0}"
  note c = base_pretrain_checkpoints [OF run]
  note c1 = c [THEN conjunct1] and c2 = c [THEN conjunct2, THEN conjunct1]
    and c3 = c [THEN conjunct2, THEN conjunct2, THEN conjunct1]
    and c4 = c [THEN conjunct2, THEN conjunct2, THEN conjunct2]
  have ce: "current_epoch a' = 22"
    using c1 s by simp
  have S: "?S = {20}"
  proof
    show "?S \<subseteq> {20}"
      unfolding s by auto
    show "{20} \<subseteq> ?S"
      unfolding s by (auto intro!: exI [of _ 20])
  qed
  have "20 \<in> insert (current_epoch a') ?S"
    by (simp only: S) simp
  from bspec [OF c4 this] have f20: "files st' (checkpoint_file demo_pre_args ''1'' 20) \<noteq> None"
    unfolding s by auto
  have f21: "files st' (checkpoint_file demo_pre_args ''1'' 21) = None"
  proof (rule ccontr)
    assume "files st' (checkpoint_file demo_pre_args ''1'' 21) \<noteq> None"
    moreover have "\<forall>f. files st' f \<noteq> files demo_pre_store f \<longrightarrow> f \<in> checkpoint_file demo_pre_args ''1'' ` {22, 20}"
      using c3 by (simp only: S ce s(3) insert_def)
    ultimately have "checkpoint_file demo_pre_args ''1'' 21 \<in> checkpoint_file demo_pre_args ''1'' ` {22, 20}"
      by (auto simp: demo_pre_store_def)
    then show False
      by (auto simp: checkpoint_file_inj)
  qed
  show ?thesis
    using run ce c2 f20 f21 s by auto
qed



text \<open>
  C20: SimCLR pretraining never runs an epoch. \<open>base_pretrain\<close> calls
  \<open>trainer.train_epoch(epoch)\<close> and \<open>SimCLRTrainer.train_epoch\<close> takes no epoch, so with at
  least one epoch to run the first call raises \<open>TypeError\<close>; with none, only the final
  checkpoint of the untrained model is written.
\<close>

theorem simclr_base_pretrain:
  assumes "method_name a = SIMCLR"
  shows "base_pretrain m pe a st encoder ld n tt ot =
           (case SimCLRTrainer m a st encoder False (pretrain_level tt) tt of
              Inl e \<Rightarrow> Inl e
            | Inr tr \<Rightarrow> if start_epoch a < n then Inl TypeError
                       else save_state a (tr_model tr) (tr_optimizer tr) (pretrain_level tt) ot st)"
  using assms
  by (cases "start_epoch a < n")
     (auto simp: base_pretrain_def pre_trainer_def pre_epoch_def upt_conv_Cons split: sum.splits)

theorem simclr_base_pretrain_witness:
  "method_name demo_args = SIMCLR
   \<and> base_pretrain demo_ops demo_pre_env demo_args demo_pre_store 0
       (TorchLoader ImageFolder TransformsSimCLR 256 True True) 400 BASE_PRETRAIN ''Adam-Cosine'' = Inl TypeError"
proof -
  have m: "method_name demo_args = SIMCLR"
    by (simp add: demo_args_def)
  have t: "SimCLRTrainer demo_ops demo_args demo_pre_store 0 False (pretrain_level BASE_PRETRAIN) BASE_PRETRAIN
           = Inr \<lparr>tr_model = 0, tr_criterion = Model_Criterion, tr_optimizer = 0, tr_batch_size = 256\<rparr>"
    by (simp add: SimCLRTrainer_def demo_args_def params_batch_size_def load_optimizer_def demo_ops_def)
  show ?thesis
    using simclr_base_pretrain [OF m, of demo_ops demo_pre_env demo_pre_store 0
        "TorchLoader ImageFolder TransformsSimCLR 256 True True" 400 BASE_PRETRAIN "''Adam-Cosine''"] m t
    by (simp add: demo_args_def)
qed

text \<open>
  C21: the first pretraining stage returns only when the base dataset is not ImageNet (the
  \<open>ImageNet\<close> constructor rejects the keyword \<open>training_type\<close>), the method has a trainer,
  and, for SimCLR, there is no epoch to run; the second stage never returns.
\<close>

theorem first_pretrain_returns:
  assumes "first_pretrain m pe a st = Inr r"
  shows "base_dataset a \<noteq> IMAGENET \<and> method_name a \<in> {SIMCLR, DCL, SWAV, MYOW}
         \<and> (method_name a = SIMCLR \<longrightarrow> base_epochs a \<le> start_epoch a)
         \<and> second_pretrain m pe a st = Inl TypeError"
proof -
  obtain encoder ld where b: "base_first_pretrain pe a = Inr (encoder, ld)"
    and bp: "base_pretrain m pe a st encoder ld (base_epochs a) BASE_PRETRAIN (base_optimizer a) = Inr r"
    using assms by (auto simp: first_pretrain_def split: sum.splits)
  have "base_dataset a \<noteq> IMAGENET"
    using b by (auto simp: base_first_pretrain_def)
  moreover have "method_name a \<in> {SIMCLR, DCL, SWAV, MYOW}"
    using bp by (auto simp: base_pretrain_def pre_trainer_def split: if_splits sum.splits)
  moreover have "method_name a = SIMCLR \<longrightarrow> base_epochs a \<le> start_epoch a"
    using bp simclr_base_pretrain [of a m pe st encoder ld "base_epochs a" BASE_PRETRAIN "base_optimizer a"]
    by (auto split: sum.splits if_splits)
  ultimately show ?thesis
    by (simp add: second_pretrain_fails)
qed

theorem first_pretrain_returns_witness:
  "(\<exists>r. first_pretrain demo_ops demo_pre_env demo_pre_args demo_pre_store = Inr r)
   \<and> base_dataset demo_pre_args \<noteq> IMAGENET \<and> method_name demo_pre_args = DCL
   \<and> second_pretrain demo_ops demo_pre_env demo_pre_args demo_pre_store = Inl TypeError"
proof -
  have bf: "base_first_pretrain demo_pre_env demo_pre_args = Inr (0, TorchLoader ImageFolder TransformsDCL 256 True True)"
    by (simp add: base_first_pretrain_def demo_pre_env_def demo_pre_args_def demo_args_def target_loader_def
        get_target_pretrain_ds_def TargetDataset_def td_get_loader_def td_transforms_def params_batch_size_def)
  have "first_pretrain demo_ops demo_pre_env demo_pre_args demo_pre_store
        = base_pretrain demo_ops demo_pre_env demo_pre_args demo_pre_store 0
            (TorchLoader ImageFolder TransformsDCL 256 True True) 22 BASE_PRETRAIN ''Adam-Cosine''"
    by (simp add: first_pretrain_def bf) (simp add: demo_pre_args_def demo_args_def)
  moreover obtain a' st' where "base_pretrain demo_ops demo_pre_env demo_pre_args demo_pre_store 0
            (TorchLoader ImageFolder TransformsDCL 256 True True) 22 BASE_PRETRAIN ''Adam-Cosine'' = Inr (a', st')"
    using demo_pre_run by blast
  ultimately have run: "first_pretrain demo_ops demo_pre_env demo_pre_args demo_pre_store = Inr (a', st')"
    by simp
  have "base_dataset demo_pre_args \<noteq> IMAGENET \<and> method_name demo_pre_args \<in> {SIMCLR, DCL, SWAV, MYOW}
        \<and> second_pretrain demo_ops demo_pre_env demo_pre_args demo_pre_store = Inl TypeError"
    using first_pretrain_returns [OF run] by blast
  moreover have "method_name demo_pre_args = DCL"
    by (simp add: demo_pre_args_def)
  ultimately show ?thesis
    using run by blast
qed



end
