(* ===== verification/Head.thy ===== *)
theory Head
  imports Selector "HOL-Library.Sublist"
begin

text \<open>
  The classifier head \<open>LogLossHead\<close> (\<open>models/heads/logloss_head.py\<close>) and the top-k
  \<open>accuracy\<close> of \<open>utils/commons.py\<close> it reports. Tensors of predictions are lists of rows
  of a given number of columns; the index order \<open>torch.topk\<close> returns among equal scores is
  left open, as the descending reading of an admissible \<open>argsort\<close> of the Selector.
  The layers of the head (pooling, flattening, the linear layer, cross-entropy) are
  parameters.
\<close>

section \<open>\<open>accuracy\<close>\<close>

text \<open>
  The \<open>topk\<close> argument: an \<open>int\<close>, a tuple of \<open>int\<close>s, or anything else, which the
  assertion rejects.
\<close>

datatype topk_arg = TopK_Int int | TopK_Tuple "int list" | TopK_Other

datatype acc_result = AccSingle real | AccList "real list"

text \<open>\<open>if isinstance(topk, int): topk = (topk, )\<close>.\<close>

fun topk_tuple :: "topk_arg \<Rightarrow> int list" where
  "topk_tuple (TopK_Int k) = [k]"
| "topk_tuple (TopK_Tuple ks) = ks"
| "topk_tuple TopK_Other = []"

text \<open>\<open>xs[:k]\<close> for an \<open>int\<close> \<open>k\<close>.\<close>

definition py_take :: "int \<Rightarrow> 'a list \<Rightarrow> 'a list" where
  "py_take k xs = (if 0 \<le> k then take (nat k) xs else take (length xs - nat (- k)) xs)"

text \<open>
  \<open>_, pred_label = pred.topk(maxk, dim=1)\<close> on one row: the indices of the \<open>maxk\<close>
  largest scores, largest first.
\<close>

definition row_topk :: "(float64 list \<Rightarrow> nat list) \<Rightarrow> nat \<Rightarrow> real list \<Rightarrow> nat list" where
  "row_topk srt k row = take k (rev (srt (map F row)))"

text \<open>
  \<open>correct[:k].view(-1).float().sum(0)\<close>: \<open>correct\<close> is the transposed comparison of the
  top labels of each row with its target, so the sum counts, over the rows, the top labels
  among the first \<open>k\<close> that equal the row's target.
\<close>

definition correct_count :: "int \<Rightarrow> nat list list \<Rightarrow> int list \<Rightarrow> nat" where
  "correct_count k labels tg =
     sum_list (map (\<lambda>(ls, t). length (filter (\<lambda>l. int l = t) (py_take k ls))) (zip labels tg))"

text \<open>
  \<open>target.view(1, -1).expand_as(pred_label)\<close>: a single target stands for every row.
\<close>

definition expand_target :: "nat \<Rightarrow> int list \<Rightarrow> int list" where
  "expand_target n target = (if length target = 1 then replicate n (hd target) else target)"

text \<open>
  \<open>correct[:k].view(-1)\<close>: \<open>correct\<close> is computed from \<open>pred_label.t()\<close>, the transpose of
  the \<open>n \<times> maxk\<close> label tensor, and keeps its transposed strides, so the slice of its
  first \<open>r\<close> rows has strides \<open>(1, maxk)\<close>. \<open>view\<close> cannot flatten it unless it has at most
  one row or at most one column: in current PyTorch it raises \<open>RuntimeError\<close> ("view size
  is not compatible with input tensor's size and stride") otherwise.
\<close>

definition view_ok :: "nat \<Rightarrow> nat \<Rightarrow> bool" where
  "view_ok r n \<longleftrightarrow> r \<le> 1 \<or> n \<le> 1"

text \<open>
  \<open>accuracy(pred, target, topk=1)\<close> on a prediction tensor of \<open>C\<close> columns. The checks
  come in the code's order: the assertion on \<open>topk\<close>, \<open>max\<close> of an empty tuple
  (\<open>ValueError\<close>), \<open>topk\<close> with \<open>k\<close> out of \<open>[0, C]\<close> (\<open>RuntimeError\<close>), the
  expansion of the targets to the rows (\<open>RuntimeError\<close> unless one target per row or a
  single one), and, in the loop over \<open>topk\<close>, the \<open>view\<close> of \<open>correct[:k]\<close>
  (\<open>RuntimeError\<close>, see \<open>view_ok\<close>) before \<open>100.0 / pred.size(0)\<close>. On an empty batch every
  view succeeds and the division raises \<open>ZeroDivisionError\<close>; on a non-empty one the
  division is defined, so the first failing view decides.
\<close>

definition accuracy ::
  "(float64 list \<Rightarrow> nat list) \<Rightarrow> nat \<Rightarrow> real list list \<Rightarrow> int list \<Rightarrow> topk_arg \<Rightarrow> acc_result result" where
  "accuracy srt C pred target topk =
     (case topk of
        TopK_Other \<Rightarrow> Inl AssertionError
      | _ \<Rightarrow>
          (let ks = topk_tuple topk;
               return_single = (case topk of TopK_Int k \<Rightarrow> True | _ \<Rightarrow> False)
           in if ks = [] then Inl ValueError
              else
                (let maxk = Max (set ks)
                 in if maxk < 0 \<or> int C < maxk then Inl RuntimeError
                    else
                      (let labels = map (row_topk srt (nat maxk)) pred;
                           n = length pred
                       in if length target \<noteq> n \<and> length target \<noteq> 1 then Inl RuntimeError
                          else if n = 0 then Inl ZeroDivisionError
                          else if \<not> list_all (\<lambda>k. view_ok (length (py_take k [0..<nat maxk])) n) ks
                          then Inl RuntimeError
                          else
                            (let tg = expand_target n target;
                                 res = map (\<lambda>k. real (correct_count k labels tg) * (100 / real n)) ks
                             in Inr (if return_single then AccSingle (hd res) else AccList res))))))"

text \<open>The percentages \<open>accuracy\<close> returns.\<close>

fun acc_values :: "acc_result \<Rightarrow> real list" where
  "acc_values (AccSingle x) = [x]"
| "acc_values (AccList xs) = xs"

section \<open>\<open>LogLossHead\<close>\<close>

text \<open>A Python value that is a tensor or a tuple/list of tensors.\<close>

datatype 't py_obj = Obj 't | PySeq "'t list"

record loghead =
  lh_with_avg_pool :: bool
  lh_in_channels :: nat
  lh_num_classes :: nat

text \<open>\<open>LogLossHead.__init__\<close>: the encoder's \<open>fc\<close> is replaced by the classifier.\<close>

definition LogLossHead :: "bool \<Rightarrow> nat \<Rightarrow> nat \<Rightarrow> loghead" where
  "LogLossHead with_avg_pool in_channels num_classes =
     \<lparr>lh_with_avg_pool = with_avg_pool, lh_in_channels = in_channels, lh_num_classes = num_classes\<rparr>"

text \<open>
  \<open>forward(x)\<close>: \<open>x\<close> must be a one-element tuple or list, a pooled input must have four
  dimensions, and the result is the bare score tensor. \<open>tdim\<close> is \<open>Tensor.dim\<close>, \<open>pool\<close>
  the average pooling, \<open>cls\<close> the flattening followed by \<open>fc_cls\<close>.
\<close>

definition head_forward ::
  "('t \<Rightarrow> nat) \<Rightarrow> ('t \<Rightarrow> 't) \<Rightarrow> ('t \<Rightarrow> 't) \<Rightarrow> loghead \<Rightarrow> 't py_obj \<Rightarrow> 't py_obj result" where
  "head_forward tdim pool cls h x =
     (case x of
        PySeq [t] \<Rightarrow>
          (if lh_with_avg_pool h \<and> tdim t \<noteq> 4 then Inl AssertionError
           else Inr (Obj (cls (if lh_with_avg_pool h then pool t else t))))
      | _ \<Rightarrow> Inl AssertionError)"

text \<open>
  \<open>loss(cls_score, labels)\<close>: \<open>cls_score\<close> must be a one-element tuple or list; the loss
  is the criterion on its element, the accuracy \<open>accuracy(cls_score[0], labels)\<close>.
\<close>

definition head_loss ::
  "('t \<Rightarrow> 'l \<Rightarrow> real) \<Rightarrow> ('t \<Rightarrow> 'l \<Rightarrow> acc_result result) \<Rightarrow> 't py_obj \<Rightarrow> 'l
   \<Rightarrow> (real \<times> acc_result) result" where
  "head_loss crit acc cls_score labels =
     (case cls_score of
        PySeq [s] \<Rightarrow> (case acc s labels of Inl e \<Rightarrow> Inl e | Inr a \<Rightarrow> Inr (crit s labels, a))
      | _ \<Rightarrow> Inl AssertionError)"

section \<open>Lemmas\<close>






lemma py_take_prefix:
  "0 \<le> k1 \<Longrightarrow> k1 \<le> k2 \<Longrightarrow> prefix (py_take k1 xs) (py_take k2 xs)"
proof -
  assume "0 \<le> k1" "k1 \<le> k2"
  then have "nat k1 \<le> nat k2" and "0 \<le> k2"
    by simp_all
  then show ?thesis
    using \<open>0 \<le> k1\<close> by (simp add: py_take_def) (metis min_absorb1 take_is_prefix take_take)
qed

lemma accuracy_Inr:
  assumes "accuracy srt C pred target topk = Inr r"
  shows "topk_tuple topk \<noteq> [] \<and> pred \<noteq> [] \<and> 0 \<le> Max (set (topk_tuple topk)) \<and> Max (set (topk_tuple topk)) \<le> int C
         \<and> (length target = length pred \<or> length target = 1)
         \<and> list_all (\<lambda>k. view_ok (length (py_take k [0..<nat (Max (set (topk_tuple topk)))])) (length pred))
             (topk_tuple topk)
         \<and> acc_values r = map (\<lambda>k. real (correct_count k (map (row_topk srt (nat (Max (set (topk_tuple topk))))) pred)
                                             (expand_target (length pred) target))
                                  * (100 / real (length pred))) (topk_tuple topk)"
  using assms
  by (cases topk) (auto simp: accuracy_def Let_def not_less simp del: Max_less_iff split: if_splits)

lemma filter_prefix_le:
  "prefix xs ys \<Longrightarrow> length (filter P xs) \<le> length (filter P ys)"
  by (auto simp: prefix_def)

lemma correct_count_mono:
  "0 \<le> k1 \<Longrightarrow> k1 \<le> k2 \<Longrightarrow> correct_count k1 labels tg \<le> correct_count k2 labels tg"
  unfolding correct_count_def
  by (rule sum_list_mono) (auto intro: filter_prefix_le py_take_prefix)



text \<open>
  C23: a larger \<open>k\<close> never lowers the top-k accuracy: in a tuple of \<open>topk\<close> values, a
  non-negative \<open>k\<close> that is at most another gives at most its accuracy.
\<close>

theorem accuracy_topk_monotone:
  assumes "accuracy srt C pred target (TopK_Tuple ks) = Inr (AccList res)"
    and "i < length ks" and "j < length ks" and "0 \<le> ks ! i" and "ks ! i \<le> ks ! j"
  shows "res ! i \<le> res ! j"
proof -
  let ?L = "map (row_topk srt (nat (Max (set ks)))) pred" and ?tg = "expand_target (length pred) target"
  have r: "res = map (\<lambda>k. real (correct_count k ?L ?tg) * (100 / real (length pred))) ks"
    using accuracy_Inr [OF assms(1)] by simp
  have "correct_count (ks ! i) ?L ?tg \<le> correct_count (ks ! j) ?L ?tg"
    using correct_count_mono [OF assms(4,5)] .
  then have "real (correct_count (ks ! i) ?L ?tg) * (100 / real (length pred))
             \<le> real (correct_count (ks ! j) ?L ?tg) * (100 / real (length pred))"
    by (intro mult_right_mono) simp_all
  then show ?thesis
    unfolding r using assms(2,3) by simp
qed

theorem accuracy_topk_monotone_witness:
  "accuracy stable_argsort 3 [[0.1, 0.7, 0.2]] [2] (TopK_Tuple [1, 2, 3])
     = Inr (AccList [0, 100, 100])
   \<and> 0 < length [1, 2, 3::int] \<and> 2 < length [1, 2, 3::int] \<and> (0::int) \<le> [1, 2, 3] ! 0
   \<and> [1, 2, 3::int] ! 0 \<le> [1, 2, 3] ! 2 \<and> [0, 100, 100::real] ! 0 \<le> [0, 100, 100] ! 2"
proof -
  have run: "accuracy stable_argsort 3 [[0.1, 0.7, 0.2]] [2] (TopK_Tuple [1, 2, 3])
       = Inr (AccList [0, 100, 100])"
    by (simp add: accuracy_def row_topk_def stable_argsort_def correct_count_def py_take_def expand_target_def
        upt_rec view_ok_def)
  have "[0, 100, 100::real] ! 0 \<le> [0, 100, 100] ! 2"
    by (rule accuracy_topk_monotone [OF run]) simp_all
  with run show ?thesis
    by simp
qed

lemma py_take_upt_length: "0 \<le> k \<Longrightarrow> k \<le> int n \<Longrightarrow> length (py_take k [0..<n]) = nat k"
  by (simp add: py_take_def)

text \<open>
  C24: top-k accuracy with \<open>k \<ge> 2\<close> fails on every batch of two or more rows. Once the
  arguments pass their checks, a \<open>k \<ge> 2\<close> in \<open>topk\<close> makes \<open>correct[:k]\<close> a slice of at
  least two rows of the transposed \<open>correct\<close>, which \<open>view(-1)\<close> cannot flatten: the call
  raises \<open>RuntimeError\<close>. Only top-1 (the default) and single-image batches return.
\<close>

theorem accuracy_view_error:
  assumes "2 \<le> length pred" and "topk \<noteq> TopK_Other" and "k \<in> set (topk_tuple topk)" and "2 \<le> k"
    and "Max (set (topk_tuple topk)) \<le> int C" and "length target = length pred \<or> length target = 1"
  shows "accuracy srt C pred target topk = Inl RuntimeError"
proof -
  let ?ks = "topk_tuple topk"
  have ne: "?ks \<noteq> []" and km: "k \<le> Max (set ?ks)"
    using assms(3) by auto
  have "length (py_take k [0..<nat (Max (set ?ks))]) = nat k"
    using km assms(4) by (simp add: py_take_upt_length)
  then have "\<not> view_ok (length (py_take k [0..<nat (Max (set ?ks))])) (length pred)"
    using assms(1,4) by (simp add: view_ok_def)
  then have v: "\<not> list_all (\<lambda>k. view_ok (length (py_take k [0..<nat (Max (set ?ks))])) (length pred)) ?ks"
    using assms(3) by (auto simp: list_all_iff)
  have "0 \<le> Max (set ?ks)" and p: "pred \<noteq> []"
    using km assms(1,4) by auto
  then show ?thesis
    using assms(2,5,6) ne v
    by (cases topk) (auto simp: accuracy_def Let_def not_less simp del: Max_less_iff)
qed

theorem accuracy_view_error_witness:
  "2 \<le> length [[0.1, 0.7, 0.2], [0.5, 0.3, 0.2::real]] \<and> TopK_Int 2 \<noteq> TopK_Other
   \<and> (2::int) \<in> set (topk_tuple (TopK_Int 2)) \<and> (2::int) \<le> 2
   \<and> Max (set (topk_tuple (TopK_Int 2))) \<le> int 3
   \<and> (length [1, 2::int] = length [[0.1, 0.7, 0.2], [0.5, 0.3, 0.2::real]] \<or> length [1, 2::int] = 1)
   \<and> accuracy stable_argsort 3 [[0.1, 0.7, 0.2], [0.5, 0.3, 0.2]] [1, 2] (TopK_Int 2) = Inl RuntimeError"
proof -
  have h: "2 \<le> length [[0.1, 0.7, 0.2], [0.5, 0.3, 0.2::real]]" "TopK_Int 2 \<noteq> TopK_Other"
    "(2::int) \<in> set (topk_tuple (TopK_Int 2))" "(2::int) \<le> 2" "Max (set (topk_tuple (TopK_Int 2))) \<le> int 3"
    "length [1, 2::int] = length [[0.1, 0.7, 0.2], [0.5, 0.3, 0.2::real]] \<or> length [1, 2::int] = 1"
    by simp_all
  show ?thesis
    using accuracy_view_error [OF h, of stable_argsort] h by simp
qed

text \<open>
  C25: \<open>LogLossHead.forward\<close> returns the bare score tensor while \<open>loss\<close> asserts a
  one-element tuple or list, so \<open>loss\<close> applied to what \<open>forward\<close> returns always fails
  its assertion.
\<close>

theorem head_forward_loss_mismatch:
  assumes "head_forward tdim pool cls h x = Inr y"
  shows "head_loss crit acc y labels = Inl AssertionError"
  using assms
  by (auto simp: head_forward_def head_loss_def split: py_obj.splits list.splits if_splits)

theorem head_forward_loss_mismatch_witness:
  "head_forward (\<lambda>t. 4) id Suc (LogLossHead False 2048 1000) (PySeq [3::nat]) = Inr (Obj 4)
   \<and> head_loss (\<lambda>s l. 0) (\<lambda>s l. Inr (AccSingle 100)) (Obj (4::nat)) (1::int) = Inl AssertionError"
proof -
  have f: "head_forward (\<lambda>t. 4) id Suc (LogLossHead False 2048 1000) (PySeq [3::nat]) = Inr (Obj 4)"
    by (simp add: head_forward_def LogLossHead_def)
  show ?thesis
    using head_forward_loss_mismatch [OF f, of "\<lambda>s l. 0" "\<lambda>s l. Inr (AccSingle 100)" "1::int"] f by simp
qed

text \<open>
  C31: the inputs on which \<open>accuracy\<close> returns are exactly the ones that pass its checks:
  \<open>topk\<close> an \<open>int\<close> or a non-empty tuple whose largest value lies in \<open>[0, C]\<close>, a
  non-empty batch, one target per row or a single target that is broadcast, and, for every
  \<open>k\<close>, a slice \<open>correct[:k]\<close> that \<open>view(-1)\<close> can flatten (at most one row, or a batch
  of one image). Everything else raises.
\<close>

theorem accuracy_returns:
  "(\<exists>r. accuracy srt C pred target topk = Inr r) \<longleftrightarrow>
     topk \<noteq> TopK_Other \<and> topk_tuple topk \<noteq> [] \<and> pred \<noteq> []
     \<and> 0 \<le> Max (set (topk_tuple topk)) \<and> Max (set (topk_tuple topk)) \<le> int C
     \<and> (length target = length pred \<or> length target = 1)
     \<and> list_all (\<lambda>k. view_ok (length (py_take k [0..<nat (Max (set (topk_tuple topk)))])) (length pred))
         (topk_tuple topk)"
proof
  assume "\<exists>r. accuracy srt C pred target topk = Inr r"
  then obtain r where r: "accuracy srt C pred target topk = Inr r" ..
  have "topk \<noteq> TopK_Other"
    using r by (auto simp: accuracy_def)
  then show "topk \<noteq> TopK_Other \<and> topk_tuple topk \<noteq> [] \<and> pred \<noteq> []
     \<and> 0 \<le> Max (set (topk_tuple topk)) \<and> Max (set (topk_tuple topk)) \<le> int C
     \<and> (length target = length pred \<or> length target = 1)
     \<and> list_all (\<lambda>k. view_ok (length (py_take k [0..<nat (Max (set (topk_tuple topk)))])) (length pred))
         (topk_tuple topk)"
    using accuracy_Inr [OF r] by blast
next
  assume "topk \<noteq> TopK_Other \<and> topk_tuple topk \<noteq> [] \<and> pred \<noteq> []
     \<and> 0 \<le> Max (set (topk_tuple topk)) \<and> Max (set (topk_tuple topk)) \<le> int C
     \<and> (length target = length pred \<or> length target = 1)
     \<and> list_all (\<lambda>k. view_ok (length (py_take k [0..<nat (Max (set (topk_tuple topk)))])) (length pred))
         (topk_tuple topk)"
  then show "\<exists>r. accuracy srt C pred target topk = Inr r"
    by (cases topk) (auto simp: accuracy_def Let_def not_less simp del: Max_less_iff)
qed

theorem accuracy_returns_witness:
  "(\<exists>r. accuracy stable_argsort 3 [[0.1, 0.7, 0.2], [0.5, 0.3, 0.2]] [1, 2] (TopK_Int 1) = Inr r)
   \<and> \<not> (\<exists>r. accuracy stable_argsort 3 [[0.1, 0.7, 0.2], [0.5, 0.3, 0.2]] [1, 2] (TopK_Tuple [1, 2]) = Inr r)"
proof -
  have a: "(\<exists>r. accuracy stable_argsort 3 [[0.1, 0.7, 0.2], [0.5, 0.3, 0.2]] [1, 2] (TopK_Int 1) = Inr r)
           \<longleftrightarrow> True"
    using accuracy_returns [of stable_argsort 3 "[[0.1, 0.7, 0.2], [0.5, 0.3, 0.2]]" "[1, 2]" "TopK_Int 1"]
    by (simp add: view_ok_def py_take_def)
  have b: "(\<exists>r. accuracy stable_argsort 3 [[0.1, 0.7, 0.2], [0.5, 0.3, 0.2]] [1, 2] (TopK_Tuple [1, 2]) = Inr r)
           \<longleftrightarrow> False"
    using accuracy_returns [of stable_argsort 3 "[[0.1, 0.7, 0.2], [0.5, 0.3, 0.2]]" "[1, 2]" "TopK_Tuple [1, 2]"]
    by (simp add: view_ok_def py_take_def)
  show ?thesis
    using a b by blast
qed

end
