(* ===== verification/Spec2Isabelle.thy ===== *)
theory Spec2Isabelle
  imports AL_Prelude Config Path_Loss File_Store Selector Datasets Model_Ops Scorer Proxy_Trainer Orchestrator AL_Steps Pretrainers Head
begin

text \<open>
  \<^bold>\<open>A verification library for active-self-pretraining.\<close>

  The program (\<open>src/\<close>) pretrains an image encoder in two stages and chooses the data of the
  second stage by active learning. \<open>SelfSupPretrainer.base_pretrain\<close>
  (\<open>models/trainers/selfsup_pretrainer.py\<close>) builds a trainer for the configured method,
  runs the epochs from \<open>args.start_epoch\<close>, steps the scheduler, saves a checkpoint every 20
  epochs and once at the end; \<open>first_pretrain\<close> obtains its loader from
  \<open>BasePretrainer.first_pretrain\<close> (\<open>base_pretrainer.py\<close>, with \<open>datautils/imagenet.py\<close>
  and \<open>datautils/target_dataset.py\<close>). \<open>PretextTrainer.do_active_learning\<close>
  (\<open>models/active_learning/pretext_trainer.py\<close>) scores every target image by the
  disagreement of two forward passes of the base-pretrained encoder (\<open>make_batches\<close>),
  sorts the images by that loss, and then runs \<open>args.al_batches\<close> batches over
  consecutive 6400-record slices of the sorted list. Batch 0 takes the first 5120 records.
  Every later batch reloads the proxy model saved by its predecessor, predicts on its slice
  and lets an acquisition policy (\<open>get_new_samples\<close>: least confidence or entropy) choose
  at most 5120 records. Every batch but the last retrains the proxy on the grown pool
  (\<open>train_proxy\<close>, through \<open>SimCLRTrainer\<close> of \<open>simclr_trainer.py\<close>) and saves it. The
  scored list and the final pool are persisted with the pickling helpers of
  \<open>utils/commons.py\<close>; checkpoints are found by \<open>load_saved_state\<close>. \<open>LogLossHead\<close>
  (\<open>models/heads/logloss_head.py\<close>) is a linear classifier head whose loss reports the
  top-k \<open>accuracy\<close> of \<open>utils/commons.py\<close>.

  \<^bold>\<open>Theories and the code they model.\<close>
  \<^item> \<open>AL_Prelude\<close>: Python's error kinds as the datatype \<open>py_error\<close> and results as
    \<open>py_error + 'a\<close>; list slicing (\<open>py_slice\<close>), fancy indexing (\<open>py_index_all\<close>, raising
    \<open>IndexError\<close>), \<open>sorted(..., reverse=True)\<close> (\<open>sorted_desc\<close>, CPython's stable reverse
    sort), \<open>str\<close>/\<open>int\<close> on naturals; the shared list and sorting lemmas.
  \<^item> \<open>Config\<close>: the \<open>args\<close> namespace as a record and the enumerations the code compares
    with (\<open>SSL_Method\<close>, \<open>AL_Method\<close>, \<open>TrainingType\<close>, \<open>DatasetType\<close>); they are not under
    \<open>src/\<close> and are modelled from their uses.
  \<^item> \<open>Path_Loss\<close>: the dataclass \<open>PathLoss\<close> (\<open>datautils/path_loss.py\<close>) with its generated
    order as a \<open>linorder\<close> instance.
  \<^item> \<open>File_Store\<close>: the file system as a map from paths to blobs with a writability
    predicate; \<open>save_path_loss\<close>, \<open>load_path_loss\<close>, \<open>simple_save_model\<close>,
    \<open>simple_load_model\<close>, \<open>save_state\<close>, \<open>load_saved_state\<close> and \<open>pil_loader\<close> of
    \<open>utils/commons.py\<close>; the relation \<open>writes_only\<close> says which files a computation may
    change.
  \<^item> \<open>Selector\<close>: \<open>get_new_samples\<close> with NumPy floats as \<open>float64\<close> (a real or NaN), the
    entropy computation, and \<open>argsort\<close> as a parameter constrained by \<open>is_argsort\<close>
    (NumPy's quicksort is not stable; \<open>stable_argsort\<close> is one admissible instance).
  \<^item> \<open>Datasets\<close>: \<open>TargetDataset\<close>, its \<open>get_loader\<close> transform choice and
    \<open>get_target_pretrain_ds\<close> (\<open>datautils/target_dataset.py\<close>); loaders as batch lists.
  \<^item> \<open>Model_Ops\<close>: the network, loss and optimizer as opaque functions of the record
    \<open>ops\<close>, so every theorem holds for any model.
  \<^item> \<open>Scorer\<close>: \<open>make_batches\<close> and its scoring loop.
  \<^item> \<open>Proxy_Trainer\<close>: \<open>SimCLRTrainer.__init__\<close> and \<open>train_epoch\<close>, \<open>train_proxy\<close>,
    \<open>get_predictions\<close>, \<open>finetune\<close>.
  \<^item> \<open>Orchestrator\<close>: \<open>do_active_learning\<close> as a loop over the record \<open>al_state\<close>
    (arguments, file store, proxy weights, pool, rebuild flag), and an abstract
    specification \<open>abs_loop\<close> that passes the proxy in memory.
  \<^item> \<open>AL_Steps\<close>: the same controller as an \<open>inductive\<close> small-step relation \<open>al_step\<close>
    over configurations \<open>al_cfg\<close> (phase \<open>INIT\<close>, \<open>SCORED\<close>, \<open>BATCH b\<close>, \<open>DONE\<close>,
    \<open>FAILED e\<close>), one step per batch, with the invariant \<open>al_inv\<close>; \<open>reach_writes\<close>
    tracks the store along a run.
  \<^item> \<open>Pretrainers\<close>: \<open>ImageNet\<close> and its \<open>get_loader\<close>, \<open>BasePretrainer.first_pretrain\<close>
    and \<open>second_pretrain\<close>, \<open>SelfSupPretrainer.base_pretrain\<close> (\<open>pre_trainer\<close>,
    \<open>pre_epochs\<close>), \<open>first_pretrain\<close> and \<open>second_pretrain\<close>. The trainers of other
    methods, the backbone and CIFAR-10 are not under \<open>src/\<close>: they are the fields of the
    record \<open>pre_env\<close>, whose \<open>ext_epoch\<close> is any function of the trainer, loader and step.
  \<^item> \<open>Head\<close>: \<open>accuracy\<close> (top-k with \<open>torch.topk\<close>'s order among equal scores left to
    an admissible argsort), \<open>LogLossHead.__init__\<close>, \<open>forward\<close> and \<open>loss\<close>.

  \<^bold>\<open>What is proved.\<close> The claims are numbered as in the manifest.
  Controller: chaining the proxy through \<open>proxy_{b}.pth\<close> is the same as passing it in
  memory (C1); the two-batch run of 12800 records behaves as described (C2); the step
  relation reaches exactly the outcome of \<open>do_active_learning\<close> (C7), every reachable
  batch finds its predecessor's checkpoint (C6), later batches fail only with the listed
  Python errors (C8), the pool is bounded and persisted (C11), and a fresh pool holds only
  dataset paths, each a one-element list (C26). Persistence: a run changes only its own
  files, the scored pool, the final pool and \<open>proxy_{b}.pth\<close>, and removes none (C27); an
  unwritable proxy checkpoint aborts the run (C29); a cache that is found is used as
  stored, without rescoring and whatever the dataset (C30); pickles round-trip (C3).
  Composition: the first stage leaves \<open>args.resume\<close> at its last checkpoint, which the
  scorer's \<open>load_saved_state\<close> then reads (C28), so that the scorer, run on what the first
  stage leaves, returns and scores with those weights (C32). Scorer: every image is scored
  once and sorted descending (C4), the scorer returns whenever checkpoint and dataset exist
  (C17), and an encoder whose two passes agree (as after \<open>model.eval()\<close>) scores each image
  \<open>2 * criterion(o, o)\<close> (C16). Selector: ranking by confidence or entropy (C5, C9), at most
  5120 distinct samples of the slice (C10), NaN-entropy rows first (C14), agreement with a
  reference sort (C15), an error on too many rows (C18). Trainer: rebuilt or not, it
  returns after its epochs (C12) and raises \<open>ZeroDivisionError\<close> on an empty loader (C13).
  Pretrainers: checkpoints are written exactly for the positive multiples of 20 among the
  epochs run and at the end (C19); SimCLR base pretraining fails with \<open>TypeError\<close> as soon
  as one epoch is to run (C20); the first stage returns only off ImageNet, for a method
  with a trainer and, for SimCLR, with no epoch to run, and the second stage never returns
  (C21). Accuracy: results lie in [0, 100] (C22) and grow with k (C23); any \<open>k \<ge> 2\<close> on a
  batch of two or more rows raises at \<open>view(-1)\<close> (C24); results are returned exactly on
  the inputs that pass every check (C31). \<open>LogLossHead.loss\<close> fails its assertion on
  whatever \<open>forward\<close> returns (C25).

  \<^bold>\<open>Bounds and fuel.\<close> Every loop of the modelled code runs over a list or a counter
  (batches, epochs, batch indices) and is a \<open>fun\<close> by structural recursion; \<open>chunks\<close>
  terminates by the measure \<open>length\<close>; the runs of the step relation are those of the
  function (C7). No fuel is needed. The constants 6400, 5120 and 20
  are the code's.

  \<^bold>\<open>Not modelled.\<close> Tensor numerics (the encoder, NT-Xent, the optimizer) beyond
  their interface; floating-point rounding (reals stand for floats, with NaN added where
  the code can produce it); logging, printing and TensorBoard writes; image sizes and
  pixel transforms; \<open>PretextDataLoader\<close>, the backbones, CIFAR-10 and the DCL, SwAV and MYOW
  trainers, which are not under \<open>src/\<close> (they are parameters: \<open>al_env\<close>, \<open>ops\<close>,
  \<open>pre_env\<close>). The model and optimizer objects that \<open>base_pretrain\<close> reads once from the
  trainer are the trainer's own, so the model passes them by value after each epoch.
  The softmax of \<open>get_predictions\<close> is exact real arithmetic: the float32 underflow to
  0, which makes an entropy NaN, is not modelled, and no property relies on its absence
  (C14 is stated for any probability row). The \<open>view(-1)\<close> error of \<open>accuracy\<close> follows
  current PyTorch, where the transposed \<open>correct\<close> is not contiguous.
  Pixel data and PIL's mode conversion are opaque (\<open>pil_loader\<close> takes the conversion as
  a parameter). The constructors \<open>PretextTrainer.__init__\<close> and
  \<open>SelfSupPretrainer.__init__\<close> only store \<open>args\<close> and the writer, which the model passes
  as arguments. Python's shared mutable \<open>args\<close> is returned updated by each operation; on
  an exception the model returns only the exception, so the state an exception leaves in
  \<open>args\<close> (e.g. \<open>al_batch_size = 1\<close> after a failed scoring pass) is outside the model.
\<close>

section \<open>Properties across components\<close>

lemma scored_paths:
  assumes "make_batches m a w st items = Inr (a1, st1, pl)" and "x \<in> set pl"
  shows "\<exists>it \<in> set items. path x = [snd it]"
proof -
  obtain w' where pl: "pl = sorted_desc loss (score_batches m w' 0 (map (\<lambda>x. [x]) items))"
    using make_batches_Inr [OF assms(1)] by blast
  have "path x \<in> set (map path (score_batches m w' 0 (map (\<lambda>x. [x]) items)))"
    using assms(2) unfolding pl sorted_desc_set by simp
  then show ?thesis
    unfolding score_batches_paths by auto
qed

lemma demo_no_cache:
  "load_path_loss (demo_args\<lparr>al_batches := 1\<rparr>) (al_path_loss_file demo_args) demo_store = Inr None"
  by (simp add: load_path_loss_def demo_store_def demo_args_def checkpoint_file_def path_join_def ckpt_prefix_def)

lemma demo_fresh_run:
  "do_active_learning demo_ops demo_env (demo_args\<lparr>al_batches := 1\<rparr>) 0 demo_store
   = Inr (demo_args\<lparr>al_batches := 1\<rparr>,
          save_path_loss (demo_args\<lparr>al_batches := 1\<rparr>) ''pretrain_path_loss.pkl''
            [PathLoss [''b.png''] 4, PathLoss [''a.png''] 2]
            (save_path_loss (demo_args\<lparr>al_batches := 1\<rparr>) ''al_path_loss.pkl''
               [PathLoss [''b.png''] 4, PathLoss [''a.png''] 2] demo_store),
          [PathLoss [''b.png''] 4, PathLoss [''a.png''] 2])"
proof -
  let ?a = "demo_args\<lparr>al_batches := 1\<rparr>"
  have ls: "load_saved_state ?a True ''1'' demo_store
            = Inr (Torch_Checkpoint 5 ''Adam-Cosine-optimizer'' 0)"
    by (simp add: load_saved_state_def demo_store_def resume_set_def demo_args_def checkpoint_file_def)
  have tl: "target_loader (?a\<lparr>al_batch_size := 1\<rparr>) ACTIVE_LEARNING True None
            = Inr (TorchLoader MakeBatchDataset Transforms 1 True True)"
    by (simp add: target_loader_def get_target_pretrain_ds_def demo_args_def TargetDataset_def
        td_get_loader_def td_transforms_def params_batch_size_def)
  note nc = demo_no_cache
  have mb: "make_batches demo_ops ?a 0 demo_store demo_items
            = Inr (?a, save_path_loss ?a ''al_path_loss.pkl'' [PathLoss [''b.png''] 4, PathLoss [''a.png''] 2] demo_store,
                   [PathLoss [''b.png''] 4, PathLoss [''a.png''] 2])"
  proof -
    have fn: "al_path_loss_file ?a = ''al_path_loss.pkl''" and bs: "al_batch_size ?a = 256"
      by (simp_all add: demo_args_def)
    show ?thesis
      by (simp add: make_batches_def Let_def ls [unfolded One_nat_def] tl [unfolded One_nat_def] fn bs
          loader_batches_AL_1 [unfolded One_nat_def] state_model_def demo_items_def)
         (simp add: demo_ops_def sorted_desc_def demo_args_def)
  qed
  show ?thesis
  proof -
    have pf: "pretrain_path_loss_file demo_args = ''pretrain_path_loss.pkl''"
      and di: "dataset_items demo_env = demo_items"
      by (simp_all add: demo_args_def demo_env_def)
    show ?thesis
      by (simp add: do_active_learning_def scored_pool_def nc [unfolded One_nat_def] mb [unfolded One_nat_def]
          di init_state_def al_batch_def batch_selection_def batch_slice_def py_slice_def pf)
  qed
qed

text \<open>
  C26: the records of a freshly scored pretraining pool are typed as the scorer makes them:
  when no scored pool is cached, every record \<open>do_active_learning\<close> returns has as path
  a one-element list holding the file name of a dataset item (the scoring loader collates
  batches of one image), not a string.
\<close>

theorem al_pool_paths:
  assumes "load_path_loss a (al_path_loss_file a) st = Inr None"
    and "do_active_learning m env a w st = Inr (a', st', p)"
  shows "list_all (\<lambda>x. \<exists>it \<in> set (dataset_items env). path x = [snd it]) p"
proof -
  obtain a1 st1 pl s where mb: "make_batches m a w st (dataset_items env) = Inr (a1, st1, pl)"
    and lp: "al_loop m env pl [0..<al_batches a1] (init_state a1 st1 w) = Inr s" and p: "p = pool s"
    using assms by (auto simp: do_active_learning_def scored_pool_def split: sum.splits prod.splits)
  have "set p \<subseteq> set pl"
    using al_loop_pool [OF lp] p by (simp add: init_state_def)
  then show ?thesis
    using scored_paths [OF mb] by (auto simp: list_all_iff)
qed

theorem al_pool_paths_witness:
  "load_path_loss (demo_args\<lparr>al_batches := 1\<rparr>) (al_path_loss_file (demo_args\<lparr>al_batches := 1\<rparr>)) demo_store = Inr None
   \<and> do_active_learning demo_ops demo_env (demo_args\<lparr>al_batches := 1\<rparr>) 0 demo_store
       = Inr (demo_args\<lparr>al_batches := 1\<rparr>,
              save_path_loss (demo_args\<lparr>al_batches := 1\<rparr>) ''pretrain_path_loss.pkl''
                [PathLoss [''b.png''] 4, PathLoss [''a.png''] 2]
                (save_path_loss (demo_args\<lparr>al_batches := 1\<rparr>) ''al_path_loss.pkl''
                   [PathLoss [''b.png''] 4, PathLoss [''a.png''] 2] demo_store),
              [PathLoss [''b.png''] 4, PathLoss [''a.png''] 2])
   \<and> list_all (\<lambda>x. \<exists>it \<in> set (dataset_items demo_env). path x = [snd it])
       [PathLoss [''b.png''] 4, PathLoss [''a.png''] (2::real)]"
proof -
  have nc: "load_path_loss (demo_args\<lparr>al_batches := 1\<rparr>) (al_path_loss_file (demo_args\<lparr>al_batches := 1\<rparr>)) demo_store
            = Inr None"
    using demo_no_cache by simp
  show ?thesis
    using al_pool_paths [OF nc demo_fresh_run] nc demo_fresh_run by blast
qed

text \<open>
  C28: the first stage hands its encoder to the second. When \<open>first_pretrain\<close> returns,
  \<open>args.resume\<close> names the checkpoint of its last epoch, \<open>{prefix}_1_checkpoint_{c}.tar\<close>
  with \<open>c = current_epoch + (base_epochs - start_epoch)\<close>, and \<open>load_saved_state(args,
  recent=True)\<close>, the call with which \<open>make_batches\<close> loads the scoring encoder, reads
  that checkpoint, whatever level and \<open>args.epoch_num\<close> say, with the base optimizer's key.
\<close>

theorem first_pretrain_resume:
  assumes "first_pretrain m pe a st = Inr (a1, st1)"
  shows "resume a1 = Some (checkpoint_file a ''1'' (current_epoch a + (base_epochs a - start_epoch a)))
         \<and> (\<exists>w opt. load_saved_state a1 True l st1 = Inr (Torch_Checkpoint w (base_optimizer a @ ''-optimizer'') opt))"
proof -
  obtain g w opt where
    a1: "a1 = a\<lparr>global_step := g, current_epoch := current_epoch a + (base_epochs a - start_epoch a),
                resume := Some (checkpoint_file a ''1'' (current_epoch a + (base_epochs a - start_epoch a)))\<rparr>"
    and f: "files st1 (checkpoint_file a ''1'' (current_epoch a + (base_epochs a - start_epoch a)))
              = Some (Torch_Checkpoint w (base_optimizer a @ ''-optimizer'') opt)"
    using first_pretrain_final [OF assms] by blast
  show ?thesis
    using f by (simp add: a1 load_saved_state_def resume_set_def)
qed

theorem first_pretrain_resume_witness:
  "\<exists>a1 st1. first_pretrain demo_ops demo_pre_env demo_pre_args demo_pre_store = Inr (a1, st1)
     \<and> resume a1 = Some (checkpoint_file demo_pre_args ''1'' 22)
     \<and> (\<exists>w opt. load_saved_state a1 True ''1'' st1 = Inr (Torch_Checkpoint w ''Adam-Cosine-optimizer'' opt))"
proof -
  obtain a1 st1 where run: "first_pretrain demo_ops demo_pre_env demo_pre_args demo_pre_store = Inr (a1, st1)"
    using demo_first_pretrain by blast
  have e: "base_epochs demo_pre_args = 22" "base_optimizer demo_pre_args = ''Adam-Cosine''"
    "current_epoch demo_pre_args = 19" "start_epoch demo_pre_args = 19"
    by (simp_all add: demo_pre_args_def demo_args_def)
  show ?thesis
    using first_pretrain_resume [OF run, of "''1''"] run e by auto
qed

text \<open>
  C32: the two stages compose. When \<open>first_pretrain\<close> returns and the target dataset is
  one \<open>get_target_pretrain_ds\<close> knows, the active-learning scorer \<open>make_batches\<close>, run on
  the \<open>args\<close> and the store the first stage leaves, returns, for any model operations,
  encoder and images; and it scores with the weights of the checkpoint \<open>args.resume\<close>
  names, the last one the first stage wrote, loaded into the encoder.
\<close>

theorem pretrain_then_score:
  assumes "first_pretrain m pe a st = Inr (a1, st1)" and "\<forall>s. target_dataset a \<noteq> Unknown_Dataset s"
  shows "\<exists>w opt st2 out. resume a1 \<noteq> None
           \<and> files st1 (the (resume a1)) = Some (Torch_Checkpoint w (base_optimizer a @ ''-optimizer'') opt)
           \<and> make_batches m' a1 enc st1 items = Inr (a1, st2, out)
           \<and> out = sorted_desc loss (score_batches m' (load_sd m' enc w) 0 (map (\<lambda>x. [x]) items))"
proof -
  obtain g w opt where
    a1: "a1 = a\<lparr>global_step := g, current_epoch := current_epoch a + (base_epochs a - start_epoch a),
                resume := Some (checkpoint_file a ''1'' (current_epoch a + (base_epochs a - start_epoch a)))\<rparr>"
    and f: "files st1 (checkpoint_file a ''1'' (current_epoch a + (base_epochs a - start_epoch a)))
              = Some (Torch_Checkpoint w (base_optimizer a @ ''-optimizer'') opt)"
    using first_pretrain_final [OF assms(1)] by blast
  have r: "resume a1 = Some (checkpoint_file a ''1'' (current_epoch a + (base_epochs a - start_epoch a)))"
    and td: "\<forall>s. target_dataset a1 \<noteq> Unknown_Dataset s"
    using assms(2) by (simp_all add: a1)
  have ls: "load_saved_state a1 True ''1'' st1 = Inr (Torch_Checkpoint w (base_optimizer a @ ''-optimizer'') opt)"
    using f r by (simp add: load_saved_state_def resume_set_def)
  obtain ld where ld: "target_loader (a1\<lparr>al_batch_size := Suc 0\<rparr>) ACTIVE_LEARNING True None = Inr ld"
    and b: "loader_batches ld items = Inr (map (\<lambda>x. [x]) items)"
    using target_loader_AL_batches [OF td] by blast
  have "make_batches m' a1 enc st1 items
        = Inr (a1, save_path_loss a1 (al_path_loss_file a1)
                     (sorted_desc loss (score_batches m' (load_sd m' enc w) 0 (map (\<lambda>x. [x]) items))) st1,
               sorted_desc loss (score_batches m' (load_sd m' enc w) 0 (map (\<lambda>x. [x]) items)))"
    using ls ld b by (simp add: make_batches_def Let_def state_model_def)
  then show ?thesis
    using r f by auto
qed

theorem pretrain_then_score_witness:
  "\<exists>a1 st1. first_pretrain demo_ops demo_pre_env demo_pre_args demo_pre_store = Inr (a1, st1)
     \<and> (\<forall>s. target_dataset demo_pre_args \<noteq> Unknown_Dataset s)
     \<and> (\<exists>w opt st2 out. files st1 (the (resume a1)) = Some (Torch_Checkpoint w ''Adam-Cosine-optimizer'' opt)
          \<and> make_batches demo_ops a1 0 st1 demo_items = Inr (a1, st2, out) \<and> length out = 2)"
proof -
  obtain a1 st1 where run: "first_pretrain demo_ops demo_pre_env demo_pre_args demo_pre_store = Inr (a1, st1)"
    using demo_first_pretrain by blast
  have td: "\<forall>s. target_dataset demo_pre_args \<noteq> Unknown_Dataset s"
    by (simp add: demo_pre_args_def demo_args_def)
  have e: "base_optimizer demo_pre_args = ''Adam-Cosine''"
    by (simp add: demo_pre_args_def demo_args_def)
  obtain w opt st2 out where
    f: "files st1 (the (resume a1)) = Some (Torch_Checkpoint w (base_optimizer demo_pre_args @ ''-optimizer'') opt)"
    and mb: "make_batches demo_ops a1 0 st1 demo_items = Inr (a1, st2, out)"
    and o: "out = sorted_desc loss (score_batches demo_ops (load_sd demo_ops 0 w) 0 (map (\<lambda>x. [x]) demo_items))"
    using pretrain_then_score [OF run td, of demo_ops 0 demo_items] by blast
  have "length out = 2"
    by (simp only: o sorted_desc_length score_batches_length length_map) (simp add: demo_items_def)
  then show ?thesis
    using run td f mb e by auto
qed

end
